theory Spec2Isabelle
  imports Complex_Main "HOL-Library.Monad_Syntax"
begin

section \<open>The logo scene of js/logoScene.js\<close>

text \<open>
  The particle emblem assembles, sways, disperses and waits, forever. This theory embeds
  the helpers, \<open>prepareBuildCycle\<close> and \<open>tick\<close> of \<open>js/logoScene.js\<close>.

  Numbers. A JavaScript number is an IEEE double and the particle buffers are
  \<open>Float32Array\<close>s. The model computes in \<^typ>\<open>real\<close>: rounding is not modelled. What a
  real cannot hold is made explicit instead of being hidden in HOL's total functions:
  a division by zero (JavaScript answers \<open>Infinity\<close> or \<open>NaN\<close>) and a typed-array read
  out of range (JavaScript answers \<open>undefined\<close>, which arithmetic turns into \<open>NaN\<close>)
  are \<open>None\<close>, and every function that may meet one returns an \<open>option\<close>. \<open>None\<close> says
  that the computation has left the finite numbers, not that JavaScript stops: it goes on
  with \<open>Infinity\<close> or \<open>NaN\<close>, where the model does not follow it.
\<close>

subsection \<open>Settings\<close>

abbreviation LOGO_DIAMETER :: real where "LOGO_DIAMETER \<equiv> 6.0"
abbreviation BUILD_startJitter :: real where "BUILD_startJitter \<equiv> 1.2"
abbreviation BUILD_minDur :: real where "BUILD_minDur \<equiv> 2.0"
abbreviation BUILD_maxDur :: real where "BUILD_maxDur \<equiv> 4.0"
abbreviation BUILD_planeFadeAt :: real where "BUILD_planeFadeAt \<equiv> 0.92"
abbreviation HANDOFF_startProg :: real where "HANDOFF_startProg \<equiv> 0.94"
abbreviation HANDOFF_endProg :: real where "HANDOFF_endProg \<equiv> 1.00"
abbreviation SHAKE_secs :: real where "SHAKE_secs \<equiv> 8.0"
abbreviation SHAKE_maxYawDeg :: real where "SHAKE_maxYawDeg \<equiv> 25"
abbreviation SHAKE_speed :: real where "SHAKE_speed \<equiv> 0.5"
abbreviation EXIT_startJitter :: real where "EXIT_startJitter \<equiv> 0.5"
abbreviation EXIT_minDur :: real where "EXIT_minDur \<equiv> 1.0"
abbreviation EXIT_maxDur :: real where "EXIT_maxDur \<equiv> 1.8"
abbreviation EXIT_pushDistance :: real where "EXIT_pushDistance \<equiv> 6.0"
abbreviation LOOP_rebuildDelay :: real where "LOOP_rebuildDelay \<equiv> 1.0"

subsection \<open>Numbers that may leave the reals\<close>

definition js_div :: "real \<Rightarrow> real \<Rightarrow> real option" where
  \<comment> \<open>\<open>x / y\<close>: with \<open>y = 0\<close> the result is \<open>Infinity\<close> or \<open>NaN\<close>, not a real.\<close>
  "js_div x y = (if y = 0 then None else Some (x / y))"

definition rd :: "real list \<Rightarrow> nat \<Rightarrow> real option" where
  \<comment> \<open>\<open>a[i]\<close> on a typed array: \<open>undefined\<close> out of range.\<close>
  "rd a i = (if i < length a then Some (a ! i) else None)"

text \<open>
  A write \<open>a[i] = v\<close> on a typed array is ignored out of range; so is \<open>a[i := v]\<close>.
\<close>

subsection \<open>Helpers\<close>

definition easeOutExpo :: "real \<Rightarrow> real" where
  "easeOutExpo t = (if t \<ge> 1 then 1 else 1 - 2 powr (-10 * t))"

definition easeInCubic :: "real \<Rightarrow> real" where
  "easeInCubic t = t * t * t"

definition clamp01 :: "real \<Rightarrow> real" where
  "clamp01 v = max 0 (min 1 v)"

definition smoothstep :: "real \<Rightarrow> real \<Rightarrow> real \<Rightarrow> real option" where
  "smoothstep a b x =
     (case js_div (x - a) (b - a) of
        None \<Rightarrow> None
      | Some q \<Rightarrow> (let t = clamp01 q in Some (t * t * (3 - 2 * t))))"

definition lerp :: "real \<Rightarrow> real \<Rightarrow> real \<Rightarrow> real" where
  \<comment> \<open>\<open>THREE.MathUtils.lerp\<close> of three.js r160.\<close>
  "lerp x y t = (1 - t) * x + t * y"

definition degToRad :: "real \<Rightarrow> real" where
  \<comment> \<open>\<open>THREE.MathUtils.degToRad\<close>.\<close>
  "degToRad degrees = degrees * (pi / 180)"

definition MAX_YAW :: real where
  "MAX_YAW = degToRad SHAKE_maxYawDeg"

definition progress :: "real \<Rightarrow> real \<Rightarrow> real \<Rightarrow> real \<Rightarrow> real option" where
  \<comment> \<open>\<open>clamp01((now - tPhaseStart - start) / dur)\<close>, as \<open>tick\<close> computes it for every particle, in BUILD\_SPIN and in EXIT.\<close>
  "progress now t0 start dur = map_option clamp01 (js_div (now - t0 - start) dur)"

subsection \<open>The scene\<close>

datatype phase = BUILD_SPIN | SHAKE | EXIT | WAIT

text \<open>
  The module's top-level bindings, as far as \<open>prepareBuildCycle\<close> and \<open>tick\<close> read or write
  them. The geometry attributes alias module arrays: \<open>target\<close> is \<open>endPositions\<close>, \<open>t0\<close> is
  \<open>startTimesBuild\<close>, \<open>td\<close> is \<open>durationsBuild\<close> (none is written after it is attached);
  \<open>position\<close> is a copy of its own (\<open>startPositions.slice()\<close>). The buffers are flat:
  particle \<open>i\<close> owns the indices \<open>i*3\<close>, \<open>i*3+1\<close>, \<open>i*3+2\<close>. \<open>draws\<close> counts the calls of
  \<open>Math.random()\<close> so far; the values it returns are the sequence \<open>rnd\<close> given to the model.
\<close>

record scene =
  phase :: phase
  tPhaseStart :: real
  shakePhase :: real
  N :: nat
  bounds_w :: real
  bounds_h :: real
  scale :: real
  startPositions :: "real list"
  endPositions :: "real list"
  exitPositions :: "real list"
  position :: "real list"
  startTimesBuild :: "real list"
  durationsBuild :: "real list"
  startTimesExit :: "real list"
  durationsExit :: "real list"
  avgBuildProgress :: real
  points_visible :: bool
  points_opacity :: real
  plane_opacity :: real
  rotation_x :: real
  rotation_y :: real
  rotation_z :: real
  draws :: nat

text \<open>
  What one frame reads from its clocks: \<open>now\<close> is \<open>performance.now() / 1000\<close> at the top of
  \<open>tick\<close>, \<open>dt\<close> is \<open>clock.getDelta()\<close>, and \<open>prepare_now\<close> is \<open>performance.now() / 1000\<close> as
  \<open>prepareBuildCycle\<close> reads it again, should the frame call it.
\<close>

record frame =
  now :: real
  dt :: real
  prepare_now :: real

subsection \<open>Iteration and random numbers\<close>

text \<open>\<open>for (let i = lo; i < n; i++) body\<close>, the body threading a state and possibly failing.\<close>

function for_loop :: "nat \<Rightarrow> nat \<Rightarrow> (nat \<Rightarrow> 'a \<Rightarrow> 'a option) \<Rightarrow> 'a \<Rightarrow> 'a option" where
  "for_loop i n body st =
     (if i < n then (case body i st of None \<Rightarrow> None | Some st' \<Rightarrow> for_loop (Suc i) n body st')
      else Some st)"
  by pat_completeness auto
termination
  by (relation "measure (\<lambda>(i, n, body, st). n - i)") auto

declare for_loop.simps [simp del]

definition Math_random :: "(nat \<Rightarrow> real) \<Rightarrow> nat \<Rightarrow> real \<times> nat" where
  \<comment> \<open>\<open>Math.random()\<close> at call count \<open>c\<close>: the value and the new count.\<close>
  "Math_random rnd c = (rnd c, Suc c)"

definition randBetween :: "(nat \<Rightarrow> real) \<Rightarrow> real \<Rightarrow> real \<Rightarrow> nat \<Rightarrow> real \<times> nat" where
  "randBetween rnd a b c = (let (u, c') = Math_random rnd c in (a + u * (b - a), c'))"

definition Math_hypot :: "real \<Rightarrow> real \<Rightarrow> real" where
  "Math_hypot x y = sqrt (x * x + y * y)"

subsection \<open>prepareBuildCycle\<close>

definition spawn_body :: "(nat \<Rightarrow> real) \<Rightarrow> real \<Rightarrow> real \<Rightarrow> nat \<Rightarrow> scene \<Rightarrow> scene option" where
  \<comment> \<open>The body of the first loop: spawn point and exit target of particle \<open>i\<close>.\<close>
  "spawn_body rnd halfW halfH i st =
     (let (r0, c1) = Math_random rnd (draws st);
          edge = \<lfloor>r0 * 4\<rfloor>;
          (r1, c2) = Math_random rnd c1;
          sz = (r1 * 2 - 1) * 0.8;
          (sx, sy, c3) =
            (if edge = 0 then (let (v, c) = randBetween rnd (- halfH) halfH c2 in (- halfW, v, c))
             else if edge = 1 then (let (v, c) = randBetween rnd (- halfH) halfH c2 in (halfW, v, c))
             else if edge = 2 then (let (v, c) = randBetween rnd (- halfW) halfW c2 in (v, halfH, c))
             else (let (v, c) = randBetween rnd (- halfW) halfW c2 in (v, - halfH, c)));
          ix = i * 3
      in do {
        vx \<leftarrow> rd (endPositions st) (ix + 0);
        vy \<leftarrow> rd (endPositions st) (ix + 1);
        let h = Math_hypot vx vy;
        let len = (if h = 0 then 1 else h);
        dx \<leftarrow> js_div vx len;
        dy \<leftarrow> js_div vy len;
        let (r3, c4) = Math_random rnd c3;
        let mag = EXIT_pushDistance + r3 * (LOGO_DIAMETER * 0.8);
        let (r4, c5) = Math_random rnd c4;
        Some (st\<lparr>startPositions := (startPositions st)[ix + 0 := sx, ix + 1 := sy, ix + 2 := sz],
                  exitPositions := (exitPositions st)
                    [ix + 0 := vx + dx * mag, ix + 1 := vy + dy * mag, ix + 2 := (r4 * 2 - 1) * 1.2],
                  draws := c5\<rparr>)
      })"

definition build_timing_body :: "(nat \<Rightarrow> real) \<Rightarrow> nat \<Rightarrow> scene \<Rightarrow> scene option" where
  "build_timing_body rnd i st =
     (let (r0, c1) = Math_random rnd (draws st);
          (r1, c2) = Math_random rnd c1
      in Some (st\<lparr>startTimesBuild := (startTimesBuild st)[i := r0 * BUILD_startJitter],
                   durationsBuild := (durationsBuild st)
                     [i := BUILD_minDur + r1 * (BUILD_maxDur - BUILD_minDur)],
                   draws := c2\<rparr>))"

definition exit_timing_body :: "(nat \<Rightarrow> real) \<Rightarrow> nat \<Rightarrow> scene \<Rightarrow> scene option" where
  "exit_timing_body rnd i st =
     (let (r0, c1) = Math_random rnd (draws st);
          (r1, c2) = Math_random rnd c1
      in Some (st\<lparr>startTimesExit := (startTimesExit st)[i := r0 * EXIT_startJitter],
                   durationsExit := (durationsExit st)
                     [i := EXIT_minDur + r1 * (EXIT_maxDur - EXIT_minDur)],
                   draws := c2\<rparr>))"

definition prepareBuildCycle :: "(nat \<Rightarrow> real) \<Rightarrow> real \<Rightarrow> scene \<Rightarrow> scene option" where
  "prepareBuildCycle rnd tnow st =
     (let st0 = st\<lparr>startPositions := replicate (N st * 3) 0, exitPositions := replicate (N st * 3) 0\<rparr>;
          PAD = LOGO_DIAMETER * 0.75;
          halfW = (bounds_w st * scale st) / 2 + PAD;
          halfH = (bounds_h st * scale st) / 2 + PAD
      in do {
        st1 \<leftarrow> for_loop 0 (N st) (spawn_body rnd halfW halfH) st0;
        let st2 = st1\<lparr>position := startPositions st1,
                       startTimesBuild := replicate (N st) 0, durationsBuild := replicate (N st) 0\<rparr>;
        st3 \<leftarrow> for_loop 0 (N st) (build_timing_body rnd) st2;
        let st4 = st3\<lparr>startTimesExit := replicate (N st) 0, durationsExit := replicate (N st) 0\<rparr>;
        st5 \<leftarrow> for_loop 0 (N st) (exit_timing_body rnd) st4;
        Some (st5\<lparr>points_visible := True, points_opacity := 1.0, plane_opacity := 0.0,
                   rotation_x := 0, rotation_y := - pi, rotation_z := 0,
                   shakePhase := 0, phase := BUILD_SPIN, tPhaseStart := tnow,
                   avgBuildProgress := 0\<rparr>)
      })"

subsection \<open>tick\<close>

definition build_body :: "real \<Rightarrow> nat \<Rightarrow> scene \<times> real \<Rightarrow> (scene \<times> real) option" where
  \<comment> \<open>The body of the BUILD\_SPIN loop, on the scene and the local \<open>avg\<close>.\<close>
  "build_body tnow i = (\<lambda>(st, avg). do {
      start \<leftarrow> rd (startTimesBuild st) i;
      dur \<leftarrow> rd (durationsBuild st) i;
      prog \<leftarrow> progress tnow (tPhaseStart st) start dur;
      let e = easeOutExpo prog;
      let ix = i * 3;
      a0 \<leftarrow> rd (startPositions st) (ix + 0);
      b0 \<leftarrow> rd (endPositions st) (ix + 0);
      a1 \<leftarrow> rd (startPositions st) (ix + 1);
      b1 \<leftarrow> rd (endPositions st) (ix + 1);
      a2 \<leftarrow> rd (startPositions st) (ix + 2);
      b2 \<leftarrow> rd (endPositions st) (ix + 2);
      Some (st\<lparr>position := (position st)
                  [ix + 0 := lerp a0 b0 e, ix + 1 := lerp a1 b1 e, ix + 2 := lerp a2 b2 e]\<rparr>,
            avg + e)
    })"

definition exit_body :: "real \<Rightarrow> nat \<Rightarrow> scene \<times> nat \<Rightarrow> (scene \<times> nat) option" where
  \<comment> \<open>The body of the EXIT loop, on the scene and the local \<open>done\<close>.\<close>
  "exit_body tnow i = (\<lambda>(st, done). do {
      start \<leftarrow> rd (startTimesExit st) i;
      dur \<leftarrow> rd (durationsExit st) i;
      p \<leftarrow> progress tnow (tPhaseStart st) start dur;
      let e = easeInCubic p;
      let ix = i * 3;
      a0 \<leftarrow> rd (endPositions st) (ix + 0);
      b0 \<leftarrow> rd (exitPositions st) (ix + 0);
      a1 \<leftarrow> rd (endPositions st) (ix + 1);
      b1 \<leftarrow> rd (exitPositions st) (ix + 1);
      a2 \<leftarrow> rd (endPositions st) (ix + 2);
      b2 \<leftarrow> rd (exitPositions st) (ix + 2);
      Some (st\<lparr>position := (position st)
                  [ix + 0 := lerp a0 b0 e, ix + 1 := lerp a1 b1 e, ix + 2 := lerp a2 b2 e]\<rparr>,
            if p \<ge> 1 then done + 1 else done)
    })"

definition tick_BUILD_SPIN :: "frame \<Rightarrow> scene \<Rightarrow> scene option" where
  "tick_BUILD_SPIN f st = do {
      (st1, avg) \<leftarrow> for_loop 0 (N st) (build_body (now f)) (st, 0);
      a \<leftarrow> js_div avg (real (N st1));
      let st2 = st1\<lparr>avgBuildProgress := a\<rparr>;
      let st3 = (if avgBuildProgress st2 > BUILD_planeFadeAt
                 then st2\<lparr>plane_opacity := min 1 (plane_opacity st2 + 0.03)\<rparr> else st2);
      s \<leftarrow> smoothstep HANDOFF_startProg HANDOFF_endProg (avgBuildProgress st3);
      let yawBuild = lerp (- pi) 0 (avgBuildProgress st3);
      let st4 = st3\<lparr>shakePhase := shakePhase st3 + SHAKE_speed * dt f * (if s > 0 then 1 else 0)\<rparr>;
      let yawShake = MAX_YAW * sin (shakePhase st4) * s;
      let st5 = st4\<lparr>rotation_y := (1 - s) * yawBuild + yawShake,
                     rotation_x := sin (now f * 0.6) * 0.05\<rparr>;
      let fade = (1 - s) powr 1.5;
      let st6 = st5\<lparr>points_opacity := fade\<rparr>;
      let st7 = (if s \<ge> 0.999 then st6\<lparr>points_visible := False\<rparr> else st6);
      Some (if s \<ge> 0.999 \<and> plane_opacity st7 \<ge> 0.999
            then st7\<lparr>phase := SHAKE, tPhaseStart := now f\<rparr> else st7)
    }"

definition tick_SHAKE :: "frame \<Rightarrow> scene \<Rightarrow> scene" where
  "tick_SHAKE f st =
     (let st1 = st\<lparr>shakePhase := shakePhase st + SHAKE_speed * dt f\<rparr>;
          st2 = st1\<lparr>rotation_y := MAX_YAW * sin (shakePhase st1),
                     rotation_x := sin (now f * 0.6) * 0.05\<rparr>
      in if now f - tPhaseStart st2 \<ge> SHAKE_secs
         then st2\<lparr>points_visible := True, points_opacity := 1.0, phase := EXIT, tPhaseStart := now f\<rparr>
         else st2)"

definition tick_EXIT :: "frame \<Rightarrow> scene \<Rightarrow> scene option" where
  "tick_EXIT f st = do {
      (st1, done) \<leftarrow> for_loop 0 (N st) (exit_body (now f)) (st, 0);
      let st2 = st1\<lparr>plane_opacity := max 0 (plane_opacity st1 - 0.03)\<rparr>;
      Some (if done \<ge> N st2 then st2\<lparr>phase := WAIT, tPhaseStart := now f\<rparr> else st2)
    }"

definition tick :: "(nat \<Rightarrow> real) \<Rightarrow> frame \<Rightarrow> scene \<Rightarrow> scene option" where
  "tick rnd f st =
     (case phase st of
        BUILD_SPIN \<Rightarrow> tick_BUILD_SPIN f st
      | SHAKE \<Rightarrow> Some (tick_SHAKE f st)
      | EXIT \<Rightarrow> tick_EXIT f st
      | WAIT \<Rightarrow>
          (if now f - tPhaseStart st \<ge> LOOP_rebuildDelay
           then prepareBuildCycle rnd (prepare_now f) st
           else Some st))"

text \<open>
  Every branch of \<open>tick\<close> but the one that calls \<open>prepareBuildCycle\<close> ends in
  \<open>renderer.render(scene, camera)\<close>, which draws the state and does not change it.
\<close>

subsection \<open>Well-formed scenes and derived quantities\<close>

text \<open>
  \<open>init\<close> and \<open>prepareBuildCycle\<close> allocate every buffer with \<open>N\<close> or \<open>N*3\<close> entries and
  draw every duration from a positive range: \<open>wf_scene\<close>. \<open>init\<close> is not modelled; it refuses
  nothing, so a scene may have \<open>N = 0\<close>, where the mean of a BUILD\_SPIN frame is \<open>0 / 0\<close>
  and \<open>tick\<close> is \<open>None\<close>.

  The other definitions of this and the next subsections are not part of the model: they
  name the quantities the properties speak of (the eased build progress of particle \<open>i\<close>,
  its mean, the blend factor of the hand-off, what a loop has written so far) and the state
  a frame leaves behind in closed form. Each is tied to \<open>tick\<close> and \<open>prepareBuildCycle\<close> by a
  lemma below.
\<close>

definition wf_scene :: "scene \<Rightarrow> bool" where
  "wf_scene st \<longleftrightarrow>
     length (startPositions st) = N st * 3 \<and> length (endPositions st) = N st * 3 \<and>
     length (exitPositions st) = N st * 3 \<and> length (position st) = N st * 3 \<and>
     length (startTimesBuild st) = N st \<and> length (durationsBuild st) = N st \<and>
     length (startTimesExit st) = N st \<and> length (durationsExit st) = N st \<and>
     list_all (\<lambda>d. 0 < d) (durationsBuild st) \<and> list_all (\<lambda>d. 0 < d) (durationsExit st)"

definition eased_build :: "scene \<Rightarrow> real \<Rightarrow> nat \<Rightarrow> real" where
  "eased_build st tnow i =
     easeOutExpo (clamp01 ((tnow - tPhaseStart st - startTimesBuild st ! i) / durationsBuild st ! i))"

definition built :: "scene \<Rightarrow> real \<Rightarrow> nat \<Rightarrow> real list \<Rightarrow> bool" where
  "built st tnow j p \<longleftrightarrow> length p = N st * 3 \<and>
     (\<forall>i<j. \<forall>k<3. p ! (i * 3 + k) =
        lerp (startPositions st ! (i * 3 + k)) (endPositions st ! (i * 3 + k)) (eased_build st tnow i))"

definition blend :: "real \<Rightarrow> real" where
  "blend a = (let t = clamp01 ((a - HANDOFF_startProg) / (HANDOFF_endProg - HANDOFF_startProg))
              in t * t * (3 - 2 * t))"

definition avg_build :: "scene \<Rightarrow> real \<Rightarrow> real" where
  "avg_build st tnow = (\<Sum>i<N st. eased_build st tnow i) / real (N st)"

definition build_post :: "frame \<Rightarrow> scene \<Rightarrow> real list \<Rightarrow> scene" where
  "build_post f st p =
     (let A = avg_build st (now f);
          S = blend A;
          op = (if A > BUILD_planeFadeAt then min 1 (plane_opacity st + 0.03) else plane_opacity st);
          sp = shakePhase st + SHAKE_speed * dt f * (if S > 0 then 1 else 0);
          go = (S \<ge> 0.999 \<and> op \<ge> 0.999)
      in st\<lparr>position := p, avgBuildProgress := A, plane_opacity := op, shakePhase := sp,
             rotation_y := (1 - S) * lerp (- pi) 0 A + MAX_YAW * sin sp * S,
             rotation_x := sin (now f * 0.6) * 0.05,
             points_opacity := (1 - S) powr 1.5,
             points_visible := (if S \<ge> 0.999 then False else points_visible st),
             phase := (if go then SHAKE else phase st),
             tPhaseStart := (if go then now f else tPhaseStart st)\<rparr>)"

subsection \<open>An example scene\<close>

text \<open>
  Four particles that all start at once and take two seconds to arrive, read two seconds
  into the assembly.
\<close>

definition scenario_A :: scene where
  "scenario_A = \<lparr>phase = BUILD_SPIN, tPhaseStart = 0, shakePhase = 0, N = 4,
     bounds_w = 512, bounds_h = 512, scale = 243 / 25600,
     startPositions = [-6.93, 1, 0.4,  6.93, -2, -0.4,  3, 6.93, 0.8,  -3, -6.93, 0],
     endPositions = [-1, 1, 0,  1, 1, 0,  1, -1, 0,  0, 0, 0],
     exitPositions = [-7, 7, 1.2,  8, 8, -1.2,  6, -6, 0.6,  0, 0, 0.3],
     position = [-6.93, 1, 0.4,  6.93, -2, -0.4,  3, 6.93, 0.8,  -3, -6.93, 0],
     startTimesBuild = [0, 0, 0, 0], durationsBuild = [2, 2, 2, 2],
     startTimesExit = [0, 0, 0, 0], durationsExit = [1, 1, 1, 1],
     avgBuildProgress = 0, points_visible = True, points_opacity = 1, plane_opacity = 0,
     rotation_x = 0, rotation_y = - pi, rotation_z = 0, draws = 36\<rparr>"

definition frame_A :: frame where
  "frame_A = \<lparr>now = 2, dt = 1 / 60, prepare_now = 2\<rparr>"

subsection \<open>The EXIT frame: derived quantities and an example\<close>

definition exit_progress :: "scene \<Rightarrow> real \<Rightarrow> nat \<Rightarrow> real" where
  "exit_progress st tnow i =
     clamp01 ((tnow - tPhaseStart st - startTimesExit st ! i) / durationsExit st ! i)"

definition dispersed :: "scene \<Rightarrow> real \<Rightarrow> nat \<Rightarrow> real list \<Rightarrow> bool" where
  "dispersed st tnow j p \<longleftrightarrow> length p = N st * 3 \<and>
     (\<forall>i<j. \<forall>k<3. p ! (i * 3 + k) =
        lerp (endPositions st ! (i * 3 + k)) (exitPositions st ! (i * 3 + k))
          (easeInCubic (exit_progress st tnow i)))"

definition done_count :: "scene \<Rightarrow> real \<Rightarrow> nat \<Rightarrow> nat" where
  "done_count st tnow j = length (filter (\<lambda>i. 1 \<le> exit_progress st tnow i) [0..<j])"

definition exit_post :: "frame \<Rightarrow> scene \<Rightarrow> real list \<Rightarrow> scene" where
  "exit_post f st p =
     (let go = (done_count st (now f) (N st) \<ge> N st)
      in st\<lparr>position := p, plane_opacity := max 0 (plane_opacity st - 0.03),
             phase := (if go then WAIT else phase st),
             tPhaseStart := (if go then now f else tPhaseStart st)\<rparr>)"

definition scenario_B :: scene where
  "scenario_B = scenario_A\<lparr>phase := EXIT, tPhaseStart := 10,
     position := endPositions scenario_A, plane_opacity := 1\<rparr>"

definition frame_B :: frame where
  "frame_B = \<lparr>now = 11, dt = 1 / 60, prepare_now = 11\<rparr>"

subsection \<open>prepareBuildCycle: derived quantities and an example\<close>

text \<open>
  Particle \<open>i\<close> of a cycle consumes five draws, starting at count \<open>c\<close>: the edge, the depth
  jitter, the place along the edge, the push magnitude and the exit depth.
\<close>

definition filled3 :: "nat \<Rightarrow> nat \<Rightarrow> (nat \<Rightarrow> nat \<Rightarrow> real) \<Rightarrow> real list \<Rightarrow> bool" where
  "filled3 n j g p \<longleftrightarrow> length p = n * 3 \<and> (\<forall>i<j. \<forall>k<3. p ! (i * 3 + k) = g i k)"

definition filled1 :: "nat \<Rightarrow> nat \<Rightarrow> (nat \<Rightarrow> real) \<Rightarrow> real list \<Rightarrow> bool" where
  "filled1 n j g p \<longleftrightarrow> length p = n \<and> (\<forall>i<j. p ! i = g i)"

definition spawn_edge :: "(nat \<Rightarrow> real) \<Rightarrow> nat \<Rightarrow> int" where
  "spawn_edge rnd c = \<lfloor>rnd c * 4\<rfloor>"

definition spawn_coord :: "(nat \<Rightarrow> real) \<Rightarrow> real \<Rightarrow> real \<Rightarrow> nat \<Rightarrow> nat \<Rightarrow> real" where
  "spawn_coord rnd halfW halfH c k =
     (let edge = spawn_edge rnd c; u = rnd (Suc (Suc c))
      in if k = 0 then (if edge = 0 then - halfW else if edge = 1 then halfW
                        else - halfW + u * (halfW - - halfW))
         else if k = 1 then (if edge = 0 \<or> edge = 1 then - halfH + u * (halfH - - halfH)
                             else if edge = 2 then halfH else - halfH)
         else (rnd (Suc c) * 2 - 1) * 0.8)"

definition exit_len :: "real list \<Rightarrow> nat \<Rightarrow> real" where
  "exit_len endp i =
     (let h = Math_hypot (endp ! (i * 3)) (endp ! (i * 3 + 1)) in if h = 0 then 1 else h)"

definition exit_coord :: "(nat \<Rightarrow> real) \<Rightarrow> real list \<Rightarrow> nat \<Rightarrow> nat \<Rightarrow> nat \<Rightarrow> real" where
  "exit_coord rnd endp c i k =
     (let mag = EXIT_pushDistance + rnd (Suc (Suc (Suc c))) * (LOGO_DIAMETER * 0.8)
      in if k = 0 then endp ! (i * 3) + endp ! (i * 3) / exit_len endp i * mag
         else if k = 1 then endp ! (i * 3 + 1) + endp ! (i * 3 + 1) / exit_len endp i * mag
         else (rnd (Suc (Suc (Suc (Suc c)))) * 2 - 1) * 1.2)"

definition prepare_post ::
  "scene \<Rightarrow> real \<Rightarrow> real list \<Rightarrow> real list \<Rightarrow> real list \<Rightarrow> real list \<Rightarrow> real list \<Rightarrow> real list \<Rightarrow> scene" where
  "prepare_post st tnow sp ep tb db te de =
     st\<lparr>startPositions := sp, exitPositions := ep, position := sp,
        startTimesBuild := tb, durationsBuild := db, startTimesExit := te, durationsExit := de,
        draws := draws st + 9 * N st,
        points_visible := True, points_opacity := 1, plane_opacity := 0,
        rotation_x := 0, rotation_y := - pi, rotation_z := 0,
        shakePhase := 0, phase := BUILD_SPIN, tPhaseStart := tnow, avgBuildProgress := 0\<rparr>"

definition scenario_C :: scene where
  "scenario_C = scenario_A\<lparr>phase := WAIT, tPhaseStart := 20, points_visible := True\<rparr>"

definition frame_C :: frame where
  "frame_C = \<lparr>now = 21, dt = 1 / 60, prepare_now = 21.001\<rparr>"

subsection \<open>An example of the hand-off\<close>

text \<open>
  One particle that starts at once and takes two seconds, and two frames a fifth of a
  second apart, at 0.8 s and 1.0 s into the assembly.
\<close>

definition handoff_scene :: scene where
  "handoff_scene = \<lparr>phase = BUILD_SPIN, tPhaseStart = 0, shakePhase = 0, N = 1,
     bounds_w = 512, bounds_h = 512, scale = 243 / 25600,
     startPositions = [6.93, 0, 0.4], endPositions = [1, 1, 0], exitPositions = [7, 7, 0.6],
     position = [6.93, 0, 0.4],
     startTimesBuild = [0], durationsBuild = [2], startTimesExit = [0], durationsExit = [1],
     avgBuildProgress = 0, points_visible = True, points_opacity = 1, plane_opacity = 0,
     rotation_x = 0, rotation_y = - pi, rotation_z = 0, draws = 9\<rparr>"

definition steady_draws :: "nat \<Rightarrow> real" where
  \<comment> \<open>A possible run of \<open>Math.random()\<close>; no BUILD\_SPIN frame reads it.\<close>
  "steady_draws k = 1 / 2"

definition handoff_frame_1 :: frame where
  "handoff_frame_1 = \<lparr>now = 0.8, dt = 0.2, prepare_now = 0.8\<rparr>"

definition handoff_frame_2 :: frame where
  "handoff_frame_2 = \<lparr>now = 1.0, dt = 0.2, prepare_now = 1.0\<rparr>"

subsection \<open>More frames of the example scenes\<close>

text \<open>
  The scene of four particles with the overlay almost opaque, and frames at the start of
  the assembly, one second into it, long after it, and half a second into the dispersal.
\<close>

definition scenario_A_faded :: scene where
  "scenario_A_faded = scenario_A\<lparr>plane_opacity := 0.98\<rparr>"

definition frame_A_mid :: frame where
  "frame_A_mid = \<lparr>now = 1, dt = 1 / 60, prepare_now = 1\<rparr>"

definition frame_A_start :: frame where
  "frame_A_start = \<lparr>now = 0, dt = 1 / 60, prepare_now = 0\<rparr>"

definition frame_B_mid :: frame where
  "frame_B_mid = \<lparr>now = 10.5, dt = 1 / 60, prepare_now = 10.5\<rparr>"

definition frame_A_stall :: frame where
  "frame_A_stall = \<lparr>now = 1000, dt = 998, prepare_now = 1000\<rparr>"

subsection \<open>Helper facts\<close>

lemma clamp01_range: "0 \<le> clamp01 v \<and> clamp01 v \<le> 1"
  by (simp add: clamp01_def)

lemma clamp01_id: "0 \<le> v \<Longrightarrow> v \<le> 1 \<Longrightarrow> clamp01 v = v"
  by (simp add: clamp01_def)

lemma clamp01_mono: "u \<le> v \<Longrightarrow> clamp01 u \<le> clamp01 v"
  by (simp add: clamp01_def max_def min_def)

lemma easeOutExpo_range: "0 \<le> t \<Longrightarrow> 0 \<le> easeOutExpo t \<and> easeOutExpo t \<le> 1"
proof -
  assume t: "0 \<le> t"
  have "2 powr (-10 * t) \<le> (2::real) powr 0"
    using t by (intro powr_mono) simp_all
  then have "2 powr (-10 * t) \<le> (1::real)" by simp
  moreover have "0 \<le> 2 powr (-10 * t)" by simp
  ultimately show ?thesis by (simp add: easeOutExpo_def)
qed

lemma lerp_between:
  assumes "0 \<le> e" "e \<le> 1"
  shows "min a b \<le> lerp a b e \<and> lerp a b e \<le> max a b"
proof -
  have eq: "lerp a b e = a + e * (b - a)" by (simp add: lerp_def algebra_simps)
  show ?thesis
  proof (cases "a \<le> b")
    case True
    then have d: "0 \<le> b - a" by simp
    have lo: "0 \<le> e * (b - a)" using assms(1) d by (rule mult_nonneg_nonneg)
    have hi: "e * (b - a) \<le> b - a" using mult_right_mono [OF assms(2) d] by simp
    have "a \<le> a + e * (b - a)" using lo by linarith
    moreover have "a + e * (b - a) \<le> b" using hi by linarith
    ultimately show ?thesis using True by (simp add: eq)
  next
    case False
    then have d: "b - a \<le> 0" by simp
    have hi: "e * (b - a) \<le> 0" using assms(1) d by (rule mult_nonneg_nonpos)
    have lo: "b - a \<le> e * (b - a)" using mult_right_mono_neg [OF assms(2) d] by simp
    have "b \<le> a + e * (b - a)" using lo by linarith
    moreover have "a + e * (b - a) \<le> a" using hi by linarith
    ultimately show ?thesis using False by (simp add: eq)
  qed
qed

subsection \<open>The BUILD\_SPIN frame\<close>

lemma for_loop_rule:
  assumes "I i st" and "i \<le> n"
    and "\<And>j s. i \<le> j \<Longrightarrow> j < n \<Longrightarrow> I j s \<Longrightarrow> \<exists>s'. body j s = Some s' \<and> I (Suc j) s'"
  shows "\<exists>s'. for_loop i n body st = Some s' \<and> I n s'"
  using assms
proof (induction i n body st rule: for_loop.induct)
  case (1 i n body st)
  show ?case
  proof (cases "i < n")
    case True
    from "1.prems"(3)[OF le_refl True "1.prems"(1)]
    obtain s' where s': "body i st = Some s'" "I (Suc i) s'" by blast
    have "\<exists>s''. for_loop (Suc i) n body s' = Some s'' \<and> I n s''"
    proof (rule "1.IH"[OF True s'(1) s'(2)])
      show "Suc i \<le> n" using True by simp
      fix j s assume "Suc i \<le> j" "j < n" "I j s"
      then show "\<exists>s'. body j s = Some s' \<and> I (Suc j) s'"
        using "1.prems"(3)[of j s] by simp
    qed
    then show ?thesis using True s'(1) by (subst for_loop.simps) simp
  next
    case False
    with "1.prems"(1,2) show ?thesis by (subst for_loop.simps) simp
  qed
qed

lemma wf_dur_build: "wf_scene st \<Longrightarrow> i < N st \<Longrightarrow> 0 < durationsBuild st ! i"
  by (simp add: wf_scene_def list_all_length)

lemma build_body_step:
  assumes "wf_scene st" "i < N st" "length p = N st * 3"
  shows "build_body tnow i (st\<lparr>position := p\<rparr>, avg) =
     Some (st\<lparr>position := p[i * 3 := lerp (startPositions st ! (i * 3)) (endPositions st ! (i * 3)) (eased_build st tnow i),
                            i * 3 + 1 := lerp (startPositions st ! (i * 3 + 1)) (endPositions st ! (i * 3 + 1)) (eased_build st tnow i),
                            i * 3 + 2 := lerp (startPositions st ! (i * 3 + 2)) (endPositions st ! (i * 3 + 2)) (eased_build st tnow i)]\<rparr>,
           avg + eased_build st tnow i)"
  using assms wf_dur_build[OF assms(1,2)]
  by (simp add: build_body_def rd_def progress_def js_div_def eased_build_def wf_scene_def Let_def)

lemma built_step:
  assumes "built st tnow j p" "j < N st"
  shows "built st tnow (Suc j)
     (p[j * 3 := lerp (startPositions st ! (j * 3)) (endPositions st ! (j * 3)) (eased_build st tnow j),
        j * 3 + 1 := lerp (startPositions st ! (j * 3 + 1)) (endPositions st ! (j * 3 + 1)) (eased_build st tnow j),
        j * 3 + 2 := lerp (startPositions st ! (j * 3 + 2)) (endPositions st ! (j * 3 + 2)) (eased_build st tnow j)])"
  unfolding built_def
proof (intro conjI allI impI)
  show "length (p[j * 3 := lerp (startPositions st ! (j * 3)) (endPositions st ! (j * 3)) (eased_build st tnow j),
        j * 3 + 1 := lerp (startPositions st ! (j * 3 + 1)) (endPositions st ! (j * 3 + 1)) (eased_build st tnow j),
        j * 3 + 2 := lerp (startPositions st ! (j * 3 + 2)) (endPositions st ! (j * 3 + 2)) (eased_build st tnow j)]) = N st * 3"
    using assms by (simp add: built_def)
next
  fix i k :: nat assume ik: "i < Suc j" "k < 3"
  have len: "length p = N st * 3" using assms by (simp add: built_def)
  show "p[j * 3 := lerp (startPositions st ! (j * 3)) (endPositions st ! (j * 3)) (eased_build st tnow j),
        j * 3 + 1 := lerp (startPositions st ! (j * 3 + 1)) (endPositions st ! (j * 3 + 1)) (eased_build st tnow j),
        j * 3 + 2 := lerp (startPositions st ! (j * 3 + 2)) (endPositions st ! (j * 3 + 2)) (eased_build st tnow j)] ! (i * 3 + k)
       = lerp (startPositions st ! (i * 3 + k)) (endPositions st ! (i * 3 + k)) (eased_build st tnow i)"
  proof (cases "i = j")
    case True
    from ik(2) consider "k = 0" | "k = 1" | "k = 2" by linarith
    then show ?thesis using True len assms(2) by cases (simp_all add: nth_list_update)
  next
    case False
    then have "i < j" using ik(1) by simp
    then have ne: "j * 3 \<noteq> i * 3 + k" "j * 3 + 1 \<noteq> i * 3 + k" "j * 3 + 2 \<noteq> i * 3 + k"
      using ik(2) by linarith+
    have "p ! (i * 3 + k) = lerp (startPositions st ! (i * 3 + k)) (endPositions st ! (i * 3 + k)) (eased_build st tnow i)"
      using assms(1) \<open>i < j\<close> ik(2) by (simp add: built_def)
    then show ?thesis using ne by simp
  qed
qed

lemma build_loop:
  assumes wf: "wf_scene st"
  shows "\<exists>p. for_loop 0 (N st) (build_body tnow) (st, 0) =
            Some (st\<lparr>position := p\<rparr>, \<Sum>i<N st. eased_build st tnow i)
          \<and> built st tnow (N st) p"
proof -
  define I where "I = (\<lambda>j (s, avg). \<exists>p. s = st\<lparr>position := p\<rparr> \<and> built st tnow j p
                        \<and> avg = (\<Sum>i<j. eased_build st tnow i))"
  have "\<exists>s'. for_loop 0 (N st) (build_body tnow) (st, 0) = Some s' \<and> I (N st) s'"
  proof (rule for_loop_rule)
    have "st = st\<lparr>position := position st\<rparr>" by simp
    moreover have "built st tnow 0 (position st)" using wf by (simp add: built_def wf_scene_def)
    ultimately have "st = st\<lparr>position := position st\<rparr> \<and> built st tnow 0 (position st)
        \<and> (0::real) = (\<Sum>i<0. eased_build st tnow i)" by simp
    then show "I 0 (st, 0)" unfolding I_def by blast
  next
    show "0 \<le> N st" by simp
  next
    fix j s assume j: "0 \<le> j" "j < N st" and inv: "I j s"
    obtain s0 avg where s: "s = (s0, avg)" by (cases s)
    from inv s obtain p where p: "s0 = st\<lparr>position := p\<rparr>" "built st tnow j p"
      "avg = (\<Sum>i<j. eased_build st tnow i)" unfolding I_def by auto
    have len: "length p = N st * 3" using p(2) by (simp add: built_def)
    show "\<exists>s'. build_body tnow j s = Some s' \<and> I (Suc j) s'"
      unfolding s p(1) build_body_step[OF wf j(2) len] I_def
      using built_step[OF p(2) j(2)] p(3) by auto
  qed
  then show ?thesis unfolding I_def by auto
qed

lemma smoothstep_handoff: "smoothstep HANDOFF_startProg HANDOFF_endProg a = Some (blend a)"
  by (simp add: smoothstep_def js_div_def blend_def Let_def)

lemma tick_BUILD_SPIN_eq:
  assumes wf: "wf_scene st" and n: "0 < N st"
  shows "\<exists>p. built st (now f) (N st) p \<and> tick_BUILD_SPIN f st = Some (build_post f st p)"
proof -
  from build_loop[OF wf, of "now f"] obtain p where
    loop: "for_loop 0 (N st) (build_body (now f)) (st, 0) =
            Some (st\<lparr>position := p\<rparr>, \<Sum>i<N st. eased_build st (now f) i)"
    and b: "built st (now f) (N st) p" by blast
  have "tick_BUILD_SPIN f st = Some (build_post f st p)"
    using n unfolding tick_BUILD_SPIN_def loop smoothstep_handoff
    by (simp add: js_div_def build_post_def avg_build_def Let_def)
  with b show ?thesis by blast
qed

lemma tick_build:
  assumes "wf_scene st" "0 < N st" "phase st = BUILD_SPIN"
  shows "\<exists>p. built st (now f) (N st) p \<and> tick rnd f st = Some (build_post f st p)"
  using tick_BUILD_SPIN_eq[OF assms(1,2)] assms(3) by (simp add: tick_def)

lemma index3: "(j::nat) < n * 3 \<Longrightarrow> \<exists>i k. i < n \<and> k < 3 \<and> j = i * 3 + k"
proof -
  assume j: "j < n * 3"
  have "j div 3 < n" using j by (simp add: less_mult_imp_div_less)
  moreover have "j mod 3 < 3" by simp
  moreover have "j = (j div 3) * 3 + j mod 3" by simp
  ultimately show ?thesis by blast
qed

lemma eased_build_done:
  assumes "wf_scene st" "i < N st" "durationsBuild st ! i \<le> tnow - tPhaseStart st - startTimesBuild st ! i"
  shows "eased_build st tnow i = 1"
proof -
  have d: "0 < durationsBuild st ! i" using assms(1,2) by (rule wf_dur_build)
  then have "1 \<le> (tnow - tPhaseStart st - startTimesBuild st ! i) / durationsBuild st ! i"
    using assms(3) by (simp add: le_divide_eq)
  then have "clamp01 ((tnow - tPhaseStart st - startTimesBuild st ! i) / durationsBuild st ! i) = 1"
    by (simp add: clamp01_def)
  then show ?thesis by (simp add: eased_build_def easeOutExpo_def)
qed

lemma built_all_done:
  assumes wf: "wf_scene st" and b: "built st tnow (N st) p"
    and fin: "\<And>i. i < N st \<Longrightarrow> durationsBuild st ! i \<le> tnow - tPhaseStart st - startTimesBuild st ! i"
  shows "p = endPositions st"
proof (rule nth_equalityI)
  show len: "length p = length (endPositions st)"
    using wf b by (simp add: built_def wf_scene_def)
  fix j assume "j < length p"
  then have "j < N st * 3" using b by (simp add: built_def)
  then obtain i k where ik: "i < N st" "k < 3" "j = i * 3 + k" using index3 by blast
  have "p ! j = lerp (startPositions st ! j) (endPositions st ! j) (eased_build st tnow i)"
    using b ik by (simp add: built_def)
  also have "\<dots> = endPositions st ! j"
    using eased_build_done[OF wf ik(1) fin[OF ik(1)]] by (simp add: lerp_def)
  finally show "p ! j = endPositions st ! j" .
qed

lemma progress_Some:
  "0 < dur \<Longrightarrow> progress t t0 start dur = Some (clamp01 ((t - t0 - start) / dur))"
  by (simp add: progress_def js_div_def)

lemma clamp01_inside: "0 < clamp01 v \<Longrightarrow> clamp01 v < 1 \<Longrightarrow> clamp01 v = v"
  by (simp add: clamp01_def max_def min_def split: if_splits)

lemma progress_strict_mono:
  assumes d: "0 < dur" and t: "t1 < t2"
    and p1: "progress t1 t0 start dur = Some p1" and p2: "progress t2 t0 start dur = Some p2"
    and r: "0 < p1" "p1 < 1" "0 < p2" "p2 < 1"
  shows "p1 < p2"
proof -
  have e1: "p1 = clamp01 ((t1 - t0 - start) / dur)" and e2: "p2 = clamp01 ((t2 - t0 - start) / dur)"
    using p1 p2 d by (simp_all add: progress_Some)
  have "p1 = (t1 - t0 - start) / dur" using r(1,2) unfolding e1 by (rule clamp01_inside)
  moreover have "p2 = (t2 - t0 - start) / dur" using r(3,4) unfolding e2 by (rule clamp01_inside)
  moreover have "(t1 - t0 - start) / dur < (t2 - t0 - start) / dur"
    using d t by (simp add: divide_strict_right_mono)
  ultimately show ?thesis by simp
qed

subsection \<open>The EXIT frame\<close>

lemma wf_dur_exit: "wf_scene st \<Longrightarrow> i < N st \<Longrightarrow> 0 < durationsExit st ! i"
  by (simp add: wf_scene_def list_all_length)

lemma write3_nth:
  assumes len: "length p = n * 3" and j: "j < n" and i: "i \<le> j" and k: "k < 3"
  shows "p[j * 3 := x0, j * 3 + 1 := x1, j * 3 + 2 := x2] ! (i * 3 + k) =
     (if i = j then (if k = 0 then x0 else if k = 1 then x1 else x2) else p ! (i * 3 + k))"
proof (cases "i = j")
  case True
  from k consider "k = 0" | "k = 1" | "k = 2" by linarith
  then show ?thesis using True len j by cases (simp_all add: nth_list_update)
next
  case False
  then have "i < j" using i by simp
  then have "j * 3 \<noteq> i * 3 + k" "j * 3 + 1 \<noteq> i * 3 + k" "j * 3 + 2 \<noteq> i * 3 + k"
    using k by linarith+
  then show ?thesis using False by simp
qed

lemma exit_body_step:
  assumes "wf_scene st" "i < N st" "length p = N st * 3"
  shows "exit_body tnow i (st\<lparr>position := p\<rparr>, c) =
     Some (st\<lparr>position := p[i * 3 := lerp (endPositions st ! (i * 3)) (exitPositions st ! (i * 3)) (easeInCubic (exit_progress st tnow i)),
                            i * 3 + 1 := lerp (endPositions st ! (i * 3 + 1)) (exitPositions st ! (i * 3 + 1)) (easeInCubic (exit_progress st tnow i)),
                            i * 3 + 2 := lerp (endPositions st ! (i * 3 + 2)) (exitPositions st ! (i * 3 + 2)) (easeInCubic (exit_progress st tnow i))]\<rparr>,
           if 1 \<le> exit_progress st tnow i then c + 1 else c)"
  using assms wf_dur_exit[OF assms(1,2)]
  by (simp add: exit_body_def rd_def progress_def js_div_def exit_progress_def wf_scene_def Let_def)

lemma dispersed_step:
  assumes "dispersed st tnow j p" "j < N st"
  shows "dispersed st tnow (Suc j)
     (p[j * 3 := lerp (endPositions st ! (j * 3)) (exitPositions st ! (j * 3)) (easeInCubic (exit_progress st tnow j)),
        j * 3 + 1 := lerp (endPositions st ! (j * 3 + 1)) (exitPositions st ! (j * 3 + 1)) (easeInCubic (exit_progress st tnow j)),
        j * 3 + 2 := lerp (endPositions st ! (j * 3 + 2)) (exitPositions st ! (j * 3 + 2)) (easeInCubic (exit_progress st tnow j))])"
proof -
  have len: "length p = N st * 3" using assms(1) by (simp add: dispersed_def)
  have old: "p ! (i * 3 + k) = lerp (endPositions st ! (i * 3 + k)) (exitPositions st ! (i * 3 + k))
          (easeInCubic (exit_progress st tnow i))" if "i < j" "k < 3" for i k
    using assms(1) that by (simp add: dispersed_def)
  show ?thesis
    unfolding dispersed_def
  proof (intro conjI allI impI)
    fix i k :: nat assume ik: "i < Suc j" "k < 3"
    then have le: "i \<le> j" by simp
    from ik(2) consider "k = 0" | "k = 1" | "k = 2" by linarith
    then show "p[j * 3 := lerp (endPositions st ! (j * 3)) (exitPositions st ! (j * 3)) (easeInCubic (exit_progress st tnow j)),
        j * 3 + 1 := lerp (endPositions st ! (j * 3 + 1)) (exitPositions st ! (j * 3 + 1)) (easeInCubic (exit_progress st tnow j)),
        j * 3 + 2 := lerp (endPositions st ! (j * 3 + 2)) (exitPositions st ! (j * 3 + 2)) (easeInCubic (exit_progress st tnow j))] ! (i * 3 + k)
      = lerp (endPositions st ! (i * 3 + k)) (exitPositions st ! (i * 3 + k)) (easeInCubic (exit_progress st tnow i))"
      unfolding write3_nth[OF len assms(2) le ik(2)]
      using old[of i k] ik le by cases auto
  qed (simp add: len)
qed

lemma exit_loop:
  assumes wf: "wf_scene st"
  shows "\<exists>p. for_loop 0 (N st) (exit_body tnow) (st, 0) =
            Some (st\<lparr>position := p\<rparr>, done_count st tnow (N st))
          \<and> dispersed st tnow (N st) p"
proof -
  define I where "I = (\<lambda>j (s, c). \<exists>p. s = st\<lparr>position := p\<rparr> \<and> dispersed st tnow j p
                        \<and> c = done_count st tnow j)"
  have "\<exists>s'. for_loop 0 (N st) (exit_body tnow) (st, 0) = Some s' \<and> I (N st) s'"
  proof (rule for_loop_rule)
    have "st = st\<lparr>position := position st\<rparr> \<and> dispersed st tnow 0 (position st)
        \<and> (0::nat) = done_count st tnow 0"
      using wf by (simp add: dispersed_def wf_scene_def done_count_def)
    then show "I 0 (st, 0)" unfolding I_def by blast
  next
    show "0 \<le> N st" by simp
  next
    fix j s assume j: "0 \<le> j" "j < N st" and inv: "I j s"
    obtain s0 c where s: "s = (s0, c)" by (cases s)
    from inv s obtain p where p: "s0 = st\<lparr>position := p\<rparr>" "dispersed st tnow j p"
      "c = done_count st tnow j" unfolding I_def by auto
    have len: "length p = N st * 3" using p(2) by (simp add: dispersed_def)
    have cnt: "(if 1 \<le> exit_progress st tnow j then c + 1 else c) = done_count st tnow (Suc j)"
      using p(3) by (simp add: done_count_def)
    show "\<exists>s'. exit_body tnow j s = Some s' \<and> I (Suc j) s'"
      unfolding s p(1) exit_body_step[OF wf j(2) len] cnt I_def
      using dispersed_step[OF p(2) j(2)] by auto
  qed
  then show ?thesis unfolding I_def by auto
qed

lemma tick_exit:
  assumes wf: "wf_scene st" and ph: "phase st = EXIT"
  shows "\<exists>p. dispersed st (now f) (N st) p \<and> tick rnd f st = Some (exit_post f st p)"
proof -
  from exit_loop[OF wf, of "now f"] obtain p where
    loop: "for_loop 0 (N st) (exit_body (now f)) (st, 0) =
            Some (st\<lparr>position := p\<rparr>, done_count st (now f) (N st))"
    and b: "dispersed st (now f) (N st) p" by blast
  have "tick rnd f st = Some (exit_post f st p)"
    using ph unfolding tick_def tick_EXIT_def loop
    by (simp add: exit_post_def Let_def)
  with b show ?thesis by blast
qed

lemma length_filter_all:
  "length (filter P xs) = length xs \<longleftrightarrow> (\<forall>x\<in>set xs. P x)"
proof
  assume eq: "length (filter P xs) = length xs"
  show "\<forall>x\<in>set xs. P x"
  proof (rule ccontr)
    assume "\<not> (\<forall>x\<in>set xs. P x)"
    then obtain x where "x \<in> set xs" "\<not> P x" by blast
    then have "length (filter P xs) < length xs" by (rule length_filter_less)
    with eq show False by simp
  qed
next
  assume "\<forall>x\<in>set xs. P x"
  then show "length (filter P xs) = length xs" by simp
qed

lemma done_count_all:
  "done_count st tnow n \<ge> n \<longleftrightarrow> (\<forall>i<n. 1 \<le> exit_progress st tnow i)"
proof -
  have "length (filter (\<lambda>i. 1 \<le> exit_progress st tnow i) [0..<n]) = length [0..<n]
        \<longleftrightarrow> (\<forall>i\<in>set [0..<n]. 1 \<le> exit_progress st tnow i)"
    by (rule length_filter_all)
  moreover have "length (filter (\<lambda>i. 1 \<le> exit_progress st tnow i) [0..<n]) \<le> length [0..<n]"
    by (rule length_filter_le)
  ultimately show ?thesis by (auto simp: done_count_def)
qed

subsection \<open>Facts about prepareBuildCycle\<close>

lemma filled3_step:
  assumes "filled3 n j g p" "j < n"
  shows "filled3 n (Suc j) g (p[j * 3 := g j 0, j * 3 + 1 := g j 1, j * 3 + 2 := g j 2])"
proof -
  have len: "length p = n * 3" using assms(1) by (simp add: filled3_def)
  have old: "p ! (i * 3 + k) = g i k" if "i < j" "k < 3" for i k
    using assms(1) that by (simp add: filled3_def)
  show ?thesis
    unfolding filled3_def
  proof (intro conjI allI impI)
    fix i k :: nat assume ik: "i < Suc j" "k < 3"
    then have le: "i \<le> j" by simp
    from ik(2) consider "k = 0" | "k = 1" | "k = 2" by linarith
    then show "p[j * 3 := g j 0, j * 3 + 1 := g j 1, j * 3 + 2 := g j 2] ! (i * 3 + k) = g i k"
      unfolding write3_nth[OF len assms(2) le ik(2)]
      using old[of i k] ik le by cases auto
  qed (simp add: len)
qed

lemma filled1_step:
  assumes "filled1 n j g p" "j < n"
  shows "filled1 n (Suc j) g (p[j := g j])"
  using assms by (auto simp add: filled1_def nth_list_update less_Suc_eq)

lemma exit_len_pos: "0 < exit_len endp i"
proof -
  have "0 \<le> Math_hypot (endp ! (i * 3)) (endp ! (i * 3 + 1))"
    by (simp add: Math_hypot_def)
  then show ?thesis by (simp add: exit_len_def Let_def)
qed

lemma spawn_body_step:
  assumes "i * 3 + 1 < length (endPositions st)"
  shows "spawn_body rnd halfW halfH i (st\<lparr>startPositions := sp, exitPositions := ep, draws := c\<rparr>) =
     Some (st\<lparr>startPositions := sp[i * 3 := spawn_coord rnd halfW halfH c 0,
                                     i * 3 + 1 := spawn_coord rnd halfW halfH c 1,
                                     i * 3 + 2 := spawn_coord rnd halfW halfH c 2],
               exitPositions := ep[i * 3 := exit_coord rnd (endPositions st) c i 0,
                                    i * 3 + 1 := exit_coord rnd (endPositions st) c i 1,
                                    i * 3 + 2 := exit_coord rnd (endPositions st) c i 2],
               draws := c + 5\<rparr>)"
proof -
  have l: "exit_len (endPositions st) i \<noteq> 0" using exit_len_pos[of "endPositions st" i] by simp
  consider "spawn_edge rnd c = 0" | "spawn_edge rnd c = 1" | "spawn_edge rnd c = 2"
    | "spawn_edge rnd c \<noteq> 0" "spawn_edge rnd c \<noteq> 1" "spawn_edge rnd c \<noteq> 2" by blast
  then show ?thesis
  proof cases
    case 1
    then show ?thesis using assms l
      by (simp add: spawn_body_def Math_random_def randBetween_def rd_def js_div_def
          spawn_coord_def exit_coord_def exit_len_def spawn_edge_def Let_def)
  next
    case 2
    then show ?thesis using assms l
      by (simp add: spawn_body_def Math_random_def randBetween_def rd_def js_div_def
          spawn_coord_def exit_coord_def exit_len_def spawn_edge_def Let_def)
  next
    case 3
    then show ?thesis using assms l
      by (simp add: spawn_body_def Math_random_def randBetween_def rd_def js_div_def
          spawn_coord_def exit_coord_def exit_len_def spawn_edge_def Let_def)
  next
    case 4
    then show ?thesis using assms l
      by (simp add: spawn_body_def Math_random_def randBetween_def rd_def js_div_def
          spawn_coord_def exit_coord_def exit_len_def spawn_edge_def Let_def)
  qed
qed

lemma spawn_loop:
  assumes ls: "length (startPositions s) = n * 3" and le: "length (exitPositions s) = n * 3"
    and lt: "n * 3 \<le> length (endPositions s)"
  shows "\<exists>sp ep. for_loop 0 n (spawn_body rnd halfW halfH) s =
            Some (s\<lparr>startPositions := sp, exitPositions := ep, draws := draws s + 5 * n\<rparr>)
      \<and> filled3 n n (\<lambda>i. spawn_coord rnd halfW halfH (draws s + 5 * i)) sp
      \<and> filled3 n n (\<lambda>i. exit_coord rnd (endPositions s) (draws s + 5 * i) i) ep"
proof -
  define I where "I = (\<lambda>j s'. \<exists>sp ep.
      s' = s\<lparr>startPositions := sp, exitPositions := ep, draws := draws s + 5 * j\<rparr>
      \<and> filled3 n j (\<lambda>i. spawn_coord rnd halfW halfH (draws s + 5 * i)) sp
      \<and> filled3 n j (\<lambda>i. exit_coord rnd (endPositions s) (draws s + 5 * i) i) ep)"
  have "\<exists>s'. for_loop 0 n (spawn_body rnd halfW halfH) s = Some s' \<and> I n s'"
  proof (rule for_loop_rule)
    have "s = s\<lparr>startPositions := startPositions s, exitPositions := exitPositions s,
                draws := draws s + 5 * 0\<rparr>
        \<and> filled3 n 0 (\<lambda>i. spawn_coord rnd halfW halfH (draws s + 5 * i)) (startPositions s)
        \<and> filled3 n 0 (\<lambda>i. exit_coord rnd (endPositions s) (draws s + 5 * i) i) (exitPositions s)"
      using ls le by (simp add: filled3_def)
    then show "I 0 s" unfolding I_def by blast
  next
    show "0 \<le> n" by simp
  next
    fix j s' assume j: "0 \<le> j" "j < n" and inv: "I j s'"
    from inv obtain sp ep where
      s': "s' = s\<lparr>startPositions := sp, exitPositions := ep, draws := draws s + 5 * j\<rparr>"
      and fs: "filled3 n j (\<lambda>i. spawn_coord rnd halfW halfH (draws s + 5 * i)) sp"
      and fe: "filled3 n j (\<lambda>i. exit_coord rnd (endPositions s) (draws s + 5 * i) i) ep"
      unfolding I_def by blast
    have rng: "j * 3 + 1 < length (endPositions s)" using j(2) lt by linarith
    have c: "draws s + 5 * j + 5 = draws s + 5 * Suc j" by simp
    show "\<exists>s''. spawn_body rnd halfW halfH j s' = Some s'' \<and> I (Suc j) s''"
      unfolding s' spawn_body_step[OF rng] c I_def
      using filled3_step[OF fs j(2)] filled3_step[OF fe j(2)] by blast
  qed
  then show ?thesis unfolding I_def by blast
qed

lemma build_timing_body_step:
  "build_timing_body rnd i (s\<lparr>startTimesBuild := a, durationsBuild := b, draws := c\<rparr>) =
     Some (s\<lparr>startTimesBuild := a[i := rnd c * BUILD_startJitter],
              durationsBuild := b[i := BUILD_minDur + rnd (Suc c) * (BUILD_maxDur - BUILD_minDur)],
              draws := c + 2\<rparr>)"
  by (simp add: build_timing_body_def Math_random_def Let_def)

lemma exit_timing_body_step:
  "exit_timing_body rnd i (s\<lparr>startTimesExit := a, durationsExit := b, draws := c\<rparr>) =
     Some (s\<lparr>startTimesExit := a[i := rnd c * EXIT_startJitter],
              durationsExit := b[i := EXIT_minDur + rnd (Suc c) * (EXIT_maxDur - EXIT_minDur)],
              draws := c + 2\<rparr>)"
  by (simp add: exit_timing_body_def Math_random_def Let_def)

lemma build_timing_loop:
  assumes la: "length (startTimesBuild s) = n" and lb: "length (durationsBuild s) = n"
  shows "\<exists>a b. for_loop 0 n (build_timing_body rnd) s =
            Some (s\<lparr>startTimesBuild := a, durationsBuild := b, draws := draws s + 2 * n\<rparr>)
      \<and> filled1 n n (\<lambda>i. rnd (draws s + 2 * i) * BUILD_startJitter) a
      \<and> filled1 n n (\<lambda>i. BUILD_minDur + rnd (Suc (draws s + 2 * i)) * (BUILD_maxDur - BUILD_minDur)) b"
proof -
  define I where "I = (\<lambda>j s'. \<exists>a b.
      s' = s\<lparr>startTimesBuild := a, durationsBuild := b, draws := draws s + 2 * j\<rparr>
      \<and> filled1 n j (\<lambda>i. rnd (draws s + 2 * i) * BUILD_startJitter) a
      \<and> filled1 n j (\<lambda>i. BUILD_minDur + rnd (Suc (draws s + 2 * i)) * (BUILD_maxDur - BUILD_minDur)) b)"
  have "\<exists>s'. for_loop 0 n (build_timing_body rnd) s = Some s' \<and> I n s'"
  proof (rule for_loop_rule)
    have "s = s\<lparr>startTimesBuild := startTimesBuild s, durationsBuild := durationsBuild s,
                draws := draws s + 2 * 0\<rparr>
        \<and> filled1 n 0 (\<lambda>i. rnd (draws s + 2 * i) * BUILD_startJitter) (startTimesBuild s)
        \<and> filled1 n 0 (\<lambda>i. BUILD_minDur + rnd (Suc (draws s + 2 * i)) * (BUILD_maxDur - BUILD_minDur))
             (durationsBuild s)"
      using la lb by (simp add: filled1_def)
    then show "I 0 s" unfolding I_def by blast
  next
    show "0 \<le> n" by simp
  next
    fix j s' assume j: "0 \<le> j" "j < n" and inv: "I j s'"
    from inv obtain a b where
      s': "s' = s\<lparr>startTimesBuild := a, durationsBuild := b, draws := draws s + 2 * j\<rparr>"
      and fa: "filled1 n j (\<lambda>i. rnd (draws s + 2 * i) * BUILD_startJitter) a"
      and fb: "filled1 n j (\<lambda>i. BUILD_minDur + rnd (Suc (draws s + 2 * i)) * (BUILD_maxDur - BUILD_minDur)) b"
      unfolding I_def by blast
    have c: "draws s + 2 * j + 2 = draws s + 2 * Suc j" by simp
    show "\<exists>s''. build_timing_body rnd j s' = Some s'' \<and> I (Suc j) s''"
      unfolding s' build_timing_body_step c I_def
      using filled1_step[OF fa j(2)] filled1_step[OF fb j(2)] by blast
  qed
  then show ?thesis unfolding I_def by blast
qed

lemma exit_timing_loop:
  assumes la: "length (startTimesExit s) = n" and lb: "length (durationsExit s) = n"
  shows "\<exists>a b. for_loop 0 n (exit_timing_body rnd) s =
            Some (s\<lparr>startTimesExit := a, durationsExit := b, draws := draws s + 2 * n\<rparr>)
      \<and> filled1 n n (\<lambda>i. rnd (draws s + 2 * i) * EXIT_startJitter) a
      \<and> filled1 n n (\<lambda>i. EXIT_minDur + rnd (Suc (draws s + 2 * i)) * (EXIT_maxDur - EXIT_minDur)) b"
proof -
  define I where "I = (\<lambda>j s'. \<exists>a b.
      s' = s\<lparr>startTimesExit := a, durationsExit := b, draws := draws s + 2 * j\<rparr>
      \<and> filled1 n j (\<lambda>i. rnd (draws s + 2 * i) * EXIT_startJitter) a
      \<and> filled1 n j (\<lambda>i. EXIT_minDur + rnd (Suc (draws s + 2 * i)) * (EXIT_maxDur - EXIT_minDur)) b)"
  have "\<exists>s'. for_loop 0 n (exit_timing_body rnd) s = Some s' \<and> I n s'"
  proof (rule for_loop_rule)
    have "s = s\<lparr>startTimesExit := startTimesExit s, durationsExit := durationsExit s,
                draws := draws s + 2 * 0\<rparr>
        \<and> filled1 n 0 (\<lambda>i. rnd (draws s + 2 * i) * EXIT_startJitter) (startTimesExit s)
        \<and> filled1 n 0 (\<lambda>i. EXIT_minDur + rnd (Suc (draws s + 2 * i)) * (EXIT_maxDur - EXIT_minDur))
             (durationsExit s)"
      using la lb by (simp add: filled1_def)
    then show "I 0 s" unfolding I_def by blast
  next
    show "0 \<le> n" by simp
  next
    fix j s' assume j: "0 \<le> j" "j < n" and inv: "I j s'"
    from inv obtain a b where
      s': "s' = s\<lparr>startTimesExit := a, durationsExit := b, draws := draws s + 2 * j\<rparr>"
      and fa: "filled1 n j (\<lambda>i. rnd (draws s + 2 * i) * EXIT_startJitter) a"
      and fb: "filled1 n j (\<lambda>i. EXIT_minDur + rnd (Suc (draws s + 2 * i)) * (EXIT_maxDur - EXIT_minDur)) b"
      unfolding I_def by blast
    have c: "draws s + 2 * j + 2 = draws s + 2 * Suc j" by simp
    show "\<exists>s''. exit_timing_body rnd j s' = Some s'' \<and> I (Suc j) s''"
      unfolding s' exit_timing_body_step c I_def
      using filled1_step[OF fa j(2)] filled1_step[OF fb j(2)] by blast
  qed
  then show ?thesis unfolding I_def by blast
qed

lemma prepare_eq:
  assumes len: "length (endPositions st) = N st * 3"
  shows "\<exists>sp ep tb db te de.
      prepareBuildCycle rnd tnow st = Some (prepare_post st tnow sp ep tb db te de)
    \<and> filled3 (N st) (N st)
         (\<lambda>i. spawn_coord rnd ((bounds_w st * scale st) / 2 + LOGO_DIAMETER * 0.75)
                 ((bounds_h st * scale st) / 2 + LOGO_DIAMETER * 0.75) (draws st + 5 * i)) sp
    \<and> filled3 (N st) (N st) (\<lambda>i. exit_coord rnd (endPositions st) (draws st + 5 * i) i) ep
    \<and> filled1 (N st) (N st) (\<lambda>i. rnd (draws st + 5 * N st + 2 * i) * BUILD_startJitter) tb
    \<and> filled1 (N st) (N st)
         (\<lambda>i. BUILD_minDur + rnd (Suc (draws st + 5 * N st + 2 * i)) * (BUILD_maxDur - BUILD_minDur)) db
    \<and> filled1 (N st) (N st) (\<lambda>i. rnd (draws st + 7 * N st + 2 * i) * EXIT_startJitter) te
    \<and> filled1 (N st) (N st)
         (\<lambda>i. EXIT_minDur + rnd (Suc (draws st + 7 * N st + 2 * i)) * (EXIT_maxDur - EXIT_minDur)) de"
proof -
  let ?hw = "(bounds_w st * scale st) / 2 + LOGO_DIAMETER * 0.75"
  let ?hh = "(bounds_h st * scale st) / 2 + LOGO_DIAMETER * 0.75"
  let ?st0 = "st\<lparr>startPositions := replicate (N st * 3) 0, exitPositions := replicate (N st * 3) 0\<rparr>"
  have a: "length (startPositions ?st0) = N st * 3" "length (exitPositions ?st0) = N st * 3"
    "N st * 3 \<le> length (endPositions ?st0)" using len by simp_all
  from spawn_loop[OF a, of rnd ?hw ?hh] obtain sp ep where
    L1: "for_loop 0 (N st) (spawn_body rnd ?hw ?hh) ?st0 =
            Some (?st0\<lparr>startPositions := sp, exitPositions := ep, draws := draws ?st0 + 5 * N st\<rparr>)"
    and fsp: "filled3 (N st) (N st) (\<lambda>i. spawn_coord rnd ?hw ?hh (draws ?st0 + 5 * i)) sp"
    and fep: "filled3 (N st) (N st) (\<lambda>i. exit_coord rnd (endPositions ?st0) (draws ?st0 + 5 * i) i) ep"
    by blast
  define S1 where "S1 = ?st0\<lparr>startPositions := sp, exitPositions := ep, draws := draws ?st0 + 5 * N st\<rparr>"
  let ?st2 = "S1\<lparr>position := startPositions S1,
                 startTimesBuild := replicate (N st) 0, durationsBuild := replicate (N st) 0\<rparr>"
  have b: "length (startTimesBuild ?st2) = N st" "length (durationsBuild ?st2) = N st" by simp_all
  from build_timing_loop[OF b, of rnd] obtain tb db where
    L2: "for_loop 0 (N st) (build_timing_body rnd) ?st2 =
            Some (?st2\<lparr>startTimesBuild := tb, durationsBuild := db, draws := draws ?st2 + 2 * N st\<rparr>)"
    and ftb: "filled1 (N st) (N st) (\<lambda>i. rnd (draws ?st2 + 2 * i) * BUILD_startJitter) tb"
    and fdb: "filled1 (N st) (N st)
         (\<lambda>i. BUILD_minDur + rnd (Suc (draws ?st2 + 2 * i)) * (BUILD_maxDur - BUILD_minDur)) db"
    by blast
  define S3 where "S3 = ?st2\<lparr>startTimesBuild := tb, durationsBuild := db, draws := draws ?st2 + 2 * N st\<rparr>"
  let ?st4 = "S3\<lparr>startTimesExit := replicate (N st) 0, durationsExit := replicate (N st) 0\<rparr>"
  have c: "length (startTimesExit ?st4) = N st" "length (durationsExit ?st4) = N st" by simp_all
  from exit_timing_loop[OF c, of rnd] obtain te de where
    L3: "for_loop 0 (N st) (exit_timing_body rnd) ?st4 =
            Some (?st4\<lparr>startTimesExit := te, durationsExit := de, draws := draws ?st4 + 2 * N st\<rparr>)"
    and fte: "filled1 (N st) (N st) (\<lambda>i. rnd (draws ?st4 + 2 * i) * EXIT_startJitter) te"
    and fde: "filled1 (N st) (N st)
         (\<lambda>i. EXIT_minDur + rnd (Suc (draws ?st4 + 2 * i)) * (EXIT_maxDur - EXIT_minDur)) de"
    by blast
  define S5 where "S5 = ?st4\<lparr>startTimesExit := te, durationsExit := de, draws := draws ?st4 + 2 * N st\<rparr>"
  have d2: "draws ?st2 = draws st + 5 * N st" by (simp add: S1_def)
  have d4: "draws ?st4 = draws st + 7 * N st" by (simp add: S3_def S1_def)
  have run: "prepareBuildCycle rnd tnow st =
      Some (S5\<lparr>points_visible := True, points_opacity := 1.0, plane_opacity := 0.0,
                   rotation_x := 0, rotation_y := - pi, rotation_z := 0,
                   shakePhase := 0, phase := BUILD_SPIN, tPhaseStart := tnow,
                   avgBuildProgress := 0\<rparr>)"
    unfolding prepareBuildCycle_def Let_def L1 S1_def[symmetric]
    by (simp only: Option.bind.simps L2 S3_def[symmetric] L3 S5_def[symmetric])
  have "prepareBuildCycle rnd tnow st = Some (prepare_post st tnow sp ep tb db te de)"
    unfolding run by (simp add: prepare_post_def S5_def S3_def S1_def)
  moreover have "filled3 (N st) (N st) (\<lambda>i. spawn_coord rnd ?hw ?hh (draws st + 5 * i)) sp"
    using fsp by simp
  moreover have "filled3 (N st) (N st) (\<lambda>i. exit_coord rnd (endPositions st) (draws st + 5 * i) i) ep"
    using fep by simp
  moreover note ftb[unfolded d2] fdb[unfolded d2] fte[unfolded d4] fde[unfolded d4]
  ultimately show ?thesis by blast
qed

lemma tick_wait:
  assumes "phase st = WAIT" "LOOP_rebuildDelay \<le> now f - tPhaseStart st"
  shows "tick rnd f st = prepareBuildCycle rnd (prepare_now f) st"
  using assms by (simp add: tick_def)

lemma filled3_nth:
  assumes "filled3 n j g p" "i < j"
  shows "p ! (i * 3) = g i 0 \<and> p ! (i * 3 + 1) = g i 1 \<and> p ! (i * 3 + 2) = g i 2"
proof -
  have a: "\<forall>k<3. p ! (i * 3 + k) = g i k" using assms by (simp add: filled3_def)
  have "p ! (i * 3 + 0) = g i 0" using a by (rule allE [of _ 0]) simp
  moreover have "p ! (i * 3 + 1) = g i 1" using a by (rule allE [of _ 1]) simp
  moreover have "p ! (i * 3 + 2) = g i 2" using a by (rule allE [of _ 2]) simp
  ultimately show ?thesis by simp
qed

lemma edge_quarters:
  assumes "0 \<le> (u::real)" "u < 1"
  shows "\<lfloor>u * 4\<rfloor> = 0 \<or> \<lfloor>u * 4\<rfloor> = 1 \<or> \<lfloor>u * 4\<rfloor> = 2 \<or> \<lfloor>u * 4\<rfloor> = 3"
    and "\<lfloor>u * 4\<rfloor> = 0 \<longleftrightarrow> 0 \<le> u \<and> u < 1 / 4" and "\<lfloor>u * 4\<rfloor> = 1 \<longleftrightarrow> 1 / 4 \<le> u \<and> u < 2 / 4"
    and "\<lfloor>u * 4\<rfloor> = 2 \<longleftrightarrow> 2 / 4 \<le> u \<and> u < 3 / 4" and "\<lfloor>u * 4\<rfloor> = 3 \<longleftrightarrow> 3 / 4 \<le> u \<and> u < 1"
proof -
  have q: "\<lfloor>u * 4\<rfloor> = k \<longleftrightarrow> of_int k / 4 \<le> u \<and> u < (of_int k + 1) / 4" for k :: int
    by (simp add: floor_eq_iff field_simps)
  have lo: "0 \<le> \<lfloor>u * 4\<rfloor>" using assms(1) by simp
  have hi: "\<lfloor>u * 4\<rfloor> < 4" using assms(2) by (simp add: floor_less_iff)
  show "\<lfloor>u * 4\<rfloor> = 0 \<or> \<lfloor>u * 4\<rfloor> = 1 \<or> \<lfloor>u * 4\<rfloor> = 2 \<or> \<lfloor>u * 4\<rfloor> = 3"
    using lo hi by linarith
  show "\<lfloor>u * 4\<rfloor> = 0 \<longleftrightarrow> 0 \<le> u \<and> u < 1 / 4" using q[of 0] by simp
  show "\<lfloor>u * 4\<rfloor> = 1 \<longleftrightarrow> 1 / 4 \<le> u \<and> u < 2 / 4" using q[of 1] by simp
  show "\<lfloor>u * 4\<rfloor> = 2 \<longleftrightarrow> 2 / 4 \<le> u \<and> u < 3 / 4" using q[of 2] by simp
  show "\<lfloor>u * 4\<rfloor> = 3 \<longleftrightarrow> 3 / 4 \<le> u \<and> u < 1" using q[of 3] by simp
qed

lemma randBetween_range:
  assumes "0 \<le> (u::real)" "u < 1" "0 \<le> (h::real)"
  shows "- h \<le> - h + u * (h - - h) \<and> - h + u * (h - - h) \<le> h"
proof -
  have "0 \<le> u * (2 * h)" using assms by simp
  moreover have "u * (2 * h) \<le> 1 * (2 * h)" using assms by (intro mult_right_mono) simp_all
  ultimately show ?thesis by simp
qed

lemma wait_frame_rebuilds:
  assumes ph: "phase st = WAIT" and len: "length (endPositions st) = N st * 3"
    and el: "LOOP_rebuildDelay \<le> now f - tPhaseStart st"
    and rnd: "\<forall>k. 0 \<le> rnd k \<and> rnd k < 1"
    and bw: "0 \<le> bounds_w st * scale st" and bh: "0 \<le> bounds_h st * scale st"
  shows "\<exists>st'. tick rnd f st = Some st'
     \<and> tick rnd f st = prepareBuildCycle rnd (prepare_now f) st
     \<and> phase st' = BUILD_SPIN \<and> tPhaseStart st' = prepare_now f
     \<and> draws st' = draws st + 9 * N st \<and> N st' = N st \<and> position st' = startPositions st'
     \<and> (\<forall>i<N st.
          (let halfW = (bounds_w st * scale st) / 2 + LOGO_DIAMETER * 0.75;
               halfH = (bounds_h st * scale st) / 2 + LOGO_DIAMETER * 0.75;
               u = rnd (draws st + 5 * i);
               edge = \<lfloor>u * 4\<rfloor>;
               x = startPositions st' ! (i * 3);
               y = startPositions st' ! (i * 3 + 1)
           in (edge = 0 \<or> edge = 1 \<or> edge = 2 \<or> edge = 3)
            \<and> (edge = 0 \<longleftrightarrow> 0 \<le> u \<and> u < 1 / 4) \<and> (edge = 1 \<longleftrightarrow> 1 / 4 \<le> u \<and> u < 2 / 4)
            \<and> (edge = 2 \<longleftrightarrow> 2 / 4 \<le> u \<and> u < 3 / 4) \<and> (edge = 3 \<longleftrightarrow> 3 / 4 \<le> u \<and> u < 1)
            \<and> (edge = 0 \<longrightarrow> x = - halfW \<and> - halfH \<le> y \<and> y \<le> halfH)
            \<and> (edge = 1 \<longrightarrow> x = halfW \<and> - halfH \<le> y \<and> y \<le> halfH)
            \<and> (edge = 2 \<longrightarrow> y = halfH \<and> - halfW \<le> x \<and> x \<le> halfW)
            \<and> (edge = 3 \<longrightarrow> y = - halfH \<and> - halfW \<le> x \<and> x \<le> halfW)
            \<and> (\<bar>x\<bar> > (bounds_w st * scale st) / 2 \<or> \<bar>y\<bar> > (bounds_h st * scale st) / 2)))"
proof -
  let ?hw = "(bounds_w st * scale st) / 2 + LOGO_DIAMETER * 0.75"
  let ?hh = "(bounds_h st * scale st) / 2 + LOGO_DIAMETER * 0.75"
  from prepare_eq[OF len, of rnd "prepare_now f"] obtain sp ep tb db te de where
    run: "prepareBuildCycle rnd (prepare_now f) st = Some (prepare_post st (prepare_now f) sp ep tb db te de)"
    and fsp: "filled3 (N st) (N st) (\<lambda>i. spawn_coord rnd ?hw ?hh (draws st + 5 * i)) sp"
    by blast
  let ?st' = "prepare_post st (prepare_now f) sp ep tb db te de"
  have t: "tick rnd f st = Some ?st'" using tick_wait[OF ph el] run by simp
  have hw: "0 \<le> ?hw" and hh: "0 \<le> ?hh" using bw bh by simp_all
  have basics: "phase ?st' = BUILD_SPIN \<and> tPhaseStart ?st' = prepare_now f
     \<and> draws ?st' = draws st + 9 * N st \<and> N ?st' = N st \<and> position ?st' = startPositions ?st'"
    by (simp add: prepare_post_def)
  have sp: "startPositions ?st' = sp" by (simp add: prepare_post_def)
  have per: "(let halfW = ?hw; halfH = ?hh; u = rnd (draws st + 5 * i); edge = \<lfloor>u * 4\<rfloor>;
               x = startPositions ?st' ! (i * 3); y = startPositions ?st' ! (i * 3 + 1)
           in (edge = 0 \<or> edge = 1 \<or> edge = 2 \<or> edge = 3)
            \<and> (edge = 0 \<longleftrightarrow> 0 \<le> u \<and> u < 1 / 4) \<and> (edge = 1 \<longleftrightarrow> 1 / 4 \<le> u \<and> u < 2 / 4)
            \<and> (edge = 2 \<longleftrightarrow> 2 / 4 \<le> u \<and> u < 3 / 4) \<and> (edge = 3 \<longleftrightarrow> 3 / 4 \<le> u \<and> u < 1)
            \<and> (edge = 0 \<longrightarrow> x = - halfW \<and> - halfH \<le> y \<and> y \<le> halfH)
            \<and> (edge = 1 \<longrightarrow> x = halfW \<and> - halfH \<le> y \<and> y \<le> halfH)
            \<and> (edge = 2 \<longrightarrow> y = halfH \<and> - halfW \<le> x \<and> x \<le> halfW)
            \<and> (edge = 3 \<longrightarrow> y = - halfH \<and> - halfW \<le> x \<and> x \<le> halfW)
            \<and> (\<bar>x\<bar> > (bounds_w st * scale st) / 2 \<or> \<bar>y\<bar> > (bounds_h st * scale st) / 2))"
    if i: "i < N st" for i
  proof -
    let ?c = "draws st + 5 * i"
    let ?u = "rnd ?c"
    let ?v = "rnd (Suc (Suc ?c))"
    have u: "0 \<le> ?u" "?u < 1" and v: "0 \<le> ?v" "?v < 1" using rnd by simp_all
    note eq = edge_quarters[OF u]
    have x: "sp ! (i * 3) = spawn_coord rnd ?hw ?hh ?c 0"
      and y: "sp ! (i * 3 + 1) = spawn_coord rnd ?hw ?hh ?c 1"
      using filled3_nth[OF fsp i] by simp_all
    note rw = randBetween_range[OF v hw] and rh = randBetween_range[OF v hh]
    from eq(1) consider "\<lfloor>?u * 4\<rfloor> = 0" | "\<lfloor>?u * 4\<rfloor> = 1" | "\<lfloor>?u * 4\<rfloor> = 2" | "\<lfloor>?u * 4\<rfloor> = 3"
      by blast
    then have geo: "(\<lfloor>?u * 4\<rfloor> = 0 \<longrightarrow> sp ! (i * 3) = - ?hw \<and> - ?hh \<le> sp ! (i * 3 + 1) \<and> sp ! (i * 3 + 1) \<le> ?hh)
            \<and> (\<lfloor>?u * 4\<rfloor> = 1 \<longrightarrow> sp ! (i * 3) = ?hw \<and> - ?hh \<le> sp ! (i * 3 + 1) \<and> sp ! (i * 3 + 1) \<le> ?hh)
            \<and> (\<lfloor>?u * 4\<rfloor> = 2 \<longrightarrow> sp ! (i * 3 + 1) = ?hh \<and> - ?hw \<le> sp ! (i * 3) \<and> sp ! (i * 3) \<le> ?hw)
            \<and> (\<lfloor>?u * 4\<rfloor> = 3 \<longrightarrow> sp ! (i * 3 + 1) = - ?hh \<and> - ?hw \<le> sp ! (i * 3) \<and> sp ! (i * 3) \<le> ?hw)
            \<and> (\<bar>sp ! (i * 3)\<bar> > (bounds_w st * scale st) / 2 \<or> \<bar>sp ! (i * 3 + 1)\<bar> > (bounds_h st * scale st) / 2)"
    proof cases
      case 1
      then show ?thesis using rh bw bh unfolding x y by (simp add: spawn_coord_def spawn_edge_def Let_def)
    next
      case 2
      then show ?thesis using rh bw bh unfolding x y by (simp add: spawn_coord_def spawn_edge_def Let_def)
    next
      case 3
      then show ?thesis using rw bw bh unfolding x y by (simp add: spawn_coord_def spawn_edge_def Let_def)
    next
      case 4
      then show ?thesis using rw bw bh unfolding x y by (simp add: spawn_coord_def spawn_edge_def Let_def)
    qed
    show ?thesis unfolding Let_def sp
      by (rule conjI [OF eq(1) conjI [OF eq(2) conjI [OF eq(3) conjI [OF eq(4) conjI [OF eq(5) geo]]]]])
  qed
  show ?thesis
  proof (intro exI conjI)
    show "tick rnd f st = Some ?st'" by (rule t)
    show "tick rnd f st = prepareBuildCycle rnd (prepare_now f) st" by (rule tick_wait[OF ph el])
    show "phase ?st' = BUILD_SPIN" "tPhaseStart ?st' = prepare_now f"
      "draws ?st' = draws st + 9 * N st" "N ?st' = N st" "position ?st' = startPositions ?st'"
      using basics by simp_all
    show "\<forall>i<N st.
          (let halfW = (bounds_w st * scale st) / 2 + LOGO_DIAMETER * 0.75;
               halfH = (bounds_h st * scale st) / 2 + LOGO_DIAMETER * 0.75;
               u = rnd (draws st + 5 * i);
               edge = \<lfloor>u * 4\<rfloor>;
               x = startPositions ?st' ! (i * 3);
               y = startPositions ?st' ! (i * 3 + 1)
           in (edge = 0 \<or> edge = 1 \<or> edge = 2 \<or> edge = 3)
            \<and> (edge = 0 \<longleftrightarrow> 0 \<le> u \<and> u < 1 / 4) \<and> (edge = 1 \<longleftrightarrow> 1 / 4 \<le> u \<and> u < 2 / 4)
            \<and> (edge = 2 \<longleftrightarrow> 2 / 4 \<le> u \<and> u < 3 / 4) \<and> (edge = 3 \<longleftrightarrow> 3 / 4 \<le> u \<and> u < 1)
            \<and> (edge = 0 \<longrightarrow> x = - halfW \<and> - halfH \<le> y \<and> y \<le> halfH)
            \<and> (edge = 1 \<longrightarrow> x = halfW \<and> - halfH \<le> y \<and> y \<le> halfH)
            \<and> (edge = 2 \<longrightarrow> y = halfH \<and> - halfW \<le> x \<and> x \<le> halfW)
            \<and> (edge = 3 \<longrightarrow> y = - halfH \<and> - halfW \<le> x \<and> x \<le> halfW)
            \<and> (\<bar>x\<bar> > (bounds_w st * scale st) / 2 \<or> \<bar>y\<bar> > (bounds_h st * scale st) / 2))"
      by (intro allI impI) (rule per)
  qed
qed

subsection \<open>The hand-off between two frames\<close>

lemma sin_lipschitz: "\<bar>sin a - sin b\<bar> \<le> \<bar>a - b\<bar>" for a b :: real
proof -
  have "\<bar>sin a - sin b\<bar> = 2 * \<bar>sin ((a - b) / 2)\<bar> * \<bar>cos ((a + b) / 2)\<bar>"
    by (simp add: sin_diff_sin abs_mult)
  also have "\<dots> \<le> 2 * \<bar>(a - b) / 2\<bar> * 1"
    by (intro mult_mono mult_left_mono abs_sin_x_le_abs_x) simp_all
  finally show ?thesis by simp
qed

lemma blend_range: "0 \<le> blend a \<and> blend a \<le> 1"
proof -
  define t where "t = clamp01 ((a - HANDOFF_startProg) / (HANDOFF_endProg - HANDOFF_startProg))"
  have t: "0 \<le> t" "t \<le> 1" using clamp01_range[of "(a - HANDOFF_startProg) / (HANDOFF_endProg - HANDOFF_startProg)"]
    unfolding t_def by simp_all
  have b: "blend a = t * t * (3 - 2 * t)" by (simp add: blend_def t_def Let_def)
  have "0 \<le> t * t * (3 - 2 * t)" using t by (intro mult_nonneg_nonneg) simp_all
  moreover have "1 - t * t * (3 - 2 * t) = (1 - t) * (1 - t) * (1 + 2 * t)" by (simp add: algebra_simps)
  moreover have "0 \<le> (1 - t) * (1 - t) * (1 + 2 * t)" using t by (intro mult_nonneg_nonneg) simp_all
  ultimately show ?thesis unfolding b by linarith
qed

lemma MAX_YAW_nonneg: "0 \<le> MAX_YAW"
  by (simp add: MAX_YAW_def degToRad_def)

lemma yaw_step:
  fixes s1 s2 b1 b2 p1 p2 M :: real
  assumes "0 \<le> s2" "0 \<le> M"
  shows "\<bar>((1 - s2) * b2 + M * sin p2 * s2) - ((1 - s1) * b1 + M * sin p1 * s1)\<bar>
        \<le> s2 * (M * \<bar>p2 - p1\<bar>) + M * \<bar>s2 - s1\<bar> + \<bar>(1 - s2) * b2 - (1 - s1) * b1\<bar>"
proof -
  have split: "((1 - s2) * b2 + M * sin p2 * s2) - ((1 - s1) * b1 + M * sin p1 * s1)
      = ((1 - s2) * b2 - (1 - s1) * b1) + s2 * (M * (sin p2 - sin p1)) + M * ((s2 - s1) * sin p1)"
    by (simp add: algebra_simps)
  have a: "\<bar>s2 * (M * (sin p2 - sin p1))\<bar> \<le> s2 * (M * \<bar>p2 - p1\<bar>)"
  proof -
    have "\<bar>s2 * (M * (sin p2 - sin p1))\<bar> = s2 * (M * \<bar>sin p2 - sin p1\<bar>)"
      using assms by (simp add: abs_mult)
    also have "\<dots> \<le> s2 * (M * \<bar>p2 - p1\<bar>)"
      using assms sin_lipschitz[of p2 p1] by (intro mult_left_mono) simp_all
    finally show ?thesis .
  qed
  have b: "\<bar>M * ((s2 - s1) * sin p1)\<bar> \<le> M * \<bar>s2 - s1\<bar>"
  proof -
    have "\<bar>M * ((s2 - s1) * sin p1)\<bar> = M * (\<bar>s2 - s1\<bar> * \<bar>sin p1\<bar>)"
      using assms by (simp add: abs_mult)
    also have "\<dots> \<le> M * (\<bar>s2 - s1\<bar> * 1)"
      using assms by (intro mult_left_mono) simp_all
    finally show ?thesis by simp
  qed
  show ?thesis unfolding split using a b by linarith
qed

lemma yaw_step_shake:
  fixes s1 b1 p1 p2 M :: real
  assumes "s1 \<le> 1" "0 \<le> M"
  shows "\<bar>M * sin p2 - ((1 - s1) * b1 + M * sin p1 * s1)\<bar>
        \<le> M * \<bar>p2 - p1\<bar> + (1 - s1) * (M + \<bar>b1\<bar>)"
proof -
  have split: "M * sin p2 - ((1 - s1) * b1 + M * sin p1 * s1)
      = M * (sin p2 - sin p1) + (1 - s1) * (M * sin p1 - b1)"
    by (simp add: algebra_simps)
  have a: "\<bar>M * (sin p2 - sin p1)\<bar> \<le> M * \<bar>p2 - p1\<bar>"
  proof -
    have "\<bar>M * (sin p2 - sin p1)\<bar> = M * \<bar>sin p2 - sin p1\<bar>" using assms by (simp add: abs_mult)
    also have "\<dots> \<le> M * \<bar>p2 - p1\<bar>" using assms sin_lipschitz[of p2 p1] by (intro mult_left_mono) simp_all
    finally show ?thesis .
  qed
  have "\<bar>M * sin p1\<bar> \<le> M * 1"
    using assms by (simp add: abs_mult mult_left_le)
  then have "\<bar>M * sin p1 - b1\<bar> \<le> M + \<bar>b1\<bar>" by linarith
  then have b: "\<bar>(1 - s1) * (M * sin p1 - b1)\<bar> \<le> (1 - s1) * (M + \<bar>b1\<bar>)"
    using assms by (simp add: abs_mult mult_left_mono)
  show ?thesis unfolding split using a b by linarith
qed

lemma built_length: "built st t j p \<Longrightarrow> length p = N st * 3"
  by (simp add: built_def)

lemma wf_build_post:
  assumes "wf_scene st" "built st (now f) (N st) p"
  shows "wf_scene (build_post f st p)"
  using assms by (simp add: wf_scene_def build_post_def built_def Let_def)

lemma avg_build_post:
  assumes "phase st = BUILD_SPIN" "phase (build_post f st p) = BUILD_SPIN"
  shows "avg_build (build_post f st p) t = avg_build st t"
proof -
  have "tPhaseStart (build_post f st p) = tPhaseStart st"
    using assms by (auto simp add: build_post_def Let_def split: if_splits)
  then show ?thesis by (simp add: avg_build_def eased_build_def build_post_def Let_def)
qed

lemma build_post_yaw:
  "rotation_y (build_post f st p) =
     (1 - blend (avgBuildProgress (build_post f st p))) * lerp (- pi) 0 (avgBuildProgress (build_post f st p))
     + MAX_YAW * sin (shakePhase (build_post f st p)) * blend (avgBuildProgress (build_post f st p))"
  by (simp add: build_post_def Let_def)

lemma build_post_shake:
  "shakePhase (build_post f st p) =
     shakePhase st + SHAKE_speed * dt f * (if blend (avgBuildProgress (build_post f st p)) > 0 then 1 else 0)"
  by (simp add: build_post_def Let_def)

lemma build_post_avg: "avgBuildProgress (build_post f st p) = avg_build st (now f)"
  by (simp add: build_post_def Let_def)

lemma build_post_phase:
  assumes "phase st = BUILD_SPIN"
  shows "phase (build_post f st p) = BUILD_SPIN \<or>
         (phase (build_post f st p) = SHAKE \<and> 0.999 \<le> blend (avgBuildProgress (build_post f st p)))"
  using assms by (simp add: build_post_def Let_def)

lemma build_post_N: "N (build_post f st p) = N st"
  by (simp add: build_post_def Let_def)

lemma tick_shake:
  assumes "phase st = SHAKE"
  shows "tick rnd f st = Some (tick_SHAKE f st)"
  using assms by (simp add: tick_def)

lemma tick_SHAKE_yaw:
  "rotation_y (tick_SHAKE f st) = MAX_YAW * sin (shakePhase st + SHAKE_speed * dt f)
   \<and> avgBuildProgress (tick_SHAKE f st) = avgBuildProgress st"
  by (simp add: tick_SHAKE_def Let_def)

lemma blend_continuous: "continuous_on UNIV blend"
proof -
  have "continuous_on UNIV (\<lambda>a::real. max 0 (min 1 ((a - HANDOFF_startProg) / (HANDOFF_endProg - HANDOFF_startProg))))"
    by (intro continuous_on_max continuous_on_min continuous_on_const continuous_on_divide
        continuous_on_diff continuous_on_id) simp
  then have c: "continuous_on UNIV (\<lambda>a. clamp01 ((a - HANDOFF_startProg) / (HANDOFF_endProg - HANDOFF_startProg)))"
    by (simp add: clamp01_def)
  have "continuous_on UNIV (\<lambda>a. clamp01 ((a - HANDOFF_startProg) / (HANDOFF_endProg - HANDOFF_startProg))
      * clamp01 ((a - HANDOFF_startProg) / (HANDOFF_endProg - HANDOFF_startProg))
      * (3 - 2 * clamp01 ((a - HANDOFF_startProg) / (HANDOFF_endProg - HANDOFF_startProg))))"
    by (intro continuous_on_mult continuous_on_diff continuous_on_const c)
  then show ?thesis by (simp add: blend_def Let_def)
qed

lemma blended_yaw_continuous:
  "continuous_on UNIV (\<lambda>x. (1 - blend (fst x)) * lerp (- pi) 0 (fst x)
                            + blend (fst x) * (MAX_YAW * sin (snd x)))"
proof -
  have f: "continuous_on UNIV (\<lambda>x::real \<times> real. fst x)"
    by (rule continuous_on_fst) (rule continuous_on_id)
  have g: "continuous_on UNIV (\<lambda>x::real \<times> real. snd x)"
    by (rule continuous_on_snd) (rule continuous_on_id)
  have bf: "continuous_on UNIV (\<lambda>x::real \<times> real. blend (fst x))"
    by (rule continuous_on_compose2 [OF blend_continuous f]) simp
  have lf: "continuous_on UNIV (\<lambda>x::real \<times> real. lerp (- pi) 0 (fst x))"
    unfolding lerp_def
    by (intro continuous_on_add continuous_on_mult continuous_on_diff continuous_on_const f)
  have sf: "continuous_on UNIV (\<lambda>x::real \<times> real. sin (snd x))"
    by (rule continuous_on_sin) (rule g)
  show ?thesis
    by (intro continuous_on_add continuous_on_mult continuous_on_diff continuous_on_const bf lf sf)
qed

lemma pi_ge_three: "3 \<le> pi"
proof -
  have "\<bar>sin (pi / 6)\<bar> \<le> \<bar>pi / 6\<bar>" by (rule abs_sin_x_le_abs_x)
  then show ?thesis by (simp add: sin_30)
qed

lemma easeOutExpo_04: "easeOutExpo (2 / 5) = 15 / 16"
proof -
  have "(2::real) powr (- 4) = 1 / 16" by (simp add: powr_neg_numeral)
  moreover have "- 10 * (2 / 5 :: real) = - 4" by simp
  ultimately show ?thesis by (simp add: easeOutExpo_def)
qed

lemma easeOutExpo_05: "easeOutExpo (1 / 2) = 31 / 32"
proof -
  have "(2::real) powr (- 5) = 1 / 32" by (simp add: powr_neg_numeral)
  moreover have "- 10 * (1 / 2 :: real) = - 5" by simp
  ultimately show ?thesis by (simp add: easeOutExpo_def)
qed

lemma blend_below: "blend (15 / 16) = 0"
  by (simp add: blend_def clamp01_def Let_def)

lemma blend_mid: "blend (31 / 32) = 25921 / 55296"
  by (simp add: blend_def clamp01_def Let_def)

lemma avg_handoff_1: "avg_build handoff_scene (now handoff_frame_1) = 15 / 16"
proof -
  have "eased_build handoff_scene (now handoff_frame_1) 0 = easeOutExpo (2 / 5)"
    by (simp add: eased_build_def handoff_scene_def handoff_frame_1_def clamp01_def)
  then show ?thesis by (simp add: avg_build_def handoff_scene_def easeOutExpo_04)
qed

lemma avg_handoff_2: "avg_build handoff_scene (now handoff_frame_2) = 31 / 32"
proof -
  have "eased_build handoff_scene (now handoff_frame_2) 0 = easeOutExpo (1 / 2)"
    by (simp add: eased_build_def handoff_scene_def handoff_frame_2_def clamp01_def)
  then show ?thesis by (simp add: avg_build_def handoff_scene_def easeOutExpo_05)
qed

lemma wf_handoff_scene: "wf_scene handoff_scene \<and> 0 < N handoff_scene \<and> phase handoff_scene = BUILD_SPIN"
  by (simp add: wf_scene_def handoff_scene_def)

lemma handoff_two_frames:
  "\<exists>S1 S2. tick rnd handoff_frame_1 handoff_scene = Some S1
      \<and> tick rnd handoff_frame_2 S1 = Some S2
      \<and> rotation_y S1 = - pi / 16
      \<and> rotation_y S2 = (1 - 25921 / 55296) * (- pi / 32) + MAX_YAW * sin (1 / 10) * (25921 / 55296)"
proof -
  have wf: "wf_scene handoff_scene" and n: "0 < N handoff_scene" and ph: "phase handoff_scene = BUILD_SPIN"
    using wf_handoff_scene by simp_all
  from tick_build[OF wf n ph, of handoff_frame_1 rnd] obtain p1 where
    b1: "built handoff_scene (now handoff_frame_1) (N handoff_scene) p1"
    and t1: "tick rnd handoff_frame_1 handoff_scene = Some (build_post handoff_frame_1 handoff_scene p1)"
    by blast
  define S1 where "S1 = build_post handoff_frame_1 handoff_scene p1"
  have a1: "avgBuildProgress S1 = 15 / 16"
    unfolding S1_def build_post_avg by (rule avg_handoff_1)
  have sh1: "shakePhase S1 = 0"
    using build_post_shake[of handoff_frame_1 handoff_scene p1]
    unfolding S1_def[symmetric] a1 blend_below by (simp add: handoff_scene_def)
  have y1: "rotation_y S1 = - pi / 16"
    using build_post_yaw[of handoff_frame_1 handoff_scene p1]
    unfolding S1_def[symmetric] a1 blend_below by (simp add: lerp_def)
  have ph1: "phase S1 = BUILD_SPIN"
    using build_post_phase[OF ph, of handoff_frame_1 p1]
    unfolding S1_def[symmetric] a1 blend_below by simp
  have wf1: "wf_scene S1" unfolding S1_def using wf b1 by (rule wf_build_post)
  have n1: "0 < N S1" unfolding S1_def using n by (simp add: build_post_N)
  from tick_build[OF wf1 n1 ph1, of handoff_frame_2 rnd] obtain p2 where
    t2: "tick rnd handoff_frame_2 S1 = Some (build_post handoff_frame_2 S1 p2)" by blast
  define S2 where "S2 = build_post handoff_frame_2 S1 p2"
  have "avg_build S1 (now handoff_frame_2) = avg_build handoff_scene (now handoff_frame_2)"
    unfolding S1_def using ph ph1[unfolded S1_def] by (rule avg_build_post)
  then have a2: "avgBuildProgress S2 = 31 / 32"
    unfolding S2_def build_post_avg by (simp add: avg_handoff_2)
  have sh2: "shakePhase S2 = 1 / 10"
    using build_post_shake[of handoff_frame_2 S1 p2]
    unfolding S2_def[symmetric] a2 blend_mid sh1 by (simp add: handoff_frame_2_def)
  have y2: "rotation_y S2 = (1 - 25921 / 55296) * (- pi / 32) + MAX_YAW * sin (1 / 10) * (25921 / 55296)"
    using build_post_yaw[of handoff_frame_2 S1 p2]
    unfolding S2_def[symmetric] a2 blend_mid sh2 by (simp add: lerp_def)
  show ?thesis
    using t1 t2 y1 y2 unfolding S1_def[symmetric] S2_def[symmetric] by blast
qed

subsection \<open>Frames in closed form, field by field\<close>

lemma avg_build_sum:
  "avg_build st t =
     (\<Sum>i<N st. easeOutExpo (clamp01 ((t - tPhaseStart st - startTimesBuild st ! i)
                                        / durationsBuild st ! i))) / real (N st)"
  by (simp add: avg_build_def eased_build_def)

lemma build_post_opacity:
  "plane_opacity (build_post f st p) =
     (if avgBuildProgress (build_post f st p) > BUILD_planeFadeAt
      then min 1 (plane_opacity st + 0.03) else plane_opacity st)"
  by (simp add: build_post_def Let_def)

lemma build_post_guard:
  assumes "phase st = BUILD_SPIN"
  shows "(phase (build_post f st p) = SHAKE \<longleftrightarrow>
            blend (avgBuildProgress (build_post f st p)) \<ge> 0.999
            \<and> plane_opacity (build_post f st p) \<ge> 0.999)
       \<and> (phase (build_post f st p) \<noteq> SHAKE \<longrightarrow> phase (build_post f st p) = BUILD_SPIN)
       \<and> (phase (build_post f st p) = SHAKE \<longrightarrow> tPhaseStart (build_post f st p) = now f)
       \<and> (phase (build_post f st p) = BUILD_SPIN \<longrightarrow> tPhaseStart (build_post f st p) = tPhaseStart st)"
  using assms by (simp add: build_post_def Let_def)

lemma mean_uniform:
  assumes s: "list_all (\<lambda>b. b = s0) (startTimesBuild st)"
    and d: "list_all (\<lambda>d. d = d0) (durationsBuild st)"
    and ls: "length (startTimesBuild st) = N st" and ld: "length (durationsBuild st) = N st"
    and n: "0 < N st"
  shows "(\<Sum>i<N st. easeOutExpo (clamp01 ((t - tPhaseStart st - startTimesBuild st ! i)
                                        / durationsBuild st ! i))) / real (N st)
         = easeOutExpo (clamp01 ((t - tPhaseStart st - s0) / d0))"
proof -
  have "(\<Sum>i<N st. easeOutExpo (clamp01 ((t - tPhaseStart st - startTimesBuild st ! i)
                                        / durationsBuild st ! i)))
        = (\<Sum>i<N st. easeOutExpo (clamp01 ((t - tPhaseStart st - s0) / d0)))"
  proof (rule sum.cong)
    fix i assume "i \<in> {..<N st}"
    then have i: "i < N st" by simp
    have "startTimesBuild st ! i = s0" "durationsBuild st ! i = d0"
      using s d ls ld i by (simp_all add: list_all_length)
    then show "easeOutExpo (clamp01 ((t - tPhaseStart st - startTimesBuild st ! i) / durationsBuild st ! i))
        = easeOutExpo (clamp01 ((t - tPhaseStart st - s0) / d0))" by simp
  qed (rule refl)
  also have "\<dots> = real (N st) * easeOutExpo (clamp01 ((t - tPhaseStart st - s0) / d0))"
    by simp
  finally show ?thesis using n by simp
qed

lemma mean_scenario_A:
  "(\<Sum>i<N scenario_A. easeOutExpo (clamp01 ((t - tPhaseStart scenario_A - startTimesBuild scenario_A ! i)
                                        / durationsBuild scenario_A ! i))) / real (N scenario_A)
   = easeOutExpo (clamp01 (t / 2))"
proof -
  have "(\<Sum>i<N scenario_A. easeOutExpo (clamp01 ((t - tPhaseStart scenario_A - startTimesBuild scenario_A ! i)
                                        / durationsBuild scenario_A ! i))) / real (N scenario_A)
     = easeOutExpo (clamp01 ((t - tPhaseStart scenario_A - 0) / 2))"
    by (rule mean_uniform) (simp_all add: scenario_A_def)
  then show ?thesis by (simp add: scenario_A_def)
qed

lemma mean_scenario_A_faded:
  "(\<Sum>i<N scenario_A_faded. easeOutExpo (clamp01 ((t - tPhaseStart scenario_A_faded - startTimesBuild scenario_A_faded ! i)
                                        / durationsBuild scenario_A_faded ! i))) / real (N scenario_A_faded)
   = easeOutExpo (clamp01 (t / 2))"
proof -
  have "(\<Sum>i<N scenario_A_faded. easeOutExpo (clamp01 ((t - tPhaseStart scenario_A_faded - startTimesBuild scenario_A_faded ! i)
                                        / durationsBuild scenario_A_faded ! i))) / real (N scenario_A_faded)
     = easeOutExpo (clamp01 ((t - tPhaseStart scenario_A_faded - 0) / 2))"
    by (rule mean_uniform) (simp_all add: scenario_A_faded_def scenario_A_def)
  then show ?thesis by (simp add: scenario_A_faded_def scenario_A_def)
qed

lemma blend_one: "blend 1 = 1"
  by (simp add: blend_def clamp01_def Let_def)

lemma eased_values:
  "easeOutExpo (clamp01 (2 / 2)) = 1" "easeOutExpo (clamp01 (1 / 2)) = 31 / 32"
  "easeOutExpo (clamp01 (0 / 2)) = 0"
  using easeOutExpo_05 by (simp_all add: clamp01_def easeOutExpo_def)

lemma exit_post_fields:
  assumes "phase st = EXIT"
  shows "position (exit_post f st p) = p"
    and "phase (exit_post f st p) = (if done_count st (now f) (N st) \<ge> N st then WAIT else EXIT)"
    and "phase (exit_post f st p) = WAIT \<longrightarrow> tPhaseStart (exit_post f st p) = now f"
    and "phase (exit_post f st p) = EXIT \<longrightarrow> tPhaseStart (exit_post f st p) = tPhaseStart st"
  using assms by (simp_all add: exit_post_def Let_def)

lemma clamp01_strict_mono:
  assumes d: "0 < dur" and t: "t1 < t2"
    and r: "0 < clamp01 ((t1 - t0 - start) / dur)" "clamp01 ((t1 - t0 - start) / dur) < 1"
           "0 < clamp01 ((t2 - t0 - start) / dur)" "clamp01 ((t2 - t0 - start) / dur) < 1"
  shows "clamp01 ((t1 - t0 - start) / dur) < clamp01 ((t2 - t0 - start) / dur)"
proof -
  have "clamp01 ((t1 - t0 - start) / dur) = (t1 - t0 - start) / dur"
    using r(1,2) by (rule clamp01_inside)
  moreover have "clamp01 ((t2 - t0 - start) / dur) = (t2 - t0 - start) / dur"
    using r(3,4) by (rule clamp01_inside)
  moreover have "(t1 - t0 - start) / dur < (t2 - t0 - start) / dur"
    using d t by (simp add: divide_strict_right_mono)
  ultimately show ?thesis by simp
qed

lemma build_particle:
  assumes wf: "wf_scene st" and b: "built st tnow (N st) p" and i: "i < N st"
  shows "\<exists>e. e = easeOutExpo (clamp01 ((tnow - tPhaseStart st - startTimesBuild st ! i)
                                         / durationsBuild st ! i))
       \<and> 0 \<le> e \<and> e \<le> 1
       \<and> (\<forall>k<3. p ! (i * 3 + k)
                    = lerp (startPositions st ! (i * 3 + k)) (endPositions st ! (i * 3 + k)) e
              \<and> min (startPositions st ! (i * 3 + k)) (endPositions st ! (i * 3 + k))
                  \<le> p ! (i * 3 + k)
              \<and> p ! (i * 3 + k)
                  \<le> max (startPositions st ! (i * 3 + k)) (endPositions st ! (i * 3 + k)))
       \<and> (durationsBuild st ! i \<le> tnow - tPhaseStart st - startTimesBuild st ! i
            \<longrightarrow> (\<forall>k<3. p ! (i * 3 + k) = endPositions st ! (i * 3 + k)))"
proof -
  let ?q = "clamp01 ((tnow - tPhaseStart st - startTimesBuild st ! i) / durationsBuild st ! i)"
  have e: "easeOutExpo ?q = eased_build st tnow i" by (simp add: eased_build_def)
  have r: "0 \<le> easeOutExpo ?q" "easeOutExpo ?q \<le> 1"
    using easeOutExpo_range[of ?q] clamp01_range[of "(tnow - tPhaseStart st - startTimesBuild st ! i) / durationsBuild st ! i"]
    by simp_all
  have at: "p ! (i * 3 + k) = lerp (startPositions st ! (i * 3 + k)) (endPositions st ! (i * 3 + k))
                (easeOutExpo ?q)" if "k < 3" for k
    using b i that unfolding e by (simp add: built_def)
  have btw: "min (startPositions st ! (i * 3 + k)) (endPositions st ! (i * 3 + k)) \<le> p ! (i * 3 + k)
        \<and> p ! (i * 3 + k) \<le> max (startPositions st ! (i * 3 + k)) (endPositions st ! (i * 3 + k))"
    if "k < 3" for k
    unfolding at[OF that] using r by (rule lerp_between)
  have snap: "\<forall>k<3. p ! (i * 3 + k) = endPositions st ! (i * 3 + k)"
    if "durationsBuild st ! i \<le> tnow - tPhaseStart st - startTimesBuild st ! i"
    using at eased_build_done[OF wf i that] unfolding e by (simp add: lerp_def)
  show ?thesis
  proof (intro exI conjI)
    show "easeOutExpo ?q = easeOutExpo ?q" by (rule refl)
    show "0 \<le> easeOutExpo ?q" "easeOutExpo ?q \<le> 1" by (rule r)+
    show "\<forall>k<3. p ! (i * 3 + k)
                    = lerp (startPositions st ! (i * 3 + k)) (endPositions st ! (i * 3 + k)) (easeOutExpo ?q)
              \<and> min (startPositions st ! (i * 3 + k)) (endPositions st ! (i * 3 + k))
                  \<le> p ! (i * 3 + k)
              \<and> p ! (i * 3 + k)
                  \<le> max (startPositions st ! (i * 3 + k)) (endPositions st ! (i * 3 + k))"
      using at btw by blast
    show "durationsBuild st ! i \<le> tnow - tPhaseStart st - startTimesBuild st ! i
            \<longrightarrow> (\<forall>k<3. p ! (i * 3 + k) = endPositions st ! (i * 3 + k))"
      using snap by blast
  qed
qed

section \<open>Properties\<close>



text \<open>
  C2, as amended. Take two adjacent frames, the first a BUILD\_SPIN frame, the second with
  \<open>dt \<ge> 0\<close>, and let \<open>s\<close>, \<open>s'\<close> be their blend factors. If the second is a BUILD\_SPIN frame
  too, the yaw changes by at most
  \<open>s' * (MAX_YAW * speed * dt) + MAX_YAW * \<bar>s' - s\<bar> + \<bar>(1 - s') * sweepYaw' - (1 - s) * sweepYaw\<bar>\<close>,
  so by at most \<open>MAX_YAW * speed * dt\<close> when \<open>avgBuildProgress\<close> is the same on both. If the
  first frame made the transition to SHAKE (so \<open>s \<ge> 0.999\<close>), the yaw changes by at most
  \<open>MAX_YAW * speed * dt + (1 - s) * (MAX_YAW + \<bar>sweepYaw\<bar>)\<close>. The yaw of a BUILD\_SPIN frame
  is a continuous function of \<open>avgBuildProgress\<close> and the phase accumulator.
\<close>

theorem handoff_step_bound:
  assumes wf: "wf_scene st0" and n: "0 < N st0" and ph: "phase st0 = BUILD_SPIN"
    and dt: "0 \<le> dt f2"
  shows "\<exists>st1 st2 s1 s2. tick rnd f1 st0 = Some st1 \<and> tick rnd f2 st1 = Some st2
     \<and> smoothstep HANDOFF_startProg HANDOFF_endProg (avgBuildProgress st1) = Some s1
     \<and> smoothstep HANDOFF_startProg HANDOFF_endProg (avgBuildProgress st2) = Some s2
     \<and> rotation_y st1 = (1 - blend (avgBuildProgress st1)) * lerp (- pi) 0 (avgBuildProgress st1)
                          + blend (avgBuildProgress st1) * (MAX_YAW * sin (shakePhase st1))
     \<and> (phase st1 = BUILD_SPIN \<longrightarrow>
          \<bar>rotation_y st2 - rotation_y st1\<bar>
            \<le> s2 * (MAX_YAW * SHAKE_speed * dt f2) + MAX_YAW * \<bar>s2 - s1\<bar>
              + \<bar>(1 - s2) * lerp (- pi) 0 (avgBuildProgress st2)
                 - (1 - s1) * lerp (- pi) 0 (avgBuildProgress st1)\<bar>
          \<and> (avgBuildProgress st2 = avgBuildProgress st1 \<longrightarrow>
                \<bar>rotation_y st2 - rotation_y st1\<bar> \<le> MAX_YAW * SHAKE_speed * dt f2))
     \<and> (phase st1 \<noteq> BUILD_SPIN \<longrightarrow> phase st1 = SHAKE \<and> 0.999 \<le> s1 \<and>
          \<bar>rotation_y st2 - rotation_y st1\<bar>
            \<le> MAX_YAW * SHAKE_speed * dt f2
              + (1 - s1) * (MAX_YAW + \<bar>lerp (- pi) 0 (avgBuildProgress st1)\<bar>))
     \<and> continuous_on UNIV (\<lambda>x. (1 - blend (fst x)) * lerp (- pi) 0 (fst x)
                                  + blend (fst x) * (MAX_YAW * sin (snd x)))"
proof -
  from tick_build[OF wf n ph, of f1 rnd] obtain p1 where
    b1: "built st0 (now f1) (N st0) p1" and t1: "tick rnd f1 st0 = Some (build_post f1 st0 p1)"
    by blast
  define S1 where "S1 = build_post f1 st0 p1"
  define a1 where "a1 = avgBuildProgress S1"
  have wf1: "wf_scene S1" unfolding S1_def using wf b1 by (rule wf_build_post)
  have n1: "0 < N S1" unfolding S1_def using n by (simp add: build_post_N)
  have y1: "rotation_y S1 = (1 - blend a1) * lerp (- pi) 0 a1 + MAX_YAW * sin (shakePhase S1) * blend a1"
    unfolding S1_def a1_def by (rule build_post_yaw)
  have s1r: "0 \<le> blend a1" "blend a1 \<le> 1" using blend_range[of a1] by simp_all
  have M: "0 \<le> MAX_YAW" by (rule MAX_YAW_nonneg)
  have cases1: "phase S1 = BUILD_SPIN \<or> (phase S1 = SHAKE \<and> 0.999 \<le> blend a1)"
    unfolding S1_def a1_def using ph by (rule build_post_phase)
  have "\<exists>st2. tick rnd f2 S1 = Some st2
     \<and> (phase S1 = BUILD_SPIN \<longrightarrow>
          \<bar>rotation_y st2 - rotation_y S1\<bar>
            \<le> blend (avgBuildProgress st2) * (MAX_YAW * SHAKE_speed * dt f2)
              + MAX_YAW * \<bar>blend (avgBuildProgress st2) - blend a1\<bar>
              + \<bar>(1 - blend (avgBuildProgress st2)) * lerp (- pi) 0 (avgBuildProgress st2)
                 - (1 - blend a1) * lerp (- pi) 0 a1\<bar>
          \<and> (avgBuildProgress st2 = a1 \<longrightarrow>
                \<bar>rotation_y st2 - rotation_y S1\<bar> \<le> MAX_YAW * SHAKE_speed * dt f2))
     \<and> (phase S1 \<noteq> BUILD_SPIN \<longrightarrow> phase S1 = SHAKE \<and> 0.999 \<le> blend a1 \<and>
          \<bar>rotation_y st2 - rotation_y S1\<bar>
            \<le> MAX_YAW * SHAKE_speed * dt f2 + (1 - blend a1) * (MAX_YAW + \<bar>lerp (- pi) 0 a1\<bar>))"
  proof (cases "phase S1 = BUILD_SPIN")
    case True
    from tick_build[OF wf1 n1 True, of f2 rnd] obtain p2 where
      t2: "tick rnd f2 S1 = Some (build_post f2 S1 p2)" by blast
    define S2 where "S2 = build_post f2 S1 p2"
    define a2 where "a2 = avgBuildProgress S2"
    have y2: "rotation_y S2 = (1 - blend a2) * lerp (- pi) 0 a2 + MAX_YAW * sin (shakePhase S2) * blend a2"
      unfolding S2_def a2_def by (rule build_post_yaw)
    have sh: "shakePhase S2 = shakePhase S1 + SHAKE_speed * dt f2 * (if blend a2 > 0 then 1 else 0)"
      unfolding S2_def a2_def by (rule build_post_shake)
    have s2r: "0 \<le> blend a2" "blend a2 \<le> 1" using blend_range[of a2] by simp_all
    have d: "blend a2 * (MAX_YAW * \<bar>shakePhase S2 - shakePhase S1\<bar>)
             = blend a2 * (MAX_YAW * SHAKE_speed * dt f2)"
      using dt s2r unfolding sh by (cases "blend a2 > 0") simp_all
    have main: "\<bar>rotation_y S2 - rotation_y S1\<bar>
            \<le> blend a2 * (MAX_YAW * SHAKE_speed * dt f2) + MAX_YAW * \<bar>blend a2 - blend a1\<bar>
              + \<bar>(1 - blend a2) * lerp (- pi) 0 a2 - (1 - blend a1) * lerp (- pi) 0 a1\<bar>"
      unfolding y1 y2 d[symmetric] using s2r(1) M by (rule yaw_step)
    have same: "\<bar>rotation_y S2 - rotation_y S1\<bar> \<le> MAX_YAW * SHAKE_speed * dt f2" if "a2 = a1"
    proof -
      have "\<bar>rotation_y S2 - rotation_y S1\<bar> \<le> blend a2 * (MAX_YAW * SHAKE_speed * dt f2)"
        using main unfolding that by simp
      also have "\<dots> \<le> 1 * (MAX_YAW * SHAKE_speed * dt f2)"
        using s2r(2) M dt by (intro mult_right_mono) simp_all
      finally show ?thesis by simp
    qed
    show ?thesis
      unfolding t2 S2_def[symmetric] using True main same unfolding a2_def by blast
  next
    case False
    with cases1 have sk: "phase S1 = SHAKE" "0.999 \<le> blend a1" by simp_all
    have t2: "tick rnd f2 S1 = Some (tick_SHAKE f2 S1)" using sk(1) by (rule tick_shake)
    have y2: "rotation_y (tick_SHAKE f2 S1) = MAX_YAW * sin (shakePhase S1 + SHAKE_speed * dt f2)"
      using tick_SHAKE_yaw by blast
    have "\<bar>MAX_YAW * sin (shakePhase S1 + SHAKE_speed * dt f2)
            - ((1 - blend a1) * lerp (- pi) 0 a1 + MAX_YAW * sin (shakePhase S1) * blend a1)\<bar>
          \<le> MAX_YAW * \<bar>(shakePhase S1 + SHAKE_speed * dt f2) - shakePhase S1\<bar>
            + (1 - blend a1) * (MAX_YAW + \<bar>lerp (- pi) 0 a1\<bar>)"
      using s1r(2) M by (rule yaw_step_shake)
    then have "\<bar>rotation_y (tick_SHAKE f2 S1) - rotation_y S1\<bar>
            \<le> MAX_YAW * SHAKE_speed * dt f2 + (1 - blend a1) * (MAX_YAW + \<bar>lerp (- pi) 0 a1\<bar>)"
      unfolding y1 y2 using dt by simp
    then show ?thesis unfolding t2 using False sk by blast
  qed
  then obtain st2 where
    t2: "tick rnd f2 S1 = Some st2"
    and A: "phase S1 = BUILD_SPIN \<longrightarrow>
          \<bar>rotation_y st2 - rotation_y S1\<bar>
            \<le> blend (avgBuildProgress st2) * (MAX_YAW * SHAKE_speed * dt f2)
              + MAX_YAW * \<bar>blend (avgBuildProgress st2) - blend a1\<bar>
              + \<bar>(1 - blend (avgBuildProgress st2)) * lerp (- pi) 0 (avgBuildProgress st2)
                 - (1 - blend a1) * lerp (- pi) 0 a1\<bar>
          \<and> (avgBuildProgress st2 = a1 \<longrightarrow>
                \<bar>rotation_y st2 - rotation_y S1\<bar> \<le> MAX_YAW * SHAKE_speed * dt f2)"
    and B: "phase S1 \<noteq> BUILD_SPIN \<longrightarrow> phase S1 = SHAKE \<and> 0.999 \<le> blend a1 \<and>
          \<bar>rotation_y st2 - rotation_y S1\<bar>
            \<le> MAX_YAW * SHAKE_speed * dt f2 + (1 - blend a1) * (MAX_YAW + \<bar>lerp (- pi) 0 a1\<bar>)"
    by blast
  have y1': "rotation_y S1 = (1 - blend a1) * lerp (- pi) 0 a1 + blend a1 * (MAX_YAW * sin (shakePhase S1))"
    unfolding y1 by simp
  show ?thesis
  proof (intro exI conjI)
    show "tick rnd f1 st0 = Some S1" unfolding S1_def by (rule t1)
    show "tick rnd f2 S1 = Some st2" by (rule t2)
    show "smoothstep HANDOFF_startProg HANDOFF_endProg (avgBuildProgress S1) = Some (blend a1)"
      unfolding a1_def by (rule smoothstep_handoff)
    show "smoothstep HANDOFF_startProg HANDOFF_endProg (avgBuildProgress st2)
            = Some (blend (avgBuildProgress st2))"
      by (rule smoothstep_handoff)
    show "rotation_y S1 = (1 - blend (avgBuildProgress S1)) * lerp (- pi) 0 (avgBuildProgress S1)
                          + blend (avgBuildProgress S1) * (MAX_YAW * sin (shakePhase S1))"
      using y1' unfolding a1_def .
    show "phase S1 = BUILD_SPIN \<longrightarrow>
          \<bar>rotation_y st2 - rotation_y S1\<bar>
            \<le> blend (avgBuildProgress st2) * (MAX_YAW * SHAKE_speed * dt f2)
              + MAX_YAW * \<bar>blend (avgBuildProgress st2) - blend a1\<bar>
              + \<bar>(1 - blend (avgBuildProgress st2)) * lerp (- pi) 0 (avgBuildProgress st2)
                 - (1 - blend a1) * lerp (- pi) 0 (avgBuildProgress S1)\<bar>
          \<and> (avgBuildProgress st2 = avgBuildProgress S1 \<longrightarrow>
                \<bar>rotation_y st2 - rotation_y S1\<bar> \<le> MAX_YAW * SHAKE_speed * dt f2)"
      using A unfolding a1_def .
    show "phase S1 \<noteq> BUILD_SPIN \<longrightarrow> phase S1 = SHAKE \<and> 0.999 \<le> blend a1 \<and>
          \<bar>rotation_y st2 - rotation_y S1\<bar>
            \<le> MAX_YAW * SHAKE_speed * dt f2
              + (1 - blend a1) * (MAX_YAW + \<bar>lerp (- pi) 0 (avgBuildProgress S1)\<bar>)"
      using B unfolding a1_def .
    show "continuous_on UNIV (\<lambda>x. (1 - blend (fst x)) * lerp (- pi) 0 (fst x)
                                  + blend (fst x) * (MAX_YAW * sin (snd x)))"
      by (rule blended_yaw_continuous)
  qed
qed

theorem handoff_step_bound_witness:
  "wf_scene handoff_scene \<and> 0 < N handoff_scene \<and> phase handoff_scene = BUILD_SPIN
   \<and> 0 \<le> dt handoff_frame_2
   \<and> (\<exists>st1 st2 s1 s2. tick (\<lambda>k. 1 / 2) handoff_frame_1 handoff_scene = Some st1
        \<and> tick (\<lambda>k. 1 / 2) handoff_frame_2 st1 = Some st2
        \<and> smoothstep HANDOFF_startProg HANDOFF_endProg (avgBuildProgress st1) = Some s1
        \<and> smoothstep HANDOFF_startProg HANDOFF_endProg (avgBuildProgress st2) = Some s2
        \<and> (phase st1 = BUILD_SPIN \<longrightarrow>
          \<bar>rotation_y st2 - rotation_y st1\<bar>
            \<le> s2 * (MAX_YAW * SHAKE_speed * dt handoff_frame_2) + MAX_YAW * \<bar>s2 - s1\<bar>
              + \<bar>(1 - s2) * lerp (- pi) 0 (avgBuildProgress st2)
                 - (1 - s1) * lerp (- pi) 0 (avgBuildProgress st1)\<bar>))"
proof -
  have h: "wf_scene handoff_scene" "0 < N handoff_scene" "phase handoff_scene = BUILD_SPIN"
    "0 \<le> dt handoff_frame_2"
    using wf_handoff_scene by (simp_all add: handoff_frame_2_def)
  show ?thesis
    using h handoff_step_bound[OF h, of "\<lambda>k. 1 / 2" handoff_frame_1] by blast
qed

text \<open>
  C2, as stated, fails: the sweep term moves the yaw by more than the oscillation could.
  With one particle of duration 2 s, the frame at 0.8 s has \<open>s = 0\<close> and yaw \<open>-\<pi>/16\<close>; the next
  frame, 0.2 s later, has \<open>s > 0\<close> and a yaw more than \<open>0.1\<close> higher, above \<open>speed * dt = 0.1\<close>
  and above \<open>MAX_YAW * speed * dt\<close>.
\<close>

theorem handoff_step_counterexample:
  "tick steady_draws handoff_frame_1 handoff_scene \<noteq> None
   \<and> tick steady_draws handoff_frame_2 (the (tick steady_draws handoff_frame_1 handoff_scene)) \<noteq> None
   \<and> now handoff_frame_2 - now handoff_frame_1 = dt handoff_frame_2
   \<and> \<not> \<bar>rotation_y (the (tick steady_draws handoff_frame_2
                          (the (tick steady_draws handoff_frame_1 handoff_scene))))
          - rotation_y (the (tick steady_draws handoff_frame_1 handoff_scene))\<bar>
        \<le> SHAKE_speed * dt handoff_frame_2
   \<and> \<not> \<bar>rotation_y (the (tick steady_draws handoff_frame_2
                          (the (tick steady_draws handoff_frame_1 handoff_scene))))
          - rotation_y (the (tick steady_draws handoff_frame_1 handoff_scene))\<bar>
        \<le> MAX_YAW * SHAKE_speed * dt handoff_frame_2"
proof -
  from handoff_two_frames[of steady_draws] obtain S1 S2 where
    t1: "tick steady_draws handoff_frame_1 handoff_scene = Some S1"
    and t2: "tick steady_draws handoff_frame_2 S1 = Some S2"
    and y1: "rotation_y S1 = - pi / 16"
    and y2: "rotation_y S2 = (1 - 25921 / 55296) * (- pi / 32) + MAX_YAW * sin (1 / 10) * (25921 / 55296)"
    by blast
  have p3: "3 \<le> pi" by (rule pi_ge_three)
  have "(1 / 10 :: real) \<le> pi" using p3 by simp
  then have s: "0 \<le> sin (1 / 10 :: real)" by (intro sin_ge_zero) simp_all
  have M: "0 \<le> MAX_YAW" by (rule MAX_YAW_nonneg)
  have M1: "MAX_YAW \<le> 1" using pi_less_4 by (simp add: MAX_YAW_def degToRad_def)
  have "0 \<le> MAX_YAW * sin (1 / 10) * (25921 / 55296)" using M s by simp
  then have "rotation_y S2 - rotation_y S1 \<ge> pi * (81217 / 1769472)"
    unfolding y1 y2 by (simp add: algebra_simps)
  moreover have "pi * (81217 / 1769472) \<ge> 3 * (81217 / 1769472)"
    using p3 by (intro mult_right_mono) simp_all
  ultimately have big: "rotation_y S2 - rotation_y S1 > 1 / 10" by simp
  have d: "dt handoff_frame_2 = 1 / 5" "now handoff_frame_2 - now handoff_frame_1 = 1 / 5"
    by (simp_all add: handoff_frame_1_def handoff_frame_2_def)
  have b1: "\<not> \<bar>rotation_y S2 - rotation_y S1\<bar> \<le> SHAKE_speed * dt handoff_frame_2"
    using big unfolding d by simp
  have "MAX_YAW * SHAKE_speed * dt handoff_frame_2 \<le> 1 * SHAKE_speed * dt handoff_frame_2"
    using M1 unfolding d by simp
  then have b2: "\<not> \<bar>rotation_y S2 - rotation_y S1\<bar> \<le> MAX_YAW * SHAKE_speed * dt handoff_frame_2"
    using big unfolding d by simp
  have e: "now handoff_frame_2 - now handoff_frame_1 = dt handoff_frame_2"
    unfolding d by (rule refl)
  have ne: "Some S1 \<noteq> None" "Some S2 \<noteq> None" by simp_all
  show ?thesis unfolding t1 option.sel t2 by (intro conjI ne e b1 b2)
qed

text \<open>
  C3. On a BUILD\_SPIN frame every coordinate of every particle is the linear interpolation
  from its spawn coordinate to its target coordinate by
  \<open>easeOutExpo (clamp01 ((t - buildStart) / buildDuration))\<close>, \<open>t\<close> the time since the phase
  began. With every \<open>buildStart = 0\<close> and every \<open>buildDuration = 2.0\<close>, at \<open>t = 2.0\<close> the
  position buffer equals the target buffer.
\<close>

theorem assemble_interpolation:
  assumes "wf_scene st" "0 < N st" "phase st = BUILD_SPIN"
  shows "\<exists>st'. tick rnd f st = Some st'
     \<and> (\<forall>i<N st. \<forall>k<3. position st' ! (i * 3 + k) =
           lerp (startPositions st ! (i * 3 + k)) (endPositions st ! (i * 3 + k))
             (easeOutExpo (clamp01 ((now f - tPhaseStart st - startTimesBuild st ! i)
                                     / durationsBuild st ! i))))
     \<and> (list_all (\<lambda>b. b = 0) (startTimesBuild st) \<and> list_all (\<lambda>d. d = 2.0) (durationsBuild st)
          \<and> now f - tPhaseStart st = 2.0 \<longrightarrow> position st' = endPositions st)"
proof -
  from tick_build[OF assms] obtain p where
    b: "built st (now f) (N st) p" and t: "tick rnd f st = Some (build_post f st p)" by blast
  have pos: "position (build_post f st p) = p" by (simp add: build_post_def Let_def)
  have interp: "\<forall>i<N st. \<forall>k<3. p ! (i * 3 + k) =
           lerp (startPositions st ! (i * 3 + k)) (endPositions st ! (i * 3 + k))
             (easeOutExpo (clamp01 ((now f - tPhaseStart st - startTimesBuild st ! i)
                                     / durationsBuild st ! i)))"
    using b by (simp add: built_def eased_build_def)
  have scen: "p = endPositions st"
    if "list_all (\<lambda>b. b = 0) (startTimesBuild st)" "list_all (\<lambda>d. d = 2.0) (durationsBuild st)"
       "now f - tPhaseStart st = 2.0"
  proof (rule built_all_done[OF assms(1) b])
    fix i assume i: "i < N st"
    have "startTimesBuild st ! i = 0" "durationsBuild st ! i = 2"
      using that(1,2) i assms(1) by (simp_all add: list_all_length wf_scene_def)
    then show "durationsBuild st ! i \<le> now f - tPhaseStart st - startTimesBuild st ! i"
      using that(3) by simp
  qed
  have "position (build_post f st p) = endPositions st"
    if "list_all (\<lambda>b. b = 0) (startTimesBuild st) \<and> list_all (\<lambda>d. d = 2.0) (durationsBuild st)
          \<and> now f - tPhaseStart st = 2.0"
    using scen that unfolding pos by blast
  moreover have "\<forall>i<N st. \<forall>k<3. position (build_post f st p) ! (i * 3 + k) =
           lerp (startPositions st ! (i * 3 + k)) (endPositions st ! (i * 3 + k))
             (easeOutExpo (clamp01 ((now f - tPhaseStart st - startTimesBuild st ! i)
                                     / durationsBuild st ! i)))"
    using interp unfolding pos .
  ultimately show ?thesis using t by blast
qed

theorem assemble_interpolation_witness:
  "wf_scene scenario_A \<and> 0 < N scenario_A \<and> phase scenario_A = BUILD_SPIN \<and>
   list_all (\<lambda>b. b = 0) (startTimesBuild scenario_A) \<and>
   list_all (\<lambda>d. d = 2.0) (durationsBuild scenario_A) \<and>
   now frame_A - tPhaseStart scenario_A = 2.0 \<and>
   (\<exists>st'. tick (\<lambda>k. 1 / 2) frame_A scenario_A = Some st'
      \<and> position st' = [-1, 1, 0,  1, 1, 0,  1, -1, 0,  0, 0, 0])"
proof -
  have h: "wf_scene scenario_A" "0 < N scenario_A" "phase scenario_A = BUILD_SPIN"
    by (simp_all add: wf_scene_def scenario_A_def)
  have g: "list_all (\<lambda>b. b = 0) (startTimesBuild scenario_A)"
    "list_all (\<lambda>d. d = 2.0) (durationsBuild scenario_A)"
    "now frame_A - tPhaseStart scenario_A = 2.0"
    by (simp_all add: scenario_A_def frame_A_def)
  have e: "endPositions scenario_A = [-1, 1, 0,  1, 1, 0,  1, -1, 0,  0, 0, 0]"
    by (simp add: scenario_A_def)
  show ?thesis
    using h g assemble_interpolation[OF h, of "\<lambda>k. 1 / 2" frame_A] unfolding e by blast
qed

text \<open>
  C4. On a BUILD\_SPIN frame \<open>avgBuildProgress\<close> is the mean of the particles' eased
  progress, the blend factor is \<open>smoothstep(0.94, 1.00, avgBuildProgress)\<close>, and the overlay's
  opacity has taken the frame's fade step. The frame ends in SHAKE, with the phase clock
  restarted at \<open>now\<close>, exactly when the blend factor is at least \<open>0.999\<close> and that opacity is at
  least \<open>0.999\<close>; otherwise the phase is still BUILD\_SPIN and its clock is untouched.
\<close>

theorem assemble_to_idle_guard:
  assumes "wf_scene st" "0 < N st" "phase st = BUILD_SPIN"
  shows "\<exists>st' s. tick rnd f st = Some st'
     \<and> avgBuildProgress st' =
         (\<Sum>i<N st. easeOutExpo (clamp01 ((now f - tPhaseStart st - startTimesBuild st ! i)
                                            / durationsBuild st ! i))) / real (N st)
     \<and> smoothstep HANDOFF_startProg HANDOFF_endProg (avgBuildProgress st') = Some s
     \<and> s = blend (avgBuildProgress st')
     \<and> plane_opacity st' =
         (if avgBuildProgress st' > BUILD_planeFadeAt then min 1 (plane_opacity st + 0.03)
          else plane_opacity st)
     \<and> (phase st' = SHAKE \<longleftrightarrow> s \<ge> 0.999 \<and> plane_opacity st' \<ge> 0.999)
     \<and> (phase st' \<noteq> SHAKE \<longrightarrow> phase st' = BUILD_SPIN)
     \<and> (phase st' = SHAKE \<longrightarrow> tPhaseStart st' = now f)
     \<and> (phase st' = BUILD_SPIN \<longrightarrow> tPhaseStart st' = tPhaseStart st)"
proof -
  from tick_build[OF assms] obtain p where
    t: "tick rnd f st = Some (build_post f st p)" by blast
  note g = build_post_guard[OF assms(3), of f p]
  show ?thesis
  proof (intro exI conjI)
    show "tick rnd f st = Some (build_post f st p)" by (rule t)
    show "avgBuildProgress (build_post f st p) =
         (\<Sum>i<N st. easeOutExpo (clamp01 ((now f - tPhaseStart st - startTimesBuild st ! i)
                                            / durationsBuild st ! i))) / real (N st)"
      unfolding build_post_avg by (rule avg_build_sum)
    show "smoothstep HANDOFF_startProg HANDOFF_endProg (avgBuildProgress (build_post f st p))
          = Some (blend (avgBuildProgress (build_post f st p)))"
      by (rule smoothstep_handoff)
    show "blend (avgBuildProgress (build_post f st p)) = blend (avgBuildProgress (build_post f st p))"
      by (rule refl)
    show "plane_opacity (build_post f st p) =
         (if avgBuildProgress (build_post f st p) > BUILD_planeFadeAt
          then min 1 (plane_opacity st + 0.03) else plane_opacity st)"
      by (rule build_post_opacity)
    show "phase (build_post f st p) = SHAKE \<longleftrightarrow>
            blend (avgBuildProgress (build_post f st p)) \<ge> 0.999
            \<and> plane_opacity (build_post f st p) \<ge> 0.999"
      using g by blast
    show "phase (build_post f st p) \<noteq> SHAKE \<longrightarrow> phase (build_post f st p) = BUILD_SPIN"
      using g by blast
    show "phase (build_post f st p) = SHAKE \<longrightarrow> tPhaseStart (build_post f st p) = now f"
      using g by blast
    show "phase (build_post f st p) = BUILD_SPIN \<longrightarrow> tPhaseStart (build_post f st p) = tPhaseStart st"
      using g by blast
  qed
qed

theorem assemble_to_idle_guard_witness:
  "wf_scene scenario_A_faded \<and> 0 < N scenario_A_faded \<and> phase scenario_A_faded = BUILD_SPIN
   \<and> wf_scene scenario_A \<and> 0 < N scenario_A \<and> phase scenario_A = BUILD_SPIN
   \<and> (\<exists>st'. tick steady_draws frame_A scenario_A_faded = Some st'
         \<and> avgBuildProgress st' = 1 \<and> plane_opacity st' = 1
         \<and> phase st' = SHAKE \<and> tPhaseStart st' = 2)
   \<and> (\<exists>st'. tick steady_draws frame_A scenario_A = Some st'
         \<and> avgBuildProgress st' = 1 \<and> plane_opacity st' = 0.03
         \<and> phase st' = BUILD_SPIN \<and> tPhaseStart st' = 0)
   \<and> (\<exists>st'. tick steady_draws frame_A_mid scenario_A_faded = Some st'
         \<and> avgBuildProgress st' = 31 / 32 \<and> plane_opacity st' = 1
         \<and> phase st' = BUILD_SPIN \<and> tPhaseStart st' = 0)"
proof -
  have hf: "wf_scene scenario_A_faded" "0 < N scenario_A_faded" "phase scenario_A_faded = BUILD_SPIN"
    by (simp_all add: wf_scene_def scenario_A_faded_def scenario_A_def)
  have h: "wf_scene scenario_A" "0 < N scenario_A" "phase scenario_A = BUILD_SPIN"
    by (simp_all add: wf_scene_def scenario_A_def)
  have o: "plane_opacity scenario_A_faded = 0.98" "plane_opacity scenario_A = 0"
    "tPhaseStart scenario_A_faded = 0" "tPhaseStart scenario_A = 0"
    by (simp_all add: scenario_A_faded_def scenario_A_def)
  have n: "now frame_A = 2" "now frame_A_mid = 1" by (simp_all add: frame_A_def frame_A_mid_def)
  have c1: "\<exists>st'. tick steady_draws frame_A scenario_A_faded = Some st'
         \<and> avgBuildProgress st' = 1 \<and> plane_opacity st' = 1
         \<and> phase st' = SHAKE \<and> tPhaseStart st' = 2"
  proof -
    from assemble_to_idle_guard[OF hf, of steady_draws frame_A, unfolded n mean_scenario_A_faded]
    show ?thesis
    proof (elim exE conjE)
      fix st' s
      assume t: "tick steady_draws frame_A scenario_A_faded = Some st'"
        and a: "avgBuildProgress st' = easeOutExpo (clamp01 (2 / 2))"
        and sm: "smoothstep HANDOFF_startProg HANDOFF_endProg (avgBuildProgress st') = Some s"
        and s: "s = blend (avgBuildProgress st')"
        and op: "plane_opacity st' =
           (if avgBuildProgress st' > BUILD_planeFadeAt then min 1 (plane_opacity scenario_A_faded + 0.03)
            else plane_opacity scenario_A_faded)"
        and g: "phase st' = SHAKE \<longleftrightarrow> s \<ge> 0.999 \<and> plane_opacity st' \<ge> 0.999"
        and ng: "phase st' \<noteq> SHAKE \<longrightarrow> phase st' = BUILD_SPIN"
        and tps: "phase st' = SHAKE \<longrightarrow> tPhaseStart st' = 2"
        and tpb: "phase st' = BUILD_SPIN \<longrightarrow> tPhaseStart st' = tPhaseStart scenario_A_faded"
      have a1: "avgBuildProgress st' = 1" unfolding a by (rule eased_values(1))
      have s1: "s = 1" unfolding s a1 by (rule blend_one)
      have op1: "plane_opacity st' = 1" using op unfolding a1 o by simp
      have ph: "phase st' = SHAKE" using g unfolding s1 op1 by simp
      have "tPhaseStart st' = 2" using tps ph by blast
      then show ?thesis using t a1 op1 ph by blast
    qed
  qed
  have c2: "\<exists>st'. tick steady_draws frame_A scenario_A = Some st'
         \<and> avgBuildProgress st' = 1 \<and> plane_opacity st' = 0.03
         \<and> phase st' = BUILD_SPIN \<and> tPhaseStart st' = 0"
  proof -
    from assemble_to_idle_guard[OF h, of steady_draws frame_A, unfolded n mean_scenario_A]
    show ?thesis
    proof (elim exE conjE)
      fix st' s
      assume t: "tick steady_draws frame_A scenario_A = Some st'"
        and a: "avgBuildProgress st' = easeOutExpo (clamp01 (2 / 2))"
        and sm: "smoothstep HANDOFF_startProg HANDOFF_endProg (avgBuildProgress st') = Some s"
        and s: "s = blend (avgBuildProgress st')"
        and op: "plane_opacity st' =
           (if avgBuildProgress st' > BUILD_planeFadeAt then min 1 (plane_opacity scenario_A + 0.03)
            else plane_opacity scenario_A)"
        and g: "phase st' = SHAKE \<longleftrightarrow> s \<ge> 0.999 \<and> plane_opacity st' \<ge> 0.999"
        and ng: "phase st' \<noteq> SHAKE \<longrightarrow> phase st' = BUILD_SPIN"
        and tps: "phase st' = SHAKE \<longrightarrow> tPhaseStart st' = 2"
        and tpb: "phase st' = BUILD_SPIN \<longrightarrow> tPhaseStart st' = tPhaseStart scenario_A"
      have a1: "avgBuildProgress st' = 1" unfolding a by (rule eased_values(1))
      have op1: "plane_opacity st' = 0.03" using op unfolding a1 o by simp
      have "phase st' \<noteq> SHAKE" using g unfolding op1 by simp
      then have ph: "phase st' = BUILD_SPIN" using ng by blast
      have "tPhaseStart st' = 0" using tpb ph o by simp
      then show ?thesis using t a1 op1 ph by blast
    qed
  qed
  have c3: "\<exists>st'. tick steady_draws frame_A_mid scenario_A_faded = Some st'
         \<and> avgBuildProgress st' = 31 / 32 \<and> plane_opacity st' = 1
         \<and> phase st' = BUILD_SPIN \<and> tPhaseStart st' = 0"
  proof -
    from assemble_to_idle_guard[OF hf, of steady_draws frame_A_mid, unfolded n mean_scenario_A_faded]
    show ?thesis
    proof (elim exE conjE)
      fix st' s
      assume t: "tick steady_draws frame_A_mid scenario_A_faded = Some st'"
        and a: "avgBuildProgress st' = easeOutExpo (clamp01 (1 / 2))"
        and sm: "smoothstep HANDOFF_startProg HANDOFF_endProg (avgBuildProgress st') = Some s"
        and s: "s = blend (avgBuildProgress st')"
        and op: "plane_opacity st' =
           (if avgBuildProgress st' > BUILD_planeFadeAt then min 1 (plane_opacity scenario_A_faded + 0.03)
            else plane_opacity scenario_A_faded)"
        and g: "phase st' = SHAKE \<longleftrightarrow> s \<ge> 0.999 \<and> plane_opacity st' \<ge> 0.999"
        and ng: "phase st' \<noteq> SHAKE \<longrightarrow> phase st' = BUILD_SPIN"
        and tps: "phase st' = SHAKE \<longrightarrow> tPhaseStart st' = 1"
        and tpb: "phase st' = BUILD_SPIN \<longrightarrow> tPhaseStart st' = tPhaseStart scenario_A_faded"
      have a1: "avgBuildProgress st' = 31 / 32" unfolding a by (rule eased_values(2))
      have s1: "s = 25921 / 55296" unfolding s a1 by (rule blend_mid)
      have op1: "plane_opacity st' = 1" using op unfolding a1 o by simp
      have "phase st' \<noteq> SHAKE" using g unfolding s1 by simp
      then have ph: "phase st' = BUILD_SPIN" using ng by blast
      have "tPhaseStart st' = 0" using tpb ph o by simp
      then show ?thesis using t a1 op1 ph by blast
    qed
  qed
  show ?thesis by (intro conjI hf h c1 c2 c3)
qed

text \<open>
  C5. On an EXIT frame the progress of particle \<open>i\<close> is
  \<open>clamp01 ((now - tPhaseStart - exitStart) / exitDuration)\<close>, its position is the linear
  interpolation from its target to its exit target by \<open>easeInCubic\<close> of that, and the frame ends
  in WAIT, with the phase clock restarted, exactly when the progress of every particle is at
  least \<open>1\<close>; otherwise the phase is still EXIT. With every \<open>exitStart = 0\<close> and every
  \<open>exitDuration = 1.0\<close>, at \<open>t = 1.0\<close> the count \<open>done\<close> is \<open>N\<close> and the transition fires.
\<close>

theorem disperse_interpolation:
  assumes "wf_scene st" "phase st = EXIT"
  shows "\<exists>st'. tick rnd f st = Some st'
     \<and> (\<forall>i<N st.
           progress (now f) (tPhaseStart st) (startTimesExit st ! i) (durationsExit st ! i)
             = Some (clamp01 ((now f - tPhaseStart st - startTimesExit st ! i) / durationsExit st ! i))
           \<and> (\<forall>k<3. position st' ! (i * 3 + k) =
                 lerp (endPositions st ! (i * 3 + k)) (exitPositions st ! (i * 3 + k))
                   (easeInCubic (clamp01 ((now f - tPhaseStart st - startTimesExit st ! i)
                                            / durationsExit st ! i)))))
     \<and> (phase st' = WAIT \<longleftrightarrow>
          (\<forall>i<N st. clamp01 ((now f - tPhaseStart st - startTimesExit st ! i) / durationsExit st ! i) \<ge> 1))
     \<and> (phase st' \<noteq> WAIT \<longrightarrow> phase st' = EXIT)
     \<and> (phase st' = WAIT \<longrightarrow> tPhaseStart st' = now f)
     \<and> (phase st' = EXIT \<longrightarrow> tPhaseStart st' = tPhaseStart st)
     \<and> (list_all (\<lambda>b. b = 0) (startTimesExit st) \<and> list_all (\<lambda>d. d = 1.0) (durationsExit st)
          \<and> now f - tPhaseStart st = 1.0
          \<longrightarrow> done_count st (now f) (N st) = N st \<and> phase st' = WAIT \<and> tPhaseStart st' = now f)"
proof -
  from tick_exit[OF assms] obtain p where
    b: "dispersed st (now f) (N st) p" and t: "tick rnd f st = Some (exit_post f st p)" by blast
  note fld = exit_post_fields[OF assms(2), of f p]
  have pr: "progress (now f) (tPhaseStart st) (startTimesExit st ! i) (durationsExit st ! i)
            = Some (clamp01 ((now f - tPhaseStart st - startTimesExit st ! i) / durationsExit st ! i))"
    if "i < N st" for i
    using wf_dur_exit[OF assms(1) that] by (rule progress_Some)
  have at: "p ! (i * 3 + k) =
                 lerp (endPositions st ! (i * 3 + k)) (exitPositions st ! (i * 3 + k))
                   (easeInCubic (clamp01 ((now f - tPhaseStart st - startTimesExit st ! i)
                                            / durationsExit st ! i)))"
    if "i < N st" "k < 3" for i k
    using b that by (simp add: dispersed_def exit_progress_def)
  have all: "done_count st (now f) (N st) \<ge> N st \<longleftrightarrow>
      (\<forall>i<N st. clamp01 ((now f - tPhaseStart st - startTimesExit st ! i) / durationsExit st ! i) \<ge> 1)"
    using done_count_all[of "N st" st "now f"] by (simp add: exit_progress_def)
  have scen: "done_count st (now f) (N st) = N st \<and> phase (exit_post f st p) = WAIT
            \<and> tPhaseStart (exit_post f st p) = now f"
    if h: "list_all (\<lambda>b. b = 0) (startTimesExit st) \<and> list_all (\<lambda>d. d = 1.0) (durationsExit st)
          \<and> now f - tPhaseStart st = 1.0"
  proof -
    have "1 \<le> clamp01 ((now f - tPhaseStart st - startTimesExit st ! i) / durationsExit st ! i)"
      if "i < N st" for i
    proof -
      have "startTimesExit st ! i = 0" "durationsExit st ! i = 1"
        using h that assms(1) by (simp_all add: list_all_length wf_scene_def)
      then show ?thesis using h by (simp add: clamp01_def)
    qed
    then have ge: "done_count st (now f) (N st) \<ge> N st" using all by blast
    moreover have "done_count st (now f) (N st) \<le> N st"
      using length_filter_le [of "\<lambda>i. 1 \<le> exit_progress st (now f) i" "[0..<N st]"]
      by (simp add: done_count_def)
    ultimately show ?thesis using fld(2,3) by simp
  qed
  show ?thesis
  proof (intro exI conjI)
    show "tick rnd f st = Some (exit_post f st p)" by (rule t)
    show "\<forall>i<N st.
           progress (now f) (tPhaseStart st) (startTimesExit st ! i) (durationsExit st ! i)
             = Some (clamp01 ((now f - tPhaseStart st - startTimesExit st ! i) / durationsExit st ! i))
           \<and> (\<forall>k<3. position (exit_post f st p) ! (i * 3 + k) =
                 lerp (endPositions st ! (i * 3 + k)) (exitPositions st ! (i * 3 + k))
                   (easeInCubic (clamp01 ((now f - tPhaseStart st - startTimesExit st ! i)
                                            / durationsExit st ! i))))"
      unfolding fld(1) using pr at by blast
    show "phase (exit_post f st p) = WAIT \<longleftrightarrow>
          (\<forall>i<N st. clamp01 ((now f - tPhaseStart st - startTimesExit st ! i) / durationsExit st ! i) \<ge> 1)"
      unfolding fld(2) all[symmetric] by simp
    show "phase (exit_post f st p) \<noteq> WAIT \<longrightarrow> phase (exit_post f st p) = EXIT"
      unfolding fld(2) by simp
    show "phase (exit_post f st p) = WAIT \<longrightarrow> tPhaseStart (exit_post f st p) = now f"
      by (rule fld(3))
    show "phase (exit_post f st p) = EXIT \<longrightarrow> tPhaseStart (exit_post f st p) = tPhaseStart st"
      by (rule fld(4))
    show "list_all (\<lambda>b. b = 0) (startTimesExit st) \<and> list_all (\<lambda>d. d = 1.0) (durationsExit st)
          \<and> now f - tPhaseStart st = 1.0
          \<longrightarrow> done_count st (now f) (N st) = N st \<and> phase (exit_post f st p) = WAIT
              \<and> tPhaseStart (exit_post f st p) = now f"
      using scen by blast
  qed
qed

theorem disperse_interpolation_witness:
  "wf_scene scenario_B \<and> phase scenario_B = EXIT
   \<and> list_all (\<lambda>b. b = 0) (startTimesExit scenario_B)
   \<and> list_all (\<lambda>d. d = 1.0) (durationsExit scenario_B)
   \<and> now frame_B - tPhaseStart scenario_B = 1.0
   \<and> (\<exists>st'. tick steady_draws frame_B scenario_B = Some st'
        \<and> done_count scenario_B (now frame_B) (N scenario_B) = N scenario_B
        \<and> position st' ! 0 = - 7
        \<and> phase st' = WAIT \<and> tPhaseStart st' = 11)
   \<and> (\<exists>st'. tick steady_draws frame_B_mid scenario_B = Some st'
        \<and> position st' ! 0 = - 7 / 4
        \<and> phase st' = EXIT \<and> tPhaseStart st' = 10)"
proof -
  have h: "wf_scene scenario_B" "phase scenario_B = EXIT"
    by (simp_all add: wf_scene_def scenario_B_def scenario_A_def)
  have g: "list_all (\<lambda>b. b = 0) (startTimesExit scenario_B)"
    "list_all (\<lambda>d. d = 1.0) (durationsExit scenario_B)"
    "now frame_B - tPhaseStart scenario_B = 1.0"
    by (simp_all add: scenario_B_def scenario_A_def frame_B_def)
  have n: "now frame_B = 11" "now frame_B_mid = 10.5" by (simp_all add: frame_B_def frame_B_mid_def)
  have n0: "0 < N scenario_B" by (simp add: scenario_B_def scenario_A_def)
  have v: "tPhaseStart scenario_B = 10" "startTimesExit scenario_B ! 0 = 0"
    "durationsExit scenario_B ! 0 = 1" "endPositions scenario_B ! (0 * 3 + 0) = - 1"
    "exitPositions scenario_B ! (0 * 3 + 0) = - 7"
    by (simp_all add: scenario_B_def scenario_A_def)
  have c1: "\<exists>st'. tick steady_draws frame_B scenario_B = Some st'
        \<and> done_count scenario_B (now frame_B) (N scenario_B) = N scenario_B
        \<and> position st' ! 0 = - 7
        \<and> phase st' = WAIT \<and> tPhaseStart st' = 11"
  proof -
    from disperse_interpolation[OF h, of steady_draws frame_B]
    show ?thesis
    proof (elim exE conjE)
      fix st'
      assume t: "tick steady_draws frame_B scenario_B = Some st'"
        and pa: "\<forall>i<N scenario_B.
           progress (now frame_B) (tPhaseStart scenario_B) (startTimesExit scenario_B ! i)
               (durationsExit scenario_B ! i)
             = Some (clamp01 ((now frame_B - tPhaseStart scenario_B - startTimesExit scenario_B ! i)
                              / durationsExit scenario_B ! i))
           \<and> (\<forall>k<3. position st' ! (i * 3 + k) =
                 lerp (endPositions scenario_B ! (i * 3 + k)) (exitPositions scenario_B ! (i * 3 + k))
                   (easeInCubic (clamp01 ((now frame_B - tPhaseStart scenario_B - startTimesExit scenario_B ! i)
                                            / durationsExit scenario_B ! i))))"
        and sc: "list_all (\<lambda>b. b = 0) (startTimesExit scenario_B)
          \<and> list_all (\<lambda>d. d = 1.0) (durationsExit scenario_B)
          \<and> now frame_B - tPhaseStart scenario_B = 1.0
          \<longrightarrow> done_count scenario_B (now frame_B) (N scenario_B) = N scenario_B
              \<and> phase st' = WAIT \<and> tPhaseStart st' = now frame_B"
      have k: "(0::nat) < 3" by simp
      have "position st' ! (0 * 3 + 0) =
                 lerp (endPositions scenario_B ! (0 * 3 + 0)) (exitPositions scenario_B ! (0 * 3 + 0))
                   (easeInCubic (clamp01 ((now frame_B - tPhaseStart scenario_B - startTimesExit scenario_B ! 0)
                                            / durationsExit scenario_B ! 0)))"
        using pa[rule_format, OF n0, THEN conjunct2, rule_format, OF k] .
      then have p0: "position st' ! 0 = - 7"
        unfolding v n by (simp add: clamp01_def easeInCubic_def lerp_def)
      have "done_count scenario_B (now frame_B) (N scenario_B) = N scenario_B
              \<and> phase st' = WAIT \<and> tPhaseStart st' = now frame_B"
        using sc g by blast
      then show ?thesis using t p0 unfolding n(1) by blast
    qed
  qed
  have c2: "\<exists>st'. tick steady_draws frame_B_mid scenario_B = Some st'
        \<and> position st' ! 0 = - 7 / 4
        \<and> phase st' = EXIT \<and> tPhaseStart st' = 10"
  proof -
    from disperse_interpolation[OF h, of steady_draws frame_B_mid]
    show ?thesis
    proof (elim exE conjE)
      fix st'
      assume t: "tick steady_draws frame_B_mid scenario_B = Some st'"
        and pa: "\<forall>i<N scenario_B.
           progress (now frame_B_mid) (tPhaseStart scenario_B) (startTimesExit scenario_B ! i)
               (durationsExit scenario_B ! i)
             = Some (clamp01 ((now frame_B_mid - tPhaseStart scenario_B - startTimesExit scenario_B ! i)
                              / durationsExit scenario_B ! i))
           \<and> (\<forall>k<3. position st' ! (i * 3 + k) =
                 lerp (endPositions scenario_B ! (i * 3 + k)) (exitPositions scenario_B ! (i * 3 + k))
                   (easeInCubic (clamp01 ((now frame_B_mid - tPhaseStart scenario_B - startTimesExit scenario_B ! i)
                                            / durationsExit scenario_B ! i))))"
        and gd: "phase st' = WAIT \<longleftrightarrow>
          (\<forall>i<N scenario_B. clamp01 ((now frame_B_mid - tPhaseStart scenario_B - startTimesExit scenario_B ! i)
                                       / durationsExit scenario_B ! i) \<ge> 1)"
        and ng: "phase st' \<noteq> WAIT \<longrightarrow> phase st' = EXIT"
        and tpe: "phase st' = EXIT \<longrightarrow> tPhaseStart st' = tPhaseStart scenario_B"
      have k: "(0::nat) < 3" by simp
      have "position st' ! (0 * 3 + 0) =
                 lerp (endPositions scenario_B ! (0 * 3 + 0)) (exitPositions scenario_B ! (0 * 3 + 0))
                   (easeInCubic (clamp01 ((now frame_B_mid - tPhaseStart scenario_B - startTimesExit scenario_B ! 0)
                                            / durationsExit scenario_B ! 0)))"
        using pa[rule_format, OF n0, THEN conjunct2, rule_format, OF k] .
      then have p0: "position st' ! 0 = - 7 / 4"
        unfolding v n by (simp add: clamp01_def easeInCubic_def lerp_def)
      have "\<not> clamp01 ((now frame_B_mid - tPhaseStart scenario_B - startTimesExit scenario_B ! 0)
                                       / durationsExit scenario_B ! 0) \<ge> 1"
        unfolding v n by (simp add: clamp01_def)
      then have "\<not> (\<forall>i<N scenario_B. clamp01 ((now frame_B_mid - tPhaseStart scenario_B - startTimesExit scenario_B ! i)
                                       / durationsExit scenario_B ! i) \<ge> 1)"
        using n0 by blast
      then have "phase st' \<noteq> WAIT" using gd by blast
      then have ph: "phase st' = EXIT" using ng by blast
      then have "tPhaseStart st' = 10" using tpe v(1) by simp
      then show ?thesis using t p0 ph by blast
    qed
  qed
  show ?thesis by (intro conjI h g c1 c2)
qed

text \<open>
  C6. A WAIT frame before the rebuild delay of one second changes nothing. A WAIT frame whose
  elapsed time has reached it is one call of \<open>prepareBuildCycle\<close>: the phase is BUILD\_SPIN
  again and exactly the \<open>9 * N\<close> random draws of one call have been consumed. With draws in
  \<open>[0, 1)\<close> and an image of non-negative size, every spawn point lies on one of the four edges
  of the rectangle inflated by the padding, hence outside the image's own rectangle; the edge
  is \<open>\<lfloor>u * 4\<rfloor>\<close> for the particle's first draw \<open>u\<close>, so each edge is chosen by one quarter of
  the unit interval.
\<close>

theorem pause_rebuild:
  assumes ph: "phase st = WAIT" and len: "length (endPositions st) = N st * 3"
    and rnd: "\<forall>k. 0 \<le> rnd k \<and> rnd k < 1"
    and bw: "0 \<le> bounds_w st * scale st" and bh: "0 \<le> bounds_h st * scale st"
  shows "(now f - tPhaseStart st < LOOP_rebuildDelay \<longrightarrow> tick rnd f st = Some st)
   \<and> (LOOP_rebuildDelay \<le> now f - tPhaseStart st \<longrightarrow>
       (\<exists>st'. tick rnd f st = Some st'
     \<and> tick rnd f st = prepareBuildCycle rnd (prepare_now f) st
     \<and> phase st' = BUILD_SPIN \<and> tPhaseStart st' = prepare_now f
     \<and> draws st' = draws st + 9 * N st \<and> N st' = N st \<and> position st' = startPositions st'
     \<and> (\<forall>i<N st.
          (let halfW = (bounds_w st * scale st) / 2 + LOGO_DIAMETER * 0.75;
               halfH = (bounds_h st * scale st) / 2 + LOGO_DIAMETER * 0.75;
               u = rnd (draws st + 5 * i);
               edge = \<lfloor>u * 4\<rfloor>;
               x = startPositions st' ! (i * 3);
               y = startPositions st' ! (i * 3 + 1)
           in (edge = 0 \<or> edge = 1 \<or> edge = 2 \<or> edge = 3)
            \<and> (edge = 0 \<longleftrightarrow> 0 \<le> u \<and> u < 1 / 4) \<and> (edge = 1 \<longleftrightarrow> 1 / 4 \<le> u \<and> u < 2 / 4)
            \<and> (edge = 2 \<longleftrightarrow> 2 / 4 \<le> u \<and> u < 3 / 4) \<and> (edge = 3 \<longleftrightarrow> 3 / 4 \<le> u \<and> u < 1)
            \<and> (edge = 0 \<longrightarrow> x = - halfW \<and> - halfH \<le> y \<and> y \<le> halfH)
            \<and> (edge = 1 \<longrightarrow> x = halfW \<and> - halfH \<le> y \<and> y \<le> halfH)
            \<and> (edge = 2 \<longrightarrow> y = halfH \<and> - halfW \<le> x \<and> x \<le> halfW)
            \<and> (edge = 3 \<longrightarrow> y = - halfH \<and> - halfW \<le> x \<and> x \<le> halfW)
            \<and> (\<bar>x\<bar> > (bounds_w st * scale st) / 2 \<or> \<bar>y\<bar> > (bounds_h st * scale st) / 2)))))"
proof (intro conjI impI)
  assume "now f - tPhaseStart st < LOOP_rebuildDelay"
  then show "tick rnd f st = Some st" using ph by (simp add: tick_def)
next
  assume el: "LOOP_rebuildDelay \<le> now f - tPhaseStart st"
  show "\<exists>st'. tick rnd f st = Some st'
     \<and> tick rnd f st = prepareBuildCycle rnd (prepare_now f) st
     \<and> phase st' = BUILD_SPIN \<and> tPhaseStart st' = prepare_now f
     \<and> draws st' = draws st + 9 * N st \<and> N st' = N st \<and> position st' = startPositions st'
     \<and> (\<forall>i<N st.
          (let halfW = (bounds_w st * scale st) / 2 + LOGO_DIAMETER * 0.75;
               halfH = (bounds_h st * scale st) / 2 + LOGO_DIAMETER * 0.75;
               u = rnd (draws st + 5 * i);
               edge = \<lfloor>u * 4\<rfloor>;
               x = startPositions st' ! (i * 3);
               y = startPositions st' ! (i * 3 + 1)
           in (edge = 0 \<or> edge = 1 \<or> edge = 2 \<or> edge = 3)
            \<and> (edge = 0 \<longleftrightarrow> 0 \<le> u \<and> u < 1 / 4) \<and> (edge = 1 \<longleftrightarrow> 1 / 4 \<le> u \<and> u < 2 / 4)
            \<and> (edge = 2 \<longleftrightarrow> 2 / 4 \<le> u \<and> u < 3 / 4) \<and> (edge = 3 \<longleftrightarrow> 3 / 4 \<le> u \<and> u < 1)
            \<and> (edge = 0 \<longrightarrow> x = - halfW \<and> - halfH \<le> y \<and> y \<le> halfH)
            \<and> (edge = 1 \<longrightarrow> x = halfW \<and> - halfH \<le> y \<and> y \<le> halfH)
            \<and> (edge = 2 \<longrightarrow> y = halfH \<and> - halfW \<le> x \<and> x \<le> halfW)
            \<and> (edge = 3 \<longrightarrow> y = - halfH \<and> - halfW \<le> x \<and> x \<le> halfW)
            \<and> (\<bar>x\<bar> > (bounds_w st * scale st) / 2 \<or> \<bar>y\<bar> > (bounds_h st * scale st) / 2)))"
    using ph len el rnd bw bh by (rule wait_frame_rebuilds)
qed

theorem pause_rebuild_witness:
  "phase scenario_C = WAIT \<and> length (endPositions scenario_C) = N scenario_C * 3
   \<and> LOOP_rebuildDelay \<le> now frame_C - tPhaseStart scenario_C
   \<and> (\<forall>k. 0 \<le> (1 / 2 :: real) \<and> (1 / 2 :: real) < 1)
   \<and> 0 \<le> bounds_w scenario_C * scale scenario_C \<and> 0 \<le> bounds_h scenario_C * scale scenario_C
   \<and> (\<exists>st'. tick (\<lambda>k. 1 / 2) frame_C scenario_C = Some st'
         \<and> phase st' = BUILD_SPIN \<and> draws st' = 72 \<and> N st' = 4
         \<and> startPositions st' ! 1 = 6.93)"
proof -
  have el: "LOOP_rebuildDelay \<le> now frame_C - tPhaseStart scenario_C"
    by (simp add: scenario_C_def scenario_A_def frame_C_def)
  have h: "phase scenario_C = WAIT" "length (endPositions scenario_C) = N scenario_C * 3"
    "\<forall>k::nat. 0 \<le> (\<lambda>k. 1 / 2 :: real) k \<and> (\<lambda>k. 1 / 2 :: real) k < 1"
    "0 \<le> bounds_w scenario_C * scale scenario_C" "0 \<le> bounds_h scenario_C * scale scenario_C"
    by (simp_all add: scenario_C_def scenario_A_def frame_C_def)
  from pause_rebuild[OF h, of frame_C, THEN conjunct2, rule_format, OF el] obtain st' where
    t: "tick (\<lambda>k. 1 / 2) frame_C scenario_C = Some st'"
    and b: "phase st' = BUILD_SPIN" "draws st' = draws scenario_C + 9 * N scenario_C"
      "N st' = N scenario_C"
    and e: "\<forall>i<N scenario_C.
          (let halfW = (bounds_w scenario_C * scale scenario_C) / 2 + LOGO_DIAMETER * 0.75;
               halfH = (bounds_h scenario_C * scale scenario_C) / 2 + LOGO_DIAMETER * 0.75;
               u = (\<lambda>k. 1 / 2 :: real) (draws scenario_C + 5 * i);
               edge = \<lfloor>u * 4\<rfloor>;
               x = startPositions st' ! (i * 3);
               y = startPositions st' ! (i * 3 + 1)
           in (edge = 0 \<or> edge = 1 \<or> edge = 2 \<or> edge = 3)
            \<and> (edge = 0 \<longleftrightarrow> 0 \<le> u \<and> u < 1 / 4) \<and> (edge = 1 \<longleftrightarrow> 1 / 4 \<le> u \<and> u < 2 / 4)
            \<and> (edge = 2 \<longleftrightarrow> 2 / 4 \<le> u \<and> u < 3 / 4) \<and> (edge = 3 \<longleftrightarrow> 3 / 4 \<le> u \<and> u < 1)
            \<and> (edge = 0 \<longrightarrow> x = - halfW \<and> - halfH \<le> y \<and> y \<le> halfH)
            \<and> (edge = 1 \<longrightarrow> x = halfW \<and> - halfH \<le> y \<and> y \<le> halfH)
            \<and> (edge = 2 \<longrightarrow> y = halfH \<and> - halfW \<le> x \<and> x \<le> halfW)
            \<and> (edge = 3 \<longrightarrow> y = - halfH \<and> - halfW \<le> x \<and> x \<le> halfW)
            \<and> (\<bar>x\<bar> > (bounds_w scenario_C * scale scenario_C) / 2
                 \<or> \<bar>y\<bar> > (bounds_h scenario_C * scale scenario_C) / 2))"
    by blast
  have n: "0 < N scenario_C" by (simp add: scenario_C_def scenario_A_def)
  have "startPositions st' ! 1 = 6.93"
    using e[rule_format, OF n] by (simp add: Let_def scenario_C_def scenario_A_def)
  moreover have "draws st' = 72" "N st' = 4" using b by (simp_all add: scenario_C_def scenario_A_def)
  ultimately show ?thesis using h el t b(1) by simp
qed

text \<open>
  C7. For every particle and every time \<open>t\<close>, however far it jumps, the progress the frame
  computes is \<open>clamp01 ((t - tPhaseStart - buildStart) / buildDuration)\<close>, a number in \<open>[0, 1]\<close>;
  with a positive duration it is strictly increasing in \<open>t\<close> while its value is inside
  \<open>(0, 1)\<close>. So the position a BUILD\_SPIN frame writes is \<open>lerp spawn target e\<close> with
  \<open>e = easeOutExpo\<close> of that progress, one \<open>e\<close> in \<open>[0, 1]\<close> for the three coordinates: a point of
  the segment from spawn to target, each coordinate between its two ends; and once \<open>t\<close> is
  past \<open>buildStart + buildDuration\<close> the particle is at its target.
\<close>

theorem build_progress_clamped:
  assumes "wf_scene st" "0 < N st" "phase st = BUILD_SPIN"
  shows "(\<forall>i<N st. \<forall>t.
            progress t (tPhaseStart st) (startTimesBuild st ! i) (durationsBuild st ! i)
              = Some (clamp01 ((t - tPhaseStart st - startTimesBuild st ! i) / durationsBuild st ! i))
            \<and> 0 \<le> clamp01 ((t - tPhaseStart st - startTimesBuild st ! i) / durationsBuild st ! i)
            \<and> clamp01 ((t - tPhaseStart st - startTimesBuild st ! i) / durationsBuild st ! i) \<le> 1)
     \<and> (\<forall>i<N st. \<forall>t1 t2.
            t1 < t2
            \<and> 0 < clamp01 ((t1 - tPhaseStart st - startTimesBuild st ! i) / durationsBuild st ! i)
            \<and> clamp01 ((t1 - tPhaseStart st - startTimesBuild st ! i) / durationsBuild st ! i) < 1
            \<and> 0 < clamp01 ((t2 - tPhaseStart st - startTimesBuild st ! i) / durationsBuild st ! i)
            \<and> clamp01 ((t2 - tPhaseStart st - startTimesBuild st ! i) / durationsBuild st ! i) < 1
            \<longrightarrow> clamp01 ((t1 - tPhaseStart st - startTimesBuild st ! i) / durationsBuild st ! i)
                < clamp01 ((t2 - tPhaseStart st - startTimesBuild st ! i) / durationsBuild st ! i))
     \<and> (\<exists>st'. tick rnd f st = Some st'
          \<and> (\<forall>i<N st. \<exists>e.
                e = easeOutExpo (clamp01 ((now f - tPhaseStart st - startTimesBuild st ! i)
                                           / durationsBuild st ! i))
                \<and> 0 \<le> e \<and> e \<le> 1
                \<and> (\<forall>k<3. position st' ! (i * 3 + k)
                             = lerp (startPositions st ! (i * 3 + k)) (endPositions st ! (i * 3 + k)) e
                       \<and> min (startPositions st ! (i * 3 + k)) (endPositions st ! (i * 3 + k))
                           \<le> position st' ! (i * 3 + k)
                       \<and> position st' ! (i * 3 + k)
                           \<le> max (startPositions st ! (i * 3 + k)) (endPositions st ! (i * 3 + k)))
                \<and> (durationsBuild st ! i \<le> now f - tPhaseStart st - startTimesBuild st ! i
                     \<longrightarrow> (\<forall>k<3. position st' ! (i * 3 + k) = endPositions st ! (i * 3 + k)))))"
proof (intro conjI)
  show "\<forall>i<N st. \<forall>t.
            progress t (tPhaseStart st) (startTimesBuild st ! i) (durationsBuild st ! i)
              = Some (clamp01 ((t - tPhaseStart st - startTimesBuild st ! i) / durationsBuild st ! i))
            \<and> 0 \<le> clamp01 ((t - tPhaseStart st - startTimesBuild st ! i) / durationsBuild st ! i)
            \<and> clamp01 ((t - tPhaseStart st - startTimesBuild st ! i) / durationsBuild st ! i) \<le> 1"
  proof (intro allI impI)
    fix i t assume i: "i < N st"
    have d: "0 < durationsBuild st ! i" using assms(1) i by (rule wf_dur_build)
    show "progress t (tPhaseStart st) (startTimesBuild st ! i) (durationsBuild st ! i)
              = Some (clamp01 ((t - tPhaseStart st - startTimesBuild st ! i) / durationsBuild st ! i))
            \<and> 0 \<le> clamp01 ((t - tPhaseStart st - startTimesBuild st ! i) / durationsBuild st ! i)
            \<and> clamp01 ((t - tPhaseStart st - startTimesBuild st ! i) / durationsBuild st ! i) \<le> 1"
      using progress_Some[OF d] clamp01_range by blast
  qed
next
  show "\<forall>i<N st. \<forall>t1 t2.
            t1 < t2
            \<and> 0 < clamp01 ((t1 - tPhaseStart st - startTimesBuild st ! i) / durationsBuild st ! i)
            \<and> clamp01 ((t1 - tPhaseStart st - startTimesBuild st ! i) / durationsBuild st ! i) < 1
            \<and> 0 < clamp01 ((t2 - tPhaseStart st - startTimesBuild st ! i) / durationsBuild st ! i)
            \<and> clamp01 ((t2 - tPhaseStart st - startTimesBuild st ! i) / durationsBuild st ! i) < 1
            \<longrightarrow> clamp01 ((t1 - tPhaseStart st - startTimesBuild st ! i) / durationsBuild st ! i)
                < clamp01 ((t2 - tPhaseStart st - startTimesBuild st ! i) / durationsBuild st ! i)"
  proof (intro allI impI, elim conjE)
    fix i t1 t2 assume i: "i < N st" and lt: "t1 < t2"
      and r: "0 < clamp01 ((t1 - tPhaseStart st - startTimesBuild st ! i) / durationsBuild st ! i)"
        "clamp01 ((t1 - tPhaseStart st - startTimesBuild st ! i) / durationsBuild st ! i) < 1"
        "0 < clamp01 ((t2 - tPhaseStart st - startTimesBuild st ! i) / durationsBuild st ! i)"
        "clamp01 ((t2 - tPhaseStart st - startTimesBuild st ! i) / durationsBuild st ! i) < 1"
    have d: "0 < durationsBuild st ! i" using assms(1) i by (rule wf_dur_build)
    show "clamp01 ((t1 - tPhaseStart st - startTimesBuild st ! i) / durationsBuild st ! i)
                < clamp01 ((t2 - tPhaseStart st - startTimesBuild st ! i) / durationsBuild st ! i)"
      using d lt r by (rule clamp01_strict_mono)
  qed
next
  from tick_build[OF assms] obtain p where
    b: "built st (now f) (N st) p" and t: "tick rnd f st = Some (build_post f st p)" by blast
  have pos: "position (build_post f st p) = p" by (simp add: build_post_def Let_def)
  have per: "\<forall>i<N st. \<exists>e.
                e = easeOutExpo (clamp01 ((now f - tPhaseStart st - startTimesBuild st ! i)
                                           / durationsBuild st ! i))
                \<and> 0 \<le> e \<and> e \<le> 1
                \<and> (\<forall>k<3. position (build_post f st p) ! (i * 3 + k)
                             = lerp (startPositions st ! (i * 3 + k)) (endPositions st ! (i * 3 + k)) e
                       \<and> min (startPositions st ! (i * 3 + k)) (endPositions st ! (i * 3 + k))
                           \<le> position (build_post f st p) ! (i * 3 + k)
                       \<and> position (build_post f st p) ! (i * 3 + k)
                           \<le> max (startPositions st ! (i * 3 + k)) (endPositions st ! (i * 3 + k)))
                \<and> (durationsBuild st ! i \<le> now f - tPhaseStart st - startTimesBuild st ! i
                     \<longrightarrow> (\<forall>k<3. position (build_post f st p) ! (i * 3 + k) = endPositions st ! (i * 3 + k)))"
  proof (intro allI impI)
    fix i assume i: "i < N st"
    show "\<exists>e. e = easeOutExpo (clamp01 ((now f - tPhaseStart st - startTimesBuild st ! i)
                                           / durationsBuild st ! i))
                \<and> 0 \<le> e \<and> e \<le> 1
                \<and> (\<forall>k<3. position (build_post f st p) ! (i * 3 + k)
                             = lerp (startPositions st ! (i * 3 + k)) (endPositions st ! (i * 3 + k)) e
                       \<and> min (startPositions st ! (i * 3 + k)) (endPositions st ! (i * 3 + k))
                           \<le> position (build_post f st p) ! (i * 3 + k)
                       \<and> position (build_post f st p) ! (i * 3 + k)
                           \<le> max (startPositions st ! (i * 3 + k)) (endPositions st ! (i * 3 + k)))
                \<and> (durationsBuild st ! i \<le> now f - tPhaseStart st - startTimesBuild st ! i
                     \<longrightarrow> (\<forall>k<3. position (build_post f st p) ! (i * 3 + k) = endPositions st ! (i * 3 + k)))"
      unfolding pos using assms(1) b i by (rule build_particle)
  qed
  show "\<exists>st'. tick rnd f st = Some st'
          \<and> (\<forall>i<N st. \<exists>e.
                e = easeOutExpo (clamp01 ((now f - tPhaseStart st - startTimesBuild st ! i)
                                           / durationsBuild st ! i))
                \<and> 0 \<le> e \<and> e \<le> 1
                \<and> (\<forall>k<3. position st' ! (i * 3 + k)
                             = lerp (startPositions st ! (i * 3 + k)) (endPositions st ! (i * 3 + k)) e
                       \<and> min (startPositions st ! (i * 3 + k)) (endPositions st ! (i * 3 + k))
                           \<le> position st' ! (i * 3 + k)
                       \<and> position st' ! (i * 3 + k)
                           \<le> max (startPositions st ! (i * 3 + k)) (endPositions st ! (i * 3 + k)))
                \<and> (durationsBuild st ! i \<le> now f - tPhaseStart st - startTimesBuild st ! i
                     \<longrightarrow> (\<forall>k<3. position st' ! (i * 3 + k) = endPositions st ! (i * 3 + k))))"
    by (rule exI [of _ "build_post f st p"], rule conjI [OF t per])
qed

theorem build_progress_clamped_witness:
  "wf_scene scenario_A \<and> 0 < N scenario_A \<and> phase scenario_A = BUILD_SPIN
   \<and> progress (1 / 2) (tPhaseStart scenario_A) (startTimesBuild scenario_A ! 0)
        (durationsBuild scenario_A ! 0) = Some (1 / 4)
   \<and> progress 1 (tPhaseStart scenario_A) (startTimesBuild scenario_A ! 0)
        (durationsBuild scenario_A ! 0) = Some (1 / 2)
   \<and> progress 1000 (tPhaseStart scenario_A) (startTimesBuild scenario_A ! 0)
        (durationsBuild scenario_A ! 0) = Some 1
   \<and> clamp01 ((1 / 2 - tPhaseStart scenario_A - startTimesBuild scenario_A ! 0)
               / durationsBuild scenario_A ! 0)
     < clamp01 ((1 - tPhaseStart scenario_A - startTimesBuild scenario_A ! 0)
               / durationsBuild scenario_A ! 0)
   \<and> (\<exists>st'. tick steady_draws frame_A_mid scenario_A = Some st'
         \<and> position st' ! 0 = - 3793 / 3200)
   \<and> (\<exists>st'. tick steady_draws frame_A_stall scenario_A = Some st'
         \<and> position st' ! 0 = - 1)"
proof -
  have h: "wf_scene scenario_A" "0 < N scenario_A" "phase scenario_A = BUILD_SPIN"
    by (simp_all add: wf_scene_def scenario_A_def)
  have v: "tPhaseStart scenario_A = 0" "startTimesBuild scenario_A ! 0 = 0"
    "durationsBuild scenario_A ! 0 = 2" "startPositions scenario_A ! (0 * 3 + 0) = - 6.93"
    "endPositions scenario_A ! (0 * 3 + 0) = - 1"
    by (simp_all add: scenario_A_def)
  have n: "now frame_A_mid = 1" "now frame_A_stall = 1000"
    by (simp_all add: frame_A_mid_def frame_A_stall_def)
  have k: "(0::nat) < 3" by simp
  have c1: "clamp01 ((1 / 2 - tPhaseStart scenario_A - startTimesBuild scenario_A ! 0)
               / durationsBuild scenario_A ! 0) = 1 / 4"
    and c2: "clamp01 ((1 - tPhaseStart scenario_A - startTimesBuild scenario_A ! 0)
               / durationsBuild scenario_A ! 0) = 1 / 2"
    and c3: "clamp01 ((1000 - tPhaseStart scenario_A - startTimesBuild scenario_A ! 0)
               / durationsBuild scenario_A ! 0) = 1"
    unfolding v by (simp_all add: clamp01_def)
  note T = build_progress_clamped[OF h, of steady_draws frame_A_mid]
  note U = build_progress_clamped[OF h, of steady_draws frame_A_stall]
  note P = T[THEN conjunct1, rule_format, OF h(2), THEN conjunct1]
  have p1: "progress (1 / 2) (tPhaseStart scenario_A) (startTimesBuild scenario_A ! 0)
        (durationsBuild scenario_A ! 0) = Some (1 / 4)"
    using P[of "1 / 2"] unfolding c1 .
  have p2: "progress 1 (tPhaseStart scenario_A) (startTimesBuild scenario_A ! 0)
        (durationsBuild scenario_A ! 0) = Some (1 / 2)"
    using P[of 1] unfolding c2 .
  have p3: "progress 1000 (tPhaseStart scenario_A) (startTimesBuild scenario_A ! 0)
        (durationsBuild scenario_A ! 0) = Some 1"
    using P[of 1000] unfolding c3 .
  have pre: "(1 / 2 :: real) < 1
            \<and> 0 < clamp01 ((1 / 2 - tPhaseStart scenario_A - startTimesBuild scenario_A ! 0) / durationsBuild scenario_A ! 0)
            \<and> clamp01 ((1 / 2 - tPhaseStart scenario_A - startTimesBuild scenario_A ! 0) / durationsBuild scenario_A ! 0) < 1
            \<and> 0 < clamp01 ((1 - tPhaseStart scenario_A - startTimesBuild scenario_A ! 0) / durationsBuild scenario_A ! 0)
            \<and> clamp01 ((1 - tPhaseStart scenario_A - startTimesBuild scenario_A ! 0) / durationsBuild scenario_A ! 0) < 1"
    unfolding c1 c2 by simp
  have mono: "clamp01 ((1 / 2 - tPhaseStart scenario_A - startTimesBuild scenario_A ! 0)
               / durationsBuild scenario_A ! 0)
     < clamp01 ((1 - tPhaseStart scenario_A - startTimesBuild scenario_A ! 0)
               / durationsBuild scenario_A ! 0)"
    using T[THEN conjunct2, THEN conjunct1, rule_format, OF h(2) pre] .
  have m: "\<exists>st'. tick steady_draws frame_A_mid scenario_A = Some st'
         \<and> position st' ! 0 = - 3793 / 3200"
  proof -
    from T[THEN conjunct2, THEN conjunct2]
    show ?thesis
    proof (elim exE conjE)
      fix st'
      assume t: "tick steady_draws frame_A_mid scenario_A = Some st'"
        and pa: "\<forall>i<N scenario_A. \<exists>e.
                e = easeOutExpo (clamp01 ((now frame_A_mid - tPhaseStart scenario_A - startTimesBuild scenario_A ! i)
                                           / durationsBuild scenario_A ! i))
                \<and> 0 \<le> e \<and> e \<le> 1
                \<and> (\<forall>k<3. position st' ! (i * 3 + k)
                             = lerp (startPositions scenario_A ! (i * 3 + k)) (endPositions scenario_A ! (i * 3 + k)) e
                       \<and> min (startPositions scenario_A ! (i * 3 + k)) (endPositions scenario_A ! (i * 3 + k))
                           \<le> position st' ! (i * 3 + k)
                       \<and> position st' ! (i * 3 + k)
                           \<le> max (startPositions scenario_A ! (i * 3 + k)) (endPositions scenario_A ! (i * 3 + k)))
                \<and> (durationsBuild scenario_A ! i \<le> now frame_A_mid - tPhaseStart scenario_A - startTimesBuild scenario_A ! i
                     \<longrightarrow> (\<forall>k<3. position st' ! (i * 3 + k) = endPositions scenario_A ! (i * 3 + k)))"
      from pa[rule_format, OF h(2)] show ?thesis
      proof (elim exE conjE)
        fix e
        assume e: "e = easeOutExpo (clamp01 ((now frame_A_mid - tPhaseStart scenario_A - startTimesBuild scenario_A ! 0)
                                           / durationsBuild scenario_A ! 0))"
          and at: "\<forall>k<3. position st' ! (0 * 3 + k)
                             = lerp (startPositions scenario_A ! (0 * 3 + k)) (endPositions scenario_A ! (0 * 3 + k)) e
                       \<and> min (startPositions scenario_A ! (0 * 3 + k)) (endPositions scenario_A ! (0 * 3 + k))
                           \<le> position st' ! (0 * 3 + k)
                       \<and> position st' ! (0 * 3 + k)
                           \<le> max (startPositions scenario_A ! (0 * 3 + k)) (endPositions scenario_A ! (0 * 3 + k))"
        have e1: "e = 31 / 32" unfolding e n c2 using easeOutExpo_05 .
        have "position st' ! (0 * 3 + 0)
               = lerp (startPositions scenario_A ! (0 * 3 + 0)) (endPositions scenario_A ! (0 * 3 + 0)) e"
          using at[rule_format, OF k, THEN conjunct1] .
        then have "position st' ! 0 = - 3793 / 3200"
          unfolding v e1 by (simp add: lerp_def)
        then show ?thesis using t by blast
      qed
    qed
  qed
  have s: "\<exists>st'. tick steady_draws frame_A_stall scenario_A = Some st'
         \<and> position st' ! 0 = - 1"
  proof -
    from U[THEN conjunct2, THEN conjunct2]
    show ?thesis
    proof (elim exE conjE)
      fix st'
      assume t: "tick steady_draws frame_A_stall scenario_A = Some st'"
        and pa: "\<forall>i<N scenario_A. \<exists>e.
                e = easeOutExpo (clamp01 ((now frame_A_stall - tPhaseStart scenario_A - startTimesBuild scenario_A ! i)
                                           / durationsBuild scenario_A ! i))
                \<and> 0 \<le> e \<and> e \<le> 1
                \<and> (\<forall>k<3. position st' ! (i * 3 + k)
                             = lerp (startPositions scenario_A ! (i * 3 + k)) (endPositions scenario_A ! (i * 3 + k)) e
                       \<and> min (startPositions scenario_A ! (i * 3 + k)) (endPositions scenario_A ! (i * 3 + k))
                           \<le> position st' ! (i * 3 + k)
                       \<and> position st' ! (i * 3 + k)
                           \<le> max (startPositions scenario_A ! (i * 3 + k)) (endPositions scenario_A ! (i * 3 + k)))
                \<and> (durationsBuild scenario_A ! i \<le> now frame_A_stall - tPhaseStart scenario_A - startTimesBuild scenario_A ! i
                     \<longrightarrow> (\<forall>k<3. position st' ! (i * 3 + k) = endPositions scenario_A ! (i * 3 + k)))"
      from pa[rule_format, OF h(2)] show ?thesis
      proof (elim exE conjE)
        fix e
        assume snap: "durationsBuild scenario_A ! 0 \<le> now frame_A_stall - tPhaseStart scenario_A - startTimesBuild scenario_A ! 0
                     \<longrightarrow> (\<forall>k<3. position st' ! (0 * 3 + k) = endPositions scenario_A ! (0 * 3 + k))"
        have "durationsBuild scenario_A ! 0 \<le> now frame_A_stall - tPhaseStart scenario_A - startTimesBuild scenario_A ! 0"
          unfolding v n by simp
        then have "\<forall>k<3. position st' ! (0 * 3 + k) = endPositions scenario_A ! (0 * 3 + k)"
          using snap by blast
        then have "position st' ! (0 * 3 + 0) = endPositions scenario_A ! (0 * 3 + 0)"
          using k by blast
        then have "position st' ! 0 = - 1" unfolding v by simp
        then show ?thesis using t by blast
      qed
    qed
  qed
  show ?thesis by (intro conjI h p1 p2 p3 mono m s)
qed

text \<open>
  C8. On a BUILD\_SPIN frame \<open>avgBuildProgress\<close> is the mean of the particles' eased
  progress; where it exceeds \<open>0.92\<close> the overlay's opacity grows by \<open>0.03\<close>, capped at \<open>1\<close>, and
  on any other frame it is unchanged. It never passes \<open>1\<close>, and the step is the same whatever
  \<open>dt\<close> the frame measured.
\<close>

theorem overlay_fade_step:
  assumes "wf_scene st" "0 < N st" "phase st = BUILD_SPIN"
  shows "\<exists>st'. tick rnd f st = Some st'
     \<and> avgBuildProgress st' =
         (\<Sum>i<N st. easeOutExpo (clamp01 ((now f - tPhaseStart st - startTimesBuild st ! i)
                                            / durationsBuild st ! i))) / real (N st)
     \<and> plane_opacity st' =
         (if avgBuildProgress st' > BUILD_planeFadeAt then min 1 (plane_opacity st + 0.03)
          else plane_opacity st)
     \<and> (plane_opacity st \<le> 1 \<longrightarrow> plane_opacity st' \<le> 1)
     \<and> (\<forall>d. \<exists>st''. tick rnd (f\<lparr>dt := d\<rparr>) st = Some st''
                  \<and> plane_opacity st'' = plane_opacity st')"
proof -
  from tick_build[OF assms] obtain p where
    t: "tick rnd f st = Some (build_post f st p)" by blast
  have other: "\<exists>st''. tick rnd (f\<lparr>dt := d\<rparr>) st = Some st''
                  \<and> plane_opacity st'' = plane_opacity (build_post f st p)" for d
  proof -
    from tick_build[OF assms, of "f\<lparr>dt := d\<rparr>" rnd] obtain q where
      "tick rnd (f\<lparr>dt := d\<rparr>) st = Some (build_post (f\<lparr>dt := d\<rparr>) st q)" by blast
    then show ?thesis by (simp add: build_post_def Let_def)
  qed
  show ?thesis
  proof (intro exI conjI)
    show "tick rnd f st = Some (build_post f st p)" by (rule t)
    show "avgBuildProgress (build_post f st p) =
         (\<Sum>i<N st. easeOutExpo (clamp01 ((now f - tPhaseStart st - startTimesBuild st ! i)
                                            / durationsBuild st ! i))) / real (N st)"
      unfolding build_post_avg by (rule avg_build_sum)
    show "plane_opacity (build_post f st p) =
         (if avgBuildProgress (build_post f st p) > BUILD_planeFadeAt
          then min 1 (plane_opacity st + 0.03) else plane_opacity st)"
      by (rule build_post_opacity)
    show "plane_opacity st \<le> 1 \<longrightarrow> plane_opacity (build_post f st p) \<le> 1"
      unfolding build_post_opacity by simp
    show "\<forall>d. \<exists>st''. tick rnd (f\<lparr>dt := d\<rparr>) st = Some st''
                  \<and> plane_opacity st'' = plane_opacity (build_post f st p)"
      using other by blast
  qed
qed

theorem overlay_fade_step_witness:
  "wf_scene scenario_A \<and> 0 < N scenario_A \<and> phase scenario_A = BUILD_SPIN
   \<and> wf_scene scenario_A_faded \<and> 0 < N scenario_A_faded \<and> phase scenario_A_faded = BUILD_SPIN
   \<and> plane_opacity scenario_A = 0 \<and> plane_opacity scenario_A_faded = 0.98
   \<and> (\<exists>st'. tick steady_draws frame_A scenario_A = Some st'
         \<and> avgBuildProgress st' = 1 \<and> plane_opacity st' = 0.03)
   \<and> (\<exists>st'. tick steady_draws frame_A scenario_A_faded = Some st'
         \<and> avgBuildProgress st' = 1 \<and> plane_opacity st' = 1)
   \<and> (\<exists>st'. tick steady_draws frame_A_start scenario_A_faded = Some st'
         \<and> avgBuildProgress st' = 0 \<and> plane_opacity st' = 0.98)"
proof -
  have hf: "wf_scene scenario_A_faded" "0 < N scenario_A_faded" "phase scenario_A_faded = BUILD_SPIN"
    by (simp_all add: wf_scene_def scenario_A_faded_def scenario_A_def)
  have h: "wf_scene scenario_A" "0 < N scenario_A" "phase scenario_A = BUILD_SPIN"
    by (simp_all add: wf_scene_def scenario_A_def)
  have o: "plane_opacity scenario_A_faded = 0.98" "plane_opacity scenario_A = 0"
    by (simp_all add: scenario_A_faded_def scenario_A_def)
  have n: "now frame_A = 2" "now frame_A_start = 0" by (simp_all add: frame_A_def frame_A_start_def)
  have c1: "\<exists>st'. tick steady_draws frame_A scenario_A = Some st'
         \<and> avgBuildProgress st' = 1 \<and> plane_opacity st' = 0.03"
  proof -
    from overlay_fade_step[OF h, of steady_draws frame_A, unfolded n mean_scenario_A]
    show ?thesis
    proof (elim exE conjE)
      fix st'
      assume t: "tick steady_draws frame_A scenario_A = Some st'"
        and a: "avgBuildProgress st' = easeOutExpo (clamp01 (2 / 2))"
        and op: "plane_opacity st' =
           (if avgBuildProgress st' > BUILD_planeFadeAt then min 1 (plane_opacity scenario_A + 0.03)
            else plane_opacity scenario_A)"
      have a1: "avgBuildProgress st' = 1" unfolding a by (rule eased_values(1))
      have "plane_opacity st' = 0.03" using op unfolding a1 o by simp
      then show ?thesis using t a1 by blast
    qed
  qed
  have c2: "\<exists>st'. tick steady_draws frame_A scenario_A_faded = Some st'
         \<and> avgBuildProgress st' = 1 \<and> plane_opacity st' = 1"
  proof -
    from overlay_fade_step[OF hf, of steady_draws frame_A, unfolded n mean_scenario_A_faded]
    show ?thesis
    proof (elim exE conjE)
      fix st'
      assume t: "tick steady_draws frame_A scenario_A_faded = Some st'"
        and a: "avgBuildProgress st' = easeOutExpo (clamp01 (2 / 2))"
        and op: "plane_opacity st' =
           (if avgBuildProgress st' > BUILD_planeFadeAt then min 1 (plane_opacity scenario_A_faded + 0.03)
            else plane_opacity scenario_A_faded)"
      have a1: "avgBuildProgress st' = 1" unfolding a by (rule eased_values(1))
      have "plane_opacity st' = 1" using op unfolding a1 o by simp
      then show ?thesis using t a1 by blast
    qed
  qed
  have c3: "\<exists>st'. tick steady_draws frame_A_start scenario_A_faded = Some st'
         \<and> avgBuildProgress st' = 0 \<and> plane_opacity st' = 0.98"
  proof -
    from overlay_fade_step[OF hf, of steady_draws frame_A_start, unfolded n mean_scenario_A_faded]
    show ?thesis
    proof (elim exE conjE)
      fix st'
      assume t: "tick steady_draws frame_A_start scenario_A_faded = Some st'"
        and a: "avgBuildProgress st' = easeOutExpo (clamp01 (0 / 2))"
        and op: "plane_opacity st' =
           (if avgBuildProgress st' > BUILD_planeFadeAt then min 1 (plane_opacity scenario_A_faded + 0.03)
            else plane_opacity scenario_A_faded)"
      have a1: "avgBuildProgress st' = 0" unfolding a by (rule eased_values(3))
      have "plane_opacity st' = 0.98" using op unfolding a1 o by simp
      then show ?thesis using t a1 by blast
    qed
  qed
  show ?thesis by (intro conjI h hf o(2) o(1) c1 c2 c3)
qed

text \<open>
  C9. The ease functions fix their endpoints: \<open>easeOutExpo 0 = 0\<close>, \<open>easeOutExpo 1 = 1\<close>,
  \<open>easeInCubic 0 = 0\<close>, \<open>easeInCubic 1 = 1\<close>. So a particle interpolated at eased progress 0
  is exactly at its start point and at eased progress 1 exactly at its end point, for both
  ease curves.
\<close>

theorem ease_endpoints:
  "easeOutExpo 0 = 0 \<and> easeOutExpo 1 = 1 \<and> easeInCubic 0 = 0 \<and> easeInCubic 1 = 1
   \<and> lerp spawn target (easeOutExpo 0) = spawn \<and> lerp spawn target (easeOutExpo 1) = target
   \<and> lerp target exit (easeInCubic 0) = target \<and> lerp target exit (easeInCubic 1) = exit"
  by (simp add: easeOutExpo_def easeInCubic_def lerp_def)

text \<open>
  C10. The exit target is computed for every particle, the one at the image centre included:
  where the planar distance \<open>Math.hypot(vx, vy)\<close> is \<open>0\<close> the length is replaced by \<open>1\<close>, so the
  length is positive, both divisions succeed, \<open>prepareBuildCycle\<close> returns, and the exit target
  of a particle at the centre has \<open>x = y = 0\<close>.
\<close>

theorem exit_target_total:
  assumes len: "length (endPositions st) = N st * 3"
  shows "\<exists>st'. prepareBuildCycle rnd tnow st = Some st'
     \<and> (\<forall>i<N st.
          (let vx = endPositions st ! (i * 3);
               vy = endPositions st ! (i * 3 + 1);
               len = (if Math_hypot vx vy = 0 then 1 else Math_hypot vx vy);
               mag = EXIT_pushDistance + rnd (draws st + 5 * i + 3) * (LOGO_DIAMETER * 0.8)
           in 0 < len
            \<and> js_div vx len = Some (vx / len) \<and> js_div vy len = Some (vy / len)
            \<and> exitPositions st' ! (i * 3) = vx + vx / len * mag
            \<and> exitPositions st' ! (i * 3 + 1) = vy + vy / len * mag
            \<and> exitPositions st' ! (i * 3 + 2) = (rnd (draws st + 5 * i + 4) * 2 - 1) * 1.2
            \<and> (vx = 0 \<and> vy = 0 \<longrightarrow> len = 1 \<and> exitPositions st' ! (i * 3) = 0
                                      \<and> exitPositions st' ! (i * 3 + 1) = 0)))"
proof -
  from prepare_eq[OF len, of rnd tnow] obtain sp ep tb db te de where
    run: "prepareBuildCycle rnd tnow st = Some (prepare_post st tnow sp ep tb db te de)"
    and fep: "filled3 (N st) (N st) (\<lambda>i. exit_coord rnd (endPositions st) (draws st + 5 * i) i) ep"
    by blast
  let ?st' = "prepare_post st tnow sp ep tb db te de"
  have ep: "exitPositions ?st' = ep" by (simp add: prepare_post_def)
  have per: "(let vx = endPositions st ! (i * 3);
               vy = endPositions st ! (i * 3 + 1);
               len = (if Math_hypot vx vy = 0 then 1 else Math_hypot vx vy);
               mag = EXIT_pushDistance + rnd (draws st + 5 * i + 3) * (LOGO_DIAMETER * 0.8)
           in 0 < len
            \<and> js_div vx len = Some (vx / len) \<and> js_div vy len = Some (vy / len)
            \<and> exitPositions ?st' ! (i * 3) = vx + vx / len * mag
            \<and> exitPositions ?st' ! (i * 3 + 1) = vy + vy / len * mag
            \<and> exitPositions ?st' ! (i * 3 + 2) = (rnd (draws st + 5 * i + 4) * 2 - 1) * 1.2
            \<and> (vx = 0 \<and> vy = 0 \<longrightarrow> len = 1 \<and> exitPositions ?st' ! (i * 3) = 0
                                      \<and> exitPositions ?st' ! (i * 3 + 1) = 0))"
    if i: "i < N st" for i
  proof -
    have pos: "0 < exit_len (endPositions st) i" by (rule exit_len_pos)
    define m where "m = rnd (Suc (Suc (Suc (draws st + 5 * i))))"
    define z where "z = rnd (Suc (Suc (Suc (Suc (draws st + 5 * i)))))"
    have c3: "draws st + 5 * i + 3 = Suc (Suc (Suc (draws st + 5 * i)))"
      and c4: "draws st + 5 * i + 4 = Suc (Suc (Suc (Suc (draws st + 5 * i))))" by arith+
    have m: "rnd (draws st + 5 * i + 3) = m" and z: "rnd (draws st + 5 * i + 4) = z"
      unfolding m_def z_def c3 c4 by (rule refl)+
    note nth = filled3_nth[OF fep i, unfolded exit_coord_def Let_def, folded m_def z_def]
    have x: "ep ! (i * 3) = endPositions st ! (i * 3)
        + endPositions st ! (i * 3) / exit_len (endPositions st) i
          * (EXIT_pushDistance + m * (LOGO_DIAMETER * 0.8))"
      and y: "ep ! (i * 3 + 1) = endPositions st ! (i * 3 + 1)
        + endPositions st ! (i * 3 + 1) / exit_len (endPositions st) i
          * (EXIT_pushDistance + m * (LOGO_DIAMETER * 0.8))"
      and w: "ep ! (i * 3 + 2) = (z * 2 - 1) * 1.2"
      using nth by simp_all
    have hnn: "0 \<le> Math_hypot (endPositions st ! (i * 3)) (endPositions st ! (i * 3 + 1))"
      by (simp add: Math_hypot_def)
    have h0: "endPositions st ! (i * 3) = 0 \<and> endPositions st ! (i * 3 + 1) = 0
        \<longrightarrow> Math_hypot (endPositions st ! (i * 3)) (endPositions st ! (i * 3 + 1)) = 0"
      by (simp add: Math_hypot_def)
    show ?thesis
      unfolding ep Let_def m z x y w
      using hnn h0 by (auto simp add: exit_len_def Let_def js_div_def)
  qed
  show ?thesis
  proof (intro exI conjI)
    show "prepareBuildCycle rnd tnow st = Some ?st'" by (rule run)
    show "\<forall>i<N st.
          (let vx = endPositions st ! (i * 3);
               vy = endPositions st ! (i * 3 + 1);
               len = (if Math_hypot vx vy = 0 then 1 else Math_hypot vx vy);
               mag = EXIT_pushDistance + rnd (draws st + 5 * i + 3) * (LOGO_DIAMETER * 0.8)
           in 0 < len
            \<and> js_div vx len = Some (vx / len) \<and> js_div vy len = Some (vy / len)
            \<and> exitPositions ?st' ! (i * 3) = vx + vx / len * mag
            \<and> exitPositions ?st' ! (i * 3 + 1) = vy + vy / len * mag
            \<and> exitPositions ?st' ! (i * 3 + 2) = (rnd (draws st + 5 * i + 4) * 2 - 1) * 1.2
            \<and> (vx = 0 \<and> vy = 0 \<longrightarrow> len = 1 \<and> exitPositions ?st' ! (i * 3) = 0
                                      \<and> exitPositions ?st' ! (i * 3 + 1) = 0))"
      by (intro allI impI) (rule per)
  qed
qed

theorem exit_target_total_witness:
  "length (endPositions scenario_C) = N scenario_C * 3
   \<and> endPositions scenario_C ! (3 * 3) = 0 \<and> endPositions scenario_C ! (3 * 3 + 1) = 0
   \<and> (\<exists>st'. prepareBuildCycle (\<lambda>k. 1 / 2) 21 scenario_C = Some st'
         \<and> exitPositions st' ! (3 * 3) = 0 \<and> exitPositions st' ! (3 * 3 + 1) = 0)"
proof -
  have h: "length (endPositions scenario_C) = N scenario_C * 3"
    by (simp add: scenario_C_def scenario_A_def)
  have z: "endPositions scenario_C ! (3 * 3) = 0" "endPositions scenario_C ! (3 * 3 + 1) = 0"
    by (simp_all add: scenario_C_def scenario_A_def)
  have n: "3 < N scenario_C" by (simp add: scenario_C_def scenario_A_def)
  from exit_target_total[OF h, of "\<lambda>k. 1 / 2" 21] obtain st' where
    t: "prepareBuildCycle (\<lambda>k. 1 / 2) 21 scenario_C = Some st'"
    and e: "\<forall>i<N scenario_C.
          (let vx = endPositions scenario_C ! (i * 3);
               vy = endPositions scenario_C ! (i * 3 + 1);
               len = (if Math_hypot vx vy = 0 then 1 else Math_hypot vx vy);
               mag = EXIT_pushDistance + (\<lambda>k. 1 / 2 :: real) (draws scenario_C + 5 * i + 3) * (LOGO_DIAMETER * 0.8)
           in 0 < len
            \<and> js_div vx len = Some (vx / len) \<and> js_div vy len = Some (vy / len)
            \<and> exitPositions st' ! (i * 3) = vx + vx / len * mag
            \<and> exitPositions st' ! (i * 3 + 1) = vy + vy / len * mag
            \<and> exitPositions st' ! (i * 3 + 2) = ((\<lambda>k. 1 / 2 :: real) (draws scenario_C + 5 * i + 4) * 2 - 1) * 1.2
            \<and> (vx = 0 \<and> vy = 0 \<longrightarrow> len = 1 \<and> exitPositions st' ! (i * 3) = 0
                                      \<and> exitPositions st' ! (i * 3 + 1) = 0))"
    by blast
  have "exitPositions st' ! (3 * 3) = 0 \<and> exitPositions st' ! (3 * 3 + 1) = 0"
    using e[rule_format, OF n] z by (simp add: Let_def)
  then show ?thesis using h z t by blast
qed

end
